theory Spec2Isabelle
  imports Main "HOL-Library.Log_Nat" "HOL-Library.AList" "HOL-Library.Char_ord"
    "HOL-Library.List_Lexorder"
begin

section \<open>JavaScript numbers\<close>

text \<open>
  The grading service converts every stored decimal with \<^verbatim>\<open>Number(...)\<close> and computes
  with JavaScript numbers, that is, IEEE 754 binary64 values under round-to-nearest,
  ties-to-even. A finite value is kept as the rational it denotes; every arithmetic
  operation computes the exact rational result and rounds it with \<open>rnd\<close>.

  Zero carries no sign here: \<open>+0\<close> and \<open>-0\<close> are one value, and a zero divisor behaves as
  \<open>+0\<close>. The program divides only by \<^verbatim>\<open>Number(score.maxScore)\<close> (a stored decimal, which
  has no negative zero), by \<^verbatim>\<open>totalWeight\<close> after testing \<^verbatim>\<open>totalWeight > 0\<close>, and by the
  literal 100, so the sign of a zero is never observed.
\<close>

datatype number = Fin rat | PosInf | NegInf | NaN

text \<open>\<open>ilog2 q\<close> is the binary exponent of \<open>q \<noteq> 0\<close>: the \<open>e\<close> with \<open>2\<^sup>e \<le> |q| < 2\<^sup>e\<^sup>+\<^sup>1\<close>.\<close>

definition ilog2 :: "rat \<Rightarrow> int" where
  "ilog2 q = (let (a, b) = quotient_of \<bar>q\<bar>;
                  k = int (floorlog 2 (nat a)) - int (floorlog 2 (nat b))
              in if 2 powi k \<le> \<bar>q\<bar> then k else k - 1)"

text \<open>Rounding to the nearest integer, a tie going to the even neighbour.\<close>

definition rhe :: "rat \<Rightarrow> int" where
  "rhe x = (let f = \<lfloor>x\<rfloor>; d = x - of_int f
            in if d < 1 / 2 then f
               else if 1 / 2 < d then f + 1
               else if even f then f else f + 1)"

text \<open>
  Rounding a rational to binary64: 53 significant bits, the exponent not below
  \<open>-1022\<close> (subnormal numbers share the spacing \<open>2\<^sup>-\<^sup>1\<^sup>0\<^sup>7\<^sup>4\<close>), and overflow to an infinity
  once the rounded magnitude reaches \<open>2\<^sup>1\<^sup>0\<^sup>2\<^sup>4\<close>.
\<close>

definition rnd :: "rat \<Rightarrow> number" where
  "rnd q = (if q = 0 then Fin 0
            else let e = max (ilog2 q) (- 1022);
                     u = 2 powi (e - 52);
                     r = of_int (rhe (q / u)) * u
                 in if 2 powi 1024 \<le> \<bar>r\<bar> then (if 0 < q then PosInf else NegInf)
                    else Fin r)"

text \<open>\<^verbatim>\<open>Number(d)\<close> for a stored decimal \<open>d\<close>: the nearest binary64 value.\<close>

definition Number :: "rat \<Rightarrow> number" where
  "Number d = rnd d"

text \<open>The operators \<^verbatim>\<open>+\<close>, \<^verbatim>\<open>*\<close> and \<^verbatim>\<open>/\<close> on numbers.\<close>

fun fadd :: "number \<Rightarrow> number \<Rightarrow> number" where
  "fadd (Fin a) (Fin b) = rnd (a + b)"
| "fadd NaN _ = NaN"
| "fadd _ NaN = NaN"
| "fadd PosInf NegInf = NaN"
| "fadd NegInf PosInf = NaN"
| "fadd PosInf _ = PosInf"
| "fadd _ PosInf = PosInf"
| "fadd NegInf _ = NegInf"
| "fadd _ NegInf = NegInf"

fun fmul :: "number \<Rightarrow> number \<Rightarrow> number" where
  "fmul (Fin a) (Fin b) = rnd (a * b)"
| "fmul NaN _ = NaN"
| "fmul _ NaN = NaN"
| "fmul (Fin a) PosInf = (if a = 0 then NaN else if 0 < a then PosInf else NegInf)"
| "fmul (Fin a) NegInf = (if a = 0 then NaN else if 0 < a then NegInf else PosInf)"
| "fmul PosInf (Fin b) = (if b = 0 then NaN else if 0 < b then PosInf else NegInf)"
| "fmul NegInf (Fin b) = (if b = 0 then NaN else if 0 < b then NegInf else PosInf)"
| "fmul PosInf PosInf = PosInf"
| "fmul PosInf NegInf = NegInf"
| "fmul NegInf PosInf = NegInf"
| "fmul NegInf NegInf = PosInf"

fun fdiv :: "number \<Rightarrow> number \<Rightarrow> number" where
  "fdiv (Fin a) (Fin b) =
     (if b = 0 then (if a = 0 then NaN else if 0 < a then PosInf else NegInf)
      else rnd (a / b))"
| "fdiv NaN _ = NaN"
| "fdiv _ NaN = NaN"
| "fdiv (Fin a) PosInf = Fin 0"
| "fdiv (Fin a) NegInf = Fin 0"
| "fdiv PosInf (Fin b) = (if 0 \<le> b then PosInf else NegInf)"
| "fdiv NegInf (Fin b) = (if 0 \<le> b then NegInf else PosInf)"
| "fdiv PosInf PosInf = NaN"
| "fdiv PosInf NegInf = NaN"
| "fdiv NegInf PosInf = NaN"
| "fdiv NegInf NegInf = NaN"

text \<open>\<^verbatim>\<open>Math.round\<close>: the nearest integer, a tie going up.\<close>

fun Math_round :: "number \<Rightarrow> number" where
  "Math_round (Fin x) = Fin (of_int \<lfloor>x + 1 / 2\<rfloor>)"
| "Math_round PosInf = PosInf"
| "Math_round NegInf = NegInf"
| "Math_round NaN = NaN"

text \<open>The comparisons \<^verbatim>\<open>x > y\<close>, \<^verbatim>\<open>x >= y\<close> and \<^verbatim>\<open>x < y\<close>; each is false when an operand is NaN.\<close>

fun gt :: "number \<Rightarrow> number \<Rightarrow> bool" where
  "gt (Fin a) (Fin b) = (b < a)"
| "gt NaN _ = False"
| "gt _ NaN = False"
| "gt PosInf PosInf = False"
| "gt PosInf _ = True"
| "gt NegInf _ = False"
| "gt (Fin a) PosInf = False"
| "gt (Fin a) NegInf = True"

fun ge :: "number \<Rightarrow> number \<Rightarrow> bool" where
  "ge (Fin a) (Fin b) = (b \<le> a)"
| "ge NaN _ = False"
| "ge _ NaN = False"
| "ge PosInf _ = True"
| "ge NegInf NegInf = True"
| "ge NegInf _ = False"
| "ge (Fin a) PosInf = False"
| "ge (Fin a) NegInf = True"

definition lt :: "number \<Rightarrow> number \<Rightarrow> bool" where
  "lt x y = gt y x"

section \<open>The stored data\<close>

datatype ScoreType = HOMEWORK | QUIZ | MIDTERM | FINAL | PROJECT | PARTICIPATION

text \<open>The position of a score type in the database enum, which \<^verbatim>\<open>ORDER BY\<close> follows.\<close>

fun scoreTypeRank :: "ScoreType \<Rightarrow> nat" where
  "scoreTypeRank HOMEWORK = 0"
| "scoreTypeRank QUIZ = 1"
| "scoreTypeRank MIDTERM = 2"
| "scoreTypeRank FINAL = 3"
| "scoreTypeRank PROJECT = 4"
| "scoreTypeRank PARTICIPATION = 5"

text \<open>
  A row of table \<^verbatim>\<open>Score\<close>. The columns \<^verbatim>\<open>score\<close>, \<^verbatim>\<open>maxScore\<close> and \<^verbatim>\<open>weight\<close> are decimals
  (\<^verbatim>\<open>DECIMAL(5,2)\<close>, \<^verbatim>\<open>DECIMAL(5,2)\<close>, \<^verbatim>\<open>DECIMAL(3,2)\<close>), kept as exact rationals. Identifiers
  are UUID strings; a time stamp is an opaque string.
\<close>

record Score =
  s_id :: string
  s_studentId :: string
  s_classSubjectId :: string
  s_subjectId :: string
  s_scoreType :: ScoreType
  s_score :: rat
  s_maxScore :: rat
  s_weight :: rat
  s_notes :: "string option"
  s_dateRecorded :: string

record Student =
  st_id :: string
  st_firstName :: string
  st_lastName :: string

record ClassSubject =
  cs_id :: string
  cs_classId :: string
  cs_subjectId :: string
  cs_semesterId :: string

record Enrollment =
  en_studentId :: string
  en_classId :: string
  en_academicYearId :: string
  en_status :: string

record AuditLog =
  al_userId :: string
  al_action :: string
  al_entityType :: string
  al_entityId :: "string option"

record Database =
  students :: "Student list"
  subjects :: "string list"
  classSubjects :: "ClassSubject list"
  enrollments :: "Enrollment list"
  scores :: "Score list"
  auditLogs :: "AuditLog list"

text \<open>\<^verbatim>\<open>findUnique({ where: { id } })\<close> on the three tables the grading service looks up.\<close>

definition findStudent :: "Database \<Rightarrow> string \<Rightarrow> Student option" where
  "findStudent db i = find (\<lambda>st. st_id st = i) (students db)"

definition findClassSubject :: "Database \<Rightarrow> string \<Rightarrow> ClassSubject option" where
  "findClassSubject db i = find (\<lambda>c. cs_id c = i) (classSubjects db)"

definition findSubject :: "Database \<Rightarrow> string \<Rightarrow> string option" where
  "findSubject db i = find (\<lambda>s. s = i) (subjects db)"

text \<open>
  A value of DECIMAL(p,s): a multiple of \<open>10\<^sup>-\<^sup>s\<close> with fewer than \<open>p\<close> digits.
  \<open>validated\<close> is what the request schema demands of the three numeric fields
  (\<^verbatim>\<open>score: min(0)\<close>, \<^verbatim>\<open>maxScore: positive()\<close>, \<^verbatim>\<open>weight: min(0).max(1)\<close>) for a row held in
  these columns.
\<close>

definition decimal :: "nat \<Rightarrow> nat \<Rightarrow> rat \<Rightarrow> bool" where
  "decimal p s x = (of_int \<lfloor>x * 10 ^ s\<rfloor> = x * 10 ^ s \<and> \<bar>x * 10 ^ s\<bar> < 10 ^ p)"

definition validated :: "Score \<Rightarrow> bool" where
  "validated s =
     (decimal 5 2 (s_score s) \<and> decimal 5 2 (s_maxScore s) \<and> decimal 3 2 (s_weight s) \<and>
      0 \<le> s_score s \<and> 0 < s_maxScore s \<and> 0 \<le> s_weight s \<and> s_weight s \<le> 1)"

section \<open>The grade computation\<close>

text \<open>
  Both views compute, per score,
  \<^verbatim>\<open>percentage = (scoreNum / maxScoreNum) * 100\<close> and
  \<^verbatim>\<open>weightedScore = percentage * weightNum\<close>, report
  \<^verbatim>\<open>Math.round(x * 100) / 100\<close>, and finish each group with the same two statements
  for \<^verbatim>\<open>finalGrade\<close> and \<^verbatim>\<open>letterGrade\<close>.
\<close>

definition percentage :: "Score \<Rightarrow> number" where
  "percentage s = fmul (fdiv (Number (s_score s)) (Number (s_maxScore s))) (Fin 100)"

definition weightedScore :: "Score \<Rightarrow> number" where
  "weightedScore s = fmul (percentage s) (Number (s_weight s))"

definition round2 :: "number \<Rightarrow> number" where
  "round2 x = fdiv (Math_round (fmul x (Fin 100))) (Fin 100)"

definition finalGrade :: "number \<Rightarrow> number \<Rightarrow> number" where
  "finalGrade totalWeightedScore totalWeight =
     (if gt totalWeight (Fin 0) then round2 (fdiv totalWeightedScore totalWeight) else Fin 0)"

definition letterGrade :: "number \<Rightarrow> string" where
  "letterGrade g =
     (if ge g (Fin 90) then ''A''
      else if ge g (Fin 80) then ''B''
      else if ge g (Fin 70) then ''C''
      else if ge g (Fin 60) then ''D''
      else ''F'')"

subsection \<open>The report card: \<^verbatim>\<open>getStudentGrades\<close>\<close>

record ScoreEntry =
  e_id :: string
  e_scoreType :: ScoreType
  e_score :: rat
  e_maxScore :: rat
  e_weight :: rat
  e_percentage :: number
  e_weightedScore :: number
  e_notes :: "string option"
  e_dateRecorded :: string

text \<open>
  An accumulator of \<^verbatim>\<open>subjectGrades\<close>. The joined rows \<^verbatim>\<open>subject\<close>, \<^verbatim>\<open>class\<close> and
  \<^verbatim>\<open>semester\<close> are carried as their primary keys.
\<close>

record SubjectData =
  sd_subject :: string
  sd_class :: string
  sd_semester :: string
  sd_scores :: "ScoreEntry list"
  sd_totalWeightedScore :: number
  sd_totalWeight :: number

record SubjectGrade =
  g_subject :: string
  g_class :: string
  g_semester :: string
  g_scores :: "ScoreEntry list"
  g_finalGrade :: number
  g_letterGrade :: string
  g_totalWeight :: number

datatype error = Error string

text \<open>
  \<^verbatim>\<open>prisma.score.findMany({ where, include })\<close>: the student's scores, each with its
  class subject, in table order; \<^verbatim>\<open>if (semesterId)\<close> adds the semester filter for a
  non-empty string only.
\<close>

definition withClassSubject :: "Database \<Rightarrow> Score \<Rightarrow> (Score \<times> ClassSubject) option" where
  "withClassSubject db s = map_option (Pair s) (findClassSubject db (s_classSubjectId s))"

definition truthy :: "string option \<Rightarrow> bool" where
  "truthy v = (case v of None \<Rightarrow> False | Some s \<Rightarrow> s \<noteq> [])"

definition scoresOfStudent :: "Database \<Rightarrow> string \<Rightarrow> string option \<Rightarrow> (Score \<times> ClassSubject) list" where
  "scoresOfStudent db studentId semesterId =
     filter (\<lambda>row. s_studentId (fst row) = studentId \<and>
                    (if truthy semesterId then cs_semesterId (snd row) = the semesterId else True))
       (List.map_filter (withClassSubject db) (scores db))"

text \<open>
  The object \<^verbatim>\<open>subjectGrades\<close> is an association list in insertion order, which is the
  order \<^verbatim>\<open>Object.values\<close> follows for keys that are not array indices. \<open>groupScore\<close> is
  the body of \<^verbatim>\<open>scores.forEach\<close>.
\<close>

definition scoreEntry :: "Score \<Rightarrow> ScoreEntry" where
  "scoreEntry s =
     \<lparr>e_id = s_id s, e_scoreType = s_scoreType s, e_score = s_score s,
      e_maxScore = s_maxScore s, e_weight = s_weight s,
      e_percentage = round2 (percentage s),
      e_weightedScore = round2 (weightedScore s),
      e_notes = s_notes s, e_dateRecorded = s_dateRecorded s\<rparr>"

definition pushScore :: "Score \<Rightarrow> SubjectData \<Rightarrow> SubjectData" where
  "pushScore s d =
     d\<lparr>sd_scores := sd_scores d @ [scoreEntry s],
       sd_totalWeightedScore := fadd (sd_totalWeightedScore d) (weightedScore s),
       sd_totalWeight := fadd (sd_totalWeight d) (Number (s_weight s))\<rparr>"

definition newSubjectData :: "Score \<times> ClassSubject \<Rightarrow> SubjectData" where
  "newSubjectData row =
     \<lparr>sd_subject = s_subjectId (fst row), sd_class = cs_classId (snd row),
      sd_semester = cs_semesterId (snd row), sd_scores = [],
      sd_totalWeightedScore = Fin 0, sd_totalWeight = Fin 0\<rparr>"

definition groupScore ::
  "(string \<times> SubjectData) list \<Rightarrow> Score \<times> ClassSubject \<Rightarrow> (string \<times> SubjectData) list" where
  "groupScore subjectGrades row =
     (let subjectId = s_subjectId (fst row);
          created = (if map_of subjectGrades subjectId = None
                     then subjectGrades @ [(subjectId, newSubjectData row)]
                     else subjectGrades)
      in AList.map_entry subjectId (pushScore (fst row)) created)"

definition subjectGrade :: "SubjectData \<Rightarrow> SubjectGrade" where
  "subjectGrade d =
     (let g = finalGrade (sd_totalWeightedScore d) (sd_totalWeight d)
      in \<lparr>g_subject = sd_subject d, g_class = sd_class d, g_semester = sd_semester d,
          g_scores = sd_scores d, g_finalGrade = g, g_letterGrade = letterGrade g,
          g_totalWeight = sd_totalWeight d\<rparr>)"

definition getStudentGrades ::
  "Database \<Rightarrow> string \<Rightarrow> string option \<Rightarrow> error + SubjectGrade list" where
  "getStudentGrades db studentId semesterId =
     (case findStudent db studentId of
        None \<Rightarrow> Inl (Error ''Student not found'')
      | Some student \<Rightarrow>
          Inr (map (subjectGrade \<circ> snd)
                 (foldl groupScore [] (scoresOfStudent db studentId semesterId))))"

subsection \<open>The grade book: \<^verbatim>\<open>getClassSubjectScores\<close>\<close>

record ClassScoreEntry =
  ce_id :: string
  ce_scoreType :: ScoreType
  ce_score :: rat
  ce_maxScore :: rat
  ce_weight :: rat
  ce_percentage :: number
  ce_dateRecorded :: string

record StudentData =
  sn_student :: string
  sn_scores :: "ClassScoreEntry list"
  sn_totalWeightedScore :: number
  sn_totalWeight :: number

record StudentGrade =
  sg_student :: string
  sg_scores :: "ClassScoreEntry list"
  sg_finalGrade :: number
  sg_letterGrade :: string

text \<open>
  The class's enrollments with \<^verbatim>\<open>status: 'ACTIVE'\<close>, and the scores of the class subject
  ordered by the student's last name, then by score type. The order of strings is
  the lexicographic one; rows the two keys do not separate keep their table order.
\<close>

definition activeEnrollments :: "Database \<Rightarrow> ClassSubject \<Rightarrow> Enrollment list" where
  "activeEnrollments db classSubject =
     filter (\<lambda>e. en_classId e = cs_classId classSubject \<and> en_status e = ''ACTIVE'')
       (enrollments db)"

definition withStudent :: "Database \<Rightarrow> Score \<Rightarrow> (Score \<times> Student) option" where
  "withStudent db s = map_option (Pair s) (findStudent db (s_studentId s))"

definition scoresOfClassSubject :: "Database \<Rightarrow> string \<Rightarrow> Score list" where
  "scoresOfClassSubject db classSubjectId =
     map fst
       (sort_key (\<lambda>row. st_lastName (snd row))
          (sort_key (\<lambda>row. scoreTypeRank (s_scoreType (fst row)))
             (filter (\<lambda>row. s_classSubjectId (fst row) = classSubjectId)
                (List.map_filter (withStudent db) (scores db)))))"

definition newStudentData :: "Enrollment \<Rightarrow> StudentData" where
  "newStudentData enrollment =
     \<lparr>sn_student = en_studentId enrollment, sn_scores = [],
      sn_totalWeightedScore = Fin 0, sn_totalWeight = Fin 0\<rparr>"

definition initStudent :: "(string \<times> StudentData) list \<Rightarrow> Enrollment \<Rightarrow> (string \<times> StudentData) list" where
  "initStudent studentScores enrollment =
     AList.update (en_studentId enrollment) (newStudentData enrollment) studentScores"

definition classScoreEntry :: "Score \<Rightarrow> ClassScoreEntry" where
  "classScoreEntry s =
     \<lparr>ce_id = s_id s, ce_scoreType = s_scoreType s, ce_score = s_score s,
      ce_maxScore = s_maxScore s, ce_weight = s_weight s,
      ce_percentage = round2 (percentage s), ce_dateRecorded = s_dateRecorded s\<rparr>"

definition pushClassScore :: "Score \<Rightarrow> StudentData \<Rightarrow> StudentData" where
  "pushClassScore s d =
     d\<lparr>sn_scores := sn_scores d @ [classScoreEntry s],
       sn_totalWeightedScore := fadd (sn_totalWeightedScore d) (weightedScore s),
       sn_totalWeight := fadd (sn_totalWeight d) (Number (s_weight s))\<rparr>"

definition addClassScore :: "(string \<times> StudentData) list \<Rightarrow> Score \<Rightarrow> (string \<times> StudentData) list" where
  "addClassScore studentScores s =
     (if map_of studentScores (s_studentId s) = None then studentScores
      else AList.map_entry (s_studentId s) (pushClassScore s) studentScores)"

definition studentGrade :: "StudentData \<Rightarrow> StudentGrade" where
  "studentGrade d =
     (let g = finalGrade (sn_totalWeightedScore d) (sn_totalWeight d)
      in \<lparr>sg_student = sn_student d, sg_scores = sn_scores d,
          sg_finalGrade = g, sg_letterGrade = letterGrade g\<rparr>)"

definition getClassSubjectScores ::
  "Database \<Rightarrow> string \<Rightarrow> error + ClassSubject \<times> StudentGrade list" where
  "getClassSubjectScores db classSubjectId =
     (case findClassSubject db classSubjectId of
        None \<Rightarrow> Inl (Error ''Class subject not found'')
      | Some classSubject \<Rightarrow>
          Inr (classSubject,
               map (studentGrade \<circ> snd)
                 (foldl addClassScore
                    (foldl initStudent [] (activeEnrollments db classSubject))
                    (scoresOfClassSubject db classSubjectId))))"

section \<open>The aggregation of one group, as specified\<close>

text \<open>
  The specification's \<^verbatim>\<open>aggregate(records)\<close> for one group that is already
  partitioned: the totals are running sums, from 0, in the order of the records.
\<close>

definition totalWeightedScore :: "Score list \<Rightarrow> number" where
  "totalWeightedScore records = foldl fadd (Fin 0) (map weightedScore records)"

definition totalWeight :: "Score list \<Rightarrow> number" where
  "totalWeight records = foldl fadd (Fin 0) (map (\<lambda>s. Number (s_weight s)) records)"

definition aggregate :: "Score list \<Rightarrow> number \<times> string" where
  "aggregate records =
     (let g = (if gt (totalWeight records) (Fin 0)
               then round2 (fdiv (totalWeightedScore records) (totalWeight records))
               else Fin 0)
      in (g, letterGrade g))"

text \<open>The bands as the specification states them: F is for the final grades below 60.\<close>

definition banded :: "number \<Rightarrow> string \<Rightarrow> bool" where
  "banded g letter =
     ((letter = ''A'') = ge g (Fin 90) \<and>
      (letter = ''B'') = (ge g (Fin 80) \<and> lt g (Fin 90)) \<and>
      (letter = ''C'') = (ge g (Fin 70) \<and> lt g (Fin 80)) \<and>
      (letter = ''D'') = (ge g (Fin 60) \<and> lt g (Fin 70)) \<and>
      (letter = ''F'') = lt g (Fin 60))"

text \<open>
  The bands as the program has them: every comparison with NaN is false, so a final
  grade that is NaN falls through to F.
\<close>

definition bandedOrNaN :: "number \<Rightarrow> string \<Rightarrow> bool" where
  "bandedOrNaN g letter =
     ((letter = ''A'') = ge g (Fin 90) \<and>
      (letter = ''B'') = (ge g (Fin 80) \<and> lt g (Fin 90)) \<and>
      (letter = ''C'') = (ge g (Fin 70) \<and> lt g (Fin 80)) \<and>
      (letter = ''D'') = (ge g (Fin 60) \<and> lt g (Fin 70)) \<and>
      (letter = ''F'') = (lt g (Fin 60) \<or> g = NaN))"

section \<open>Creating and updating scores\<close>

text \<open>
  A request body is JSON. The string formats \<^verbatim>\<open>uuid()\<close> and \<^verbatim>\<open>datetime()\<close> belong to the
  validation library and are parameters here, as are the three things the store
  supplies: the identifier of a new row, the current time, and the conversion of a
  number to a decimal column (which the store may refuse).
\<close>

datatype json = JUndefined | JNull | JBool bool | JNum number | JStr string | JArray | JObject

record Body =
  b_studentId :: json
  b_classSubjectId :: json
  b_subjectId :: json
  b_scoreType :: json
  b_score :: json
  b_maxScore :: json
  b_weight :: json
  b_notes :: json
  b_dateRecorded :: json

record Formats =
  uuid :: "string \<Rightarrow> bool"
  datetime :: "string \<Rightarrow> bool"

record Store =
  newId :: string
  newIds :: "nat \<Rightarrow> string"
  now :: string
  toDecimal :: "nat \<Rightarrow> nat \<Rightarrow> number \<Rightarrow> string + rat"

text \<open>The field schemas: each yields the parsed value, or \<open>None\<close> for an issue.\<close>

definition zString :: "(string \<Rightarrow> bool) \<Rightarrow> json \<Rightarrow> string option" where
  "zString ok j = (case j of JStr s \<Rightarrow> if ok s then Some s else None | _ \<Rightarrow> None)"

definition zNumber :: "(number \<Rightarrow> bool) \<Rightarrow> json \<Rightarrow> number option" where
  "zNumber ok j = (case j of JNum n \<Rightarrow> if n \<noteq> NaN \<and> ok n then Some n else None | _ \<Rightarrow> None)"

definition zOptional :: "(json \<Rightarrow> 'a option) \<Rightarrow> json \<Rightarrow> 'a option option" where
  "zOptional p j = (case j of JUndefined \<Rightarrow> Some None | _ \<Rightarrow> map_option Some (p j))"

fun scoreTypeOf :: "string \<Rightarrow> ScoreType option" where
  "scoreTypeOf s =
     (if s = ''HOMEWORK'' then Some HOMEWORK
      else if s = ''QUIZ'' then Some QUIZ
      else if s = ''MIDTERM'' then Some MIDTERM
      else if s = ''FINAL'' then Some FINAL
      else if s = ''PROJECT'' then Some PROJECT
      else if s = ''PARTICIPATION'' then Some PARTICIPATION
      else None)"

definition zScoreType :: "json \<Rightarrow> ScoreType option" where
  "zScoreType j = (case j of JStr s \<Rightarrow> scoreTypeOf s | _ \<Rightarrow> None)"

text \<open>
  \<^verbatim>\<open>score: z.number().min(0)\<close>, \<^verbatim>\<open>maxScore: z.number().positive()\<close>,
  \<^verbatim>\<open>weight: z.number().min(0).max(1)\<close>.
\<close>

definition zScore :: "json \<Rightarrow> number option" where
  "zScore = zNumber (\<lambda>n. ge n (Fin 0))"

definition zMaxScore :: "json \<Rightarrow> number option" where
  "zMaxScore = zNumber (\<lambda>n. gt n (Fin 0))"

definition zWeight :: "json \<Rightarrow> number option" where
  "zWeight = zNumber (\<lambda>n. ge n (Fin 0) \<and> ge (Fin 1) n)"

definition issue :: "string \<Rightarrow> 'a option \<Rightarrow> string list" where
  "issue path r = (case r of None \<Rightarrow> [path] | Some _ \<Rightarrow> [])"

record CreateScoreInput =
  ci_studentId :: string
  ci_classSubjectId :: string
  ci_subjectId :: string
  ci_scoreType :: ScoreType
  ci_score :: number
  ci_maxScore :: number
  ci_weight :: number
  ci_notes :: "string option"
  ci_dateRecorded :: "string option"

record UpdateScoreInput =
  ui_score :: "number option"
  ui_maxScore :: "number option"
  ui_weight :: "number option"
  ui_notes :: "string option"

text \<open>\<^verbatim>\<open>schema.parse(req.body)\<close>: the parsed object, or the paths of the issues (a ZodError).\<close>

definition createScoreSchema :: "Formats \<Rightarrow> Body \<Rightarrow> string list + CreateScoreInput" where
  "createScoreSchema fm body =
     (let studentId = zString (uuid fm) (b_studentId body);
          classSubjectId = zString (uuid fm) (b_classSubjectId body);
          subjectId = zString (uuid fm) (b_subjectId body);
          scoreType = zScoreType (b_scoreType body);
          score = zScore (b_score body);
          maxScore = zMaxScore (b_maxScore body);
          weight = zWeight (b_weight body);
          notes = zOptional (zString (\<lambda>s. True)) (b_notes body);
          dateRecorded = zOptional (zString (datetime fm)) (b_dateRecorded body);
          issues = issue ''studentId'' studentId @ issue ''classSubjectId'' classSubjectId @
                   issue ''subjectId'' subjectId @ issue ''scoreType'' scoreType @
                   issue ''score'' score @ issue ''maxScore'' maxScore @
                   issue ''weight'' weight @ issue ''notes'' notes @
                   issue ''dateRecorded'' dateRecorded
      in if issues = []
         then Inr \<lparr>ci_studentId = the studentId, ci_classSubjectId = the classSubjectId,
                   ci_subjectId = the subjectId, ci_scoreType = the scoreType,
                   ci_score = the score, ci_maxScore = the maxScore, ci_weight = the weight,
                   ci_notes = the notes, ci_dateRecorded = the dateRecorded\<rparr>
         else Inl issues)"

definition updateScoreSchema :: "Body \<Rightarrow> string list + UpdateScoreInput" where
  "updateScoreSchema body =
     (let score = zOptional zScore (b_score body);
          maxScore = zOptional zMaxScore (b_maxScore body);
          weight = zOptional zWeight (b_weight body);
          notes = zOptional (zString (\<lambda>s. True)) (b_notes body);
          issues = issue ''score'' score @ issue ''maxScore'' maxScore @
                   issue ''weight'' weight @ issue ''notes'' notes
      in if issues = []
         then Inr \<lparr>ui_score = the score, ui_maxScore = the maxScore,
                   ui_weight = the weight, ui_notes = the notes\<rparr>
         else Inl issues)"

text \<open>
  \<^verbatim>\<open>GradingService.createScore\<close> and \<^verbatim>\<open>updateScore\<close>: the state is the database, and a
  thrown error leaves it as it was. A date is kept as the string it was given as;
  \<^verbatim>\<open>input.dateRecorded ? \<dots> : new Date()\<close> takes the current time also for the empty string.
\<close>

definition auditLog :: "string \<Rightarrow> string \<Rightarrow> string \<Rightarrow> AuditLog" where
  "auditLog userId action entityId =
     \<lparr>al_userId = userId, al_action = action, al_entityType = ''Score'',
      al_entityId = Some entityId\<rparr>"

definition createScore ::
  "Store \<Rightarrow> Database \<Rightarrow> CreateScoreInput \<Rightarrow> string \<Rightarrow> error + Score \<times> Database" where
  "createScore st db input createdById =
     (case findStudent db (ci_studentId input) of
        None \<Rightarrow> Inl (Error ''Student not found'')
      | Some student \<Rightarrow>
     (case findClassSubject db (ci_classSubjectId input) of
        None \<Rightarrow> Inl (Error ''Class subject not found'')
      | Some classSubject \<Rightarrow>
     (case findSubject db (ci_subjectId input) of
        None \<Rightarrow> Inl (Error ''Subject not found'')
      | Some subject \<Rightarrow>
     (case (toDecimal st 5 2 (ci_score input), toDecimal st 5 2 (ci_maxScore input),
            toDecimal st 3 2 (ci_weight input)) of
        (Inr sc, Inr mx, Inr w) \<Rightarrow>
          (let score = \<lparr>s_id = newId st, s_studentId = ci_studentId input,
                         s_classSubjectId = ci_classSubjectId input,
                         s_subjectId = ci_subjectId input, s_scoreType = ci_scoreType input,
                         s_score = sc, s_maxScore = mx, s_weight = w,
                         s_notes = ci_notes input,
                         s_dateRecorded = (case ci_dateRecorded input of
                                             Some d \<Rightarrow> if d = [] then now st else d
                                           | None \<Rightarrow> now st)\<rparr>
           in Inr (score, db\<lparr>scores := scores db @ [score],
                               auditLogs := auditLogs db @
                                 [auditLog createdById ''CREATE'' (s_id score)]\<rparr>))
      | (Inl msg, _, _) \<Rightarrow> Inl (Error msg)
      | (_, Inl msg, _) \<Rightarrow> Inl (Error msg)
      | (_, _, Inl msg) \<Rightarrow> Inl (Error msg)))))"

definition storeField :: "Store \<Rightarrow> nat \<Rightarrow> nat \<Rightarrow> number option \<Rightarrow> rat \<Rightarrow> string + rat" where
  "storeField st p s v old = (case v of None \<Rightarrow> Inr old | Some n \<Rightarrow> toDecimal st p s n)"

definition updateScore ::
  "Store \<Rightarrow> Database \<Rightarrow> string \<Rightarrow> UpdateScoreInput \<Rightarrow> string \<Rightarrow> error + Score \<times> Database" where
  "updateScore st db scoreId input updatedById =
     (case find (\<lambda>s. s_id s = scoreId) (scores db) of
        None \<Rightarrow> Inl (Error ''Score not found'')
      | Some existing \<Rightarrow>
     (case (storeField st 5 2 (ui_score input) (s_score existing),
            storeField st 5 2 (ui_maxScore input) (s_maxScore existing),
            storeField st 3 2 (ui_weight input) (s_weight existing)) of
        (Inr sc, Inr mx, Inr w) \<Rightarrow>
          (let score = existing\<lparr>s_score := sc, s_maxScore := mx, s_weight := w,
                                 s_notes := (case ui_notes input of
                                               None \<Rightarrow> s_notes existing | Some n \<Rightarrow> Some n)\<rparr>
           in Inr (score, db\<lparr>scores := map (\<lambda>s. if s_id s = scoreId then score else s) (scores db),
                               auditLogs := auditLogs db @
                                 [auditLog updatedById ''UPDATE'' scoreId]\<rparr>))
      | (Inl msg, _, _) \<Rightarrow> Inl (Error msg)
      | (_, Inl msg, _) \<Rightarrow> Inl (Error msg)
      | (_, _, Inl msg) \<Rightarrow> Inl (Error msg)))"

text \<open>
  The controller methods. A request carries \<^verbatim>\<open>req.user\<close> (set by the \<^verbatim>\<open>authenticate\<close>
  middleware that every grading route passes first), \<^verbatim>\<open>req.params.id\<close> and the body.
  The helpers \<^verbatim>\<open>successResponse\<close> and \<^verbatim>\<open>errorResponse\<close> live outside the module, so a response
  is recorded as the arguments they are called with: the status (if one is passed) and
  message of a success, the code, message and status of a failure.
\<close>

record Request =
  r_user :: "string option"
  r_id :: string
  r_body :: Body

datatype Response =
    Success "nat option" string
  | Failure string string nat

definition GradingController_createScore ::
  "Formats \<Rightarrow> Store \<Rightarrow> Database \<Rightarrow> Request \<Rightarrow> Response \<times> Database" where
  "GradingController_createScore fm st db req =
     (case r_user req of
        None \<Rightarrow> (Failure ''AUTH_ERROR'' ''User not authenticated'' 401, db)
      | Some userId \<Rightarrow>
     (case createScoreSchema fm (r_body req) of
        Inl issues \<Rightarrow> (Failure ''VALIDATION_ERROR'' ''Invalid input'' 422, db)
      | Inr validatedData \<Rightarrow>
     (case createScore st db validatedData userId of
        Inl (Error message) \<Rightarrow> (Failure ''CREATE_SCORE_ERROR'' message 400, db)
      | Inr (score, db') \<Rightarrow> (Success (Some 201) ''Score created successfully'', db'))))"

definition GradingController_updateScore ::
  "Store \<Rightarrow> Database \<Rightarrow> Request \<Rightarrow> Response \<times> Database" where
  "GradingController_updateScore st db req =
     (case r_user req of
        None \<Rightarrow> (Failure ''AUTH_ERROR'' ''User not authenticated'' 401, db)
      | Some userId \<Rightarrow>
     (case updateScoreSchema (r_body req) of
        Inl issues \<Rightarrow> (Failure ''VALIDATION_ERROR'' ''Invalid input'' 422, db)
      | Inr validatedData \<Rightarrow>
     (case updateScore st db (r_id req) validatedData userId of
        Inl (Error message) \<Rightarrow> (Failure ''UPDATE_SCORE_ERROR'' message 400, db)
      | Inr (score, db') \<Rightarrow> (Success None ''Score updated successfully'', db'))))"

subsection \<open>Creating scores in bulk\<close>

record BulkItem =
  bi_studentId :: json
  bi_score :: json
  bi_notes :: json

record BulkBody =
  bb_classSubjectId :: json
  bb_subjectId :: json
  bb_scoreType :: json
  bb_maxScore :: json
  bb_weight :: json
  bb_scores :: "BulkItem list option"
  bb_dateRecorded :: json

record BulkCreateScoresInput =
  bk_classSubjectId :: string
  bk_subjectId :: string
  bk_scoreType :: ScoreType
  bk_maxScore :: number
  bk_weight :: number
  bk_scores :: "(string \<times> number \<times> string option) list"
  bk_dateRecorded :: "string option"

definition zItem :: "Formats \<Rightarrow> BulkItem \<Rightarrow> (string \<times> number \<times> string option) option" where
  "zItem fm item =
     (case (zString (uuid fm) (bi_studentId item), zScore (bi_score item),
            zOptional (zString (\<lambda>s. True)) (bi_notes item)) of
        (Some studentId, Some score, Some notes) \<Rightarrow> Some (studentId, score, notes)
      | _ \<Rightarrow> None)"

definition zArray :: "('a \<Rightarrow> 'b option) \<Rightarrow> 'a list option \<Rightarrow> 'b list option" where
  "zArray p v =
     (case v of
        None \<Rightarrow> None
      | Some items \<Rightarrow> if list_all (\<lambda>item. p item \<noteq> None) items
                      then Some (map (\<lambda>item. the (p item)) items) else None)"

definition bulkCreateScoresSchema ::
  "Formats \<Rightarrow> BulkBody \<Rightarrow> string list + BulkCreateScoresInput" where
  "bulkCreateScoresSchema fm body =
     (let classSubjectId = zString (uuid fm) (bb_classSubjectId body);
          subjectId = zString (uuid fm) (bb_subjectId body);
          scoreType = zScoreType (bb_scoreType body);
          maxScore = zMaxScore (bb_maxScore body);
          weight = zWeight (bb_weight body);
          scores = zArray (zItem fm) (bb_scores body);
          dateRecorded = zOptional (zString (datetime fm)) (bb_dateRecorded body);
          issues = issue ''classSubjectId'' classSubjectId @ issue ''subjectId'' subjectId @
                   issue ''scoreType'' scoreType @ issue ''maxScore'' maxScore @
                   issue ''weight'' weight @ issue ''scores'' scores @
                   issue ''dateRecorded'' dateRecorded
      in if issues = []
         then Inr \<lparr>bk_classSubjectId = the classSubjectId, bk_subjectId = the subjectId,
                   bk_scoreType = the scoreType, bk_maxScore = the maxScore,
                   bk_weight = the weight, bk_scores = the scores,
                   bk_dateRecorded = the dateRecorded\<rparr>
         else Inl issues)"

text \<open>
  \<^verbatim>\<open>bulkCreateScores\<close>: all rows are created in one transaction, so a row the store
  refuses leaves the store as it was. \<open>newIds st i\<close> is the identifier of the \<open>i\<close>-th row.
\<close>

fun bulkRows ::
  "Store \<Rightarrow> BulkCreateScoresInput \<Rightarrow> rat \<Rightarrow> rat \<Rightarrow> nat \<Rightarrow>
   (string \<times> number \<times> string option) list \<Rightarrow> string + Score list" where
  "bulkRows st input mx w i [] = Inr []"
| "bulkRows st input mx w i ((studentId, score, notes) # items) =
     (case toDecimal st 5 2 score of
        Inl msg \<Rightarrow> Inl msg
      | Inr sc \<Rightarrow>
          (case bulkRows st input mx w (Suc i) items of
             Inl msg \<Rightarrow> Inl msg
           | Inr rows \<Rightarrow>
               Inr (\<lparr>s_id = newIds st i, s_studentId = studentId,
                      s_classSubjectId = bk_classSubjectId input,
                      s_subjectId = bk_subjectId input, s_scoreType = bk_scoreType input,
                      s_score = sc, s_maxScore = mx, s_weight = w, s_notes = notes,
                      s_dateRecorded = (case bk_dateRecorded input of
                                          Some d \<Rightarrow> if d = [] then now st else d
                                        | None \<Rightarrow> now st)\<rparr> # rows)))"

definition bulkCreateScores ::
  "Store \<Rightarrow> Database \<Rightarrow> BulkCreateScoresInput \<Rightarrow> string \<Rightarrow> error + Score list \<times> Database" where
  "bulkCreateScores st db input createdById =
     (case findClassSubject db (bk_classSubjectId input) of
        None \<Rightarrow> Inl (Error ''Class subject not found'')
      | Some classSubject \<Rightarrow>
     (case findSubject db (bk_subjectId input) of
        None \<Rightarrow> Inl (Error ''Subject not found'')
      | Some subject \<Rightarrow>
     (let studentIds = map fst (bk_scores input);
          found = filter (\<lambda>s. st_id s \<in> set studentIds) (students db)
      in if length found \<noteq> length studentIds
         then Inl (Error ''One or more students not found'')
         else
     (case (toDecimal st 5 2 (bk_maxScore input), toDecimal st 3 2 (bk_weight input)) of
        (Inr mx, Inr w) \<Rightarrow>
          (case bulkRows st input mx w 0 (bk_scores input) of
             Inl msg \<Rightarrow> Inl (Error msg)
           | Inr createdScores \<Rightarrow>
               Inr (createdScores,
                    db\<lparr>scores := scores db @ createdScores,
                       auditLogs := auditLogs db @
                         [\<lparr>al_userId = createdById, al_action = ''CREATE'',
                           al_entityType = ''Score'', al_entityId = None\<rparr>]\<rparr>))
      | (Inl msg, _) \<Rightarrow> Inl (Error msg)
      | (_, Inl msg) \<Rightarrow> Inl (Error msg)))))"

record BulkRequest =
  br_user :: "string option"
  br_body :: BulkBody

function showNat :: "nat \<Rightarrow> string" where
  "showNat n = (if n < 10 then [char_of (48 + n)]
                else showNat (n div 10) @ [char_of (48 + n mod 10)])"
  by pat_completeness auto
termination
  by (relation "measure id") auto

definition GradingController_bulkCreateScores ::
  "Formats \<Rightarrow> Store \<Rightarrow> Database \<Rightarrow> BulkRequest \<Rightarrow> Response \<times> Database" where
  "GradingController_bulkCreateScores fm st db req =
     (case br_user req of
        None \<Rightarrow> (Failure ''AUTH_ERROR'' ''User not authenticated'' 401, db)
      | Some userId \<Rightarrow>
     (case bulkCreateScoresSchema fm (br_body req) of
        Inl issues \<Rightarrow> (Failure ''VALIDATION_ERROR'' ''Invalid input'' 422, db)
      | Inr validatedData \<Rightarrow>
     (case bulkCreateScores st db validatedData userId of
        Inl (Error message) \<Rightarrow> (Failure ''BULK_CREATE_SCORES_ERROR'' message 400, db)
      | Inr (created, db') \<Rightarrow>
          (Success (Some 201) (showNat (length created) @ '' scores created successfully''),
           db'))))"

section \<open>Auxiliary notions for the proofs\<close>

text \<open>
  \<open>nonneg\<close>: a number that is not NaN and not negative. \<open>dbl\<close>: a finite number is one
  that rounding leaves alone, i.e. a binary64 value. \<open>firstKeys\<close>: the distinct keys of a
  list in the order of their first occurrence, the order in which an object receives
  its properties.
\<close>

definition nonneg :: "number \<Rightarrow> bool" where
  "nonneg n = (case n of Fin q \<Rightarrow> 0 \<le> q | PosInf \<Rightarrow> True | NegInf \<Rightarrow> False | NaN \<Rightarrow> False)"

definition dbl :: "number \<Rightarrow> bool" where
  "dbl n = (case n of Fin q \<Rightarrow> rnd q = Fin q | PosInf \<Rightarrow> True | NegInf \<Rightarrow> True | NaN \<Rightarrow> True)"

definition firstKeys :: "'a list \<Rightarrow> 'a list" where
  "firstKeys ks = rev (remdups (rev ks))"

text \<open>The accumulator a group of rows ends with, in each view.\<close>

definition subjectData :: "(Score \<times> ClassSubject) list \<Rightarrow> SubjectData" where
  "subjectData rows = foldl (\<lambda>d row. pushScore (fst row) d) (newSubjectData (hd rows)) rows"

definition studentData :: "string \<Rightarrow> Score list \<Rightarrow> StudentData" where
  "studentData k records =
     foldl (\<lambda>d s. pushClassScore s d)
       \<lparr>sn_student = k, sn_scores = [], sn_totalWeightedScore = Fin 0, sn_totalWeight = Fin 0\<rparr>
       records"

section \<open>Example data\<close>

definition quiz45 :: Score where
  "quiz45 =
     \<lparr>s_id = ''sc1'', s_studentId = ''s1'', s_classSubjectId = ''cs1'', s_subjectId = ''math'',
      s_scoreType = QUIZ, s_score = 45, s_maxScore = 50, s_weight = 1,
      s_notes = None, s_dateRecorded = ''d1''\<rparr>"

definition homework10 :: Score where
  "homework10 =
     \<lparr>s_id = ''sc2'', s_studentId = ''s1'', s_classSubjectId = ''cs1'', s_subjectId = ''math'',
      s_scoreType = HOMEWORK, s_score = 10, s_maxScore = 20, s_weight = 0,
      s_notes = None, s_dateRecorded = ''d2''\<rparr>"

definition quiz30 :: Score where
  "quiz30 =
     \<lparr>s_id = ''sc3'', s_studentId = ''s3'', s_classSubjectId = ''cs1'', s_subjectId = ''math'',
      s_scoreType = QUIZ, s_score = 30, s_maxScore = 40, s_weight = 1,
      s_notes = None, s_dateRecorded = ''d3''\<rparr>"

definition mathClass :: ClassSubject where
  "mathClass =
     \<lparr>cs_id = ''cs1'', cs_classId = ''c1'', cs_subjectId = ''math'', cs_semesterId = ''sem1''\<rparr>"

definition exampleDb :: Database where
  "exampleDb =
     \<lparr>students =
        [\<lparr>st_id = ''s1'', st_firstName = ''Ann'', st_lastName = ''Doe''\<rparr>,
         \<lparr>st_id = ''s2'', st_firstName = ''Bob'', st_lastName = ''Roe''\<rparr>,
         \<lparr>st_id = ''s3'', st_firstName = ''Cy'', st_lastName = ''Abe''\<rparr>],
      subjects = [''math''],
      classSubjects = [mathClass],
      enrollments =
        [\<lparr>en_studentId = ''s1'', en_classId = ''c1'', en_academicYearId = ''y1'',
          en_status = ''ACTIVE''\<rparr>,
         \<lparr>en_studentId = ''s2'', en_classId = ''c1'', en_academicYearId = ''y1'',
          en_status = ''ACTIVE''\<rparr>,
         \<lparr>en_studentId = ''s3'', en_classId = ''c1'', en_academicYearId = ''y1'',
          en_status = ''WITHDRAWN''\<rparr>],
      scores = [quiz45, homework10, quiz30],
      auditLogs = []\<rparr>"

definition mathGrade :: SubjectGrade where
  "mathGrade =
     \<lparr>g_subject = ''math'', g_class = ''c1'', g_semester = ''sem1'',
      g_scores = [scoreEntry quiz45, scoreEntry homework10],
      g_finalGrade = Fin 90, g_letterGrade = ''A'', g_totalWeight = Fin 1\<rparr>"

definition annGrade :: StudentGrade where
  "annGrade =
     \<lparr>sg_student = ''s1'', sg_scores = [classScoreEntry homework10, classScoreEntry quiz45],
      sg_finalGrade = Fin 90, sg_letterGrade = ''A''\<rparr>"

definition bobGrade :: StudentGrade where
  "bobGrade =
     \<lparr>sg_student = ''s2'', sg_scores = [], sg_finalGrade = Fin 0, sg_letterGrade = ''F''\<rparr>"

definition twiceEnrolledDb :: Database where
  "twiceEnrolledDb =
     exampleDb\<lparr>enrollments := enrollments exampleDb @
       [\<lparr>en_studentId = ''s1'', en_classId = ''c1'', en_academicYearId = ''y2'',
         en_status = ''ACTIVE''\<rparr>]\<rparr>"

definition singleDb :: Database where
  "singleDb = exampleDb\<lparr>scores := [quiz45]\<rparr>"

definition singleGrade :: SubjectGrade where
  "singleGrade =
     \<lparr>g_subject = ''math'', g_class = ''c1'', g_semester = ''sem1'',
      g_scores = [scoreEntry quiz45],
      g_finalGrade = Fin 90, g_letterGrade = ''A'', g_totalWeight = Fin 1\<rparr>"

definition over100 :: Score where
  "over100 =
     \<lparr>s_id = ''sc4'', s_studentId = ''s1'', s_classSubjectId = ''cs1'', s_subjectId = ''math'',
      s_scoreType = FINAL, s_score = 150, s_maxScore = 100, s_weight = 1,
      s_notes = None, s_dateRecorded = ''d4''\<rparr>"

definition over100Db :: Database where
  "over100Db = exampleDb\<lparr>scores := [over100]\<rparr>"

definition over100Grade :: SubjectGrade where
  "over100Grade =
     \<lparr>g_subject = ''math'', g_class = ''c1'', g_semester = ''sem1'',
      g_scores = [scoreEntry over100],
      g_finalGrade = Fin 150, g_letterGrade = ''A'', g_totalWeight = Fin 1\<rparr>"

definition tieScore :: Score where
  "tieScore =
     \<lparr>s_id = ''sc5'', s_studentId = ''s1'', s_classSubjectId = ''cs1'', s_subjectId = ''math'',
      s_scoreType = QUIZ, s_score = 29 / 100, s_maxScore = 32 / 100, s_weight = 1,
      s_notes = None, s_dateRecorded = ''d5''\<rparr>"

definition laterDb :: Database where
  "laterDb =
     exampleDb\<lparr>scores := scores exampleDb @ [over100\<lparr>s_studentId := ''s2''\<rparr>],
               auditLogs := [auditLog ''u1'' ''CREATE'' ''sc4'']\<rparr>"

definition anyFormat :: Formats where
  "anyFormat = \<lparr>uuid = (\<lambda>s. s \<noteq> []), datetime = (\<lambda>s. s \<noteq> [])\<rparr>"

definition exampleStore :: Store where
  "exampleStore =
     \<lparr>newId = ''sc9'', newIds = (\<lambda>i. ''sc9-'' @ showNat i), now = ''d9'',
      toDecimal = (\<lambda>p s n. case n of Fin q \<Rightarrow> Inr q | _ \<Rightarrow> Inl ''numeric field overflow'')\<rparr>"

definition validBody :: Body where
  "validBody =
     \<lparr>b_studentId = JStr ''s1'', b_classSubjectId = JStr ''cs1'', b_subjectId = JStr ''math'',
      b_scoreType = JStr ''QUIZ'', b_score = JNum (Fin 45), b_maxScore = JNum (Fin 50),
      b_weight = JNum (Fin 1), b_notes = JUndefined, b_dateRecorded = JUndefined\<rparr>"

definition zeroMaxRequest :: Request where
  "zeroMaxRequest =
     \<lparr>r_user = Some ''u1'', r_id = ''sc1'', r_body = validBody\<lparr>b_maxScore := JNum (Fin 0)\<rparr>\<rparr>"

definition negativeBulkRequest :: BulkRequest where
  "negativeBulkRequest =
     \<lparr>br_user = Some ''u1'',
      br_body = \<lparr>bb_classSubjectId = JStr ''cs1'', bb_subjectId = JStr ''math'',
                  bb_scoreType = JStr ''QUIZ'', bb_maxScore = JNum (Fin 50),
                  bb_weight = JNum (Fin 1),
                  bb_scores = Some [\<lparr>bi_studentId = JStr ''s1'', bi_score = JNum (Fin (- 1)),
                                     bi_notes = JUndefined\<rparr>],
                  bb_dateRecorded = JUndefined\<rparr>\<rparr>"

definition singleAnn :: StudentGrade where
  "singleAnn =
     \<lparr>sg_student = ''s1'', sg_scores = [classScoreEntry quiz45],
      sg_finalGrade = Fin 90, sg_letterGrade = ''A''\<rparr>"

text \<open>
  A store with a single record of weight 1: score \<open>x\<close> out of 100; and its report card
  with final grade \<open>g\<close> and the letter.
\<close>

definition boundaryScore :: "rat \<Rightarrow> Score" where
  "boundaryScore x = quiz45\<lparr>s_score := x, s_maxScore := 100\<rparr>"

definition boundaryDb :: "rat \<Rightarrow> Database" where
  "boundaryDb x = exampleDb\<lparr>scores := [boundaryScore x]\<rparr>"

definition boundaryGrade :: "rat \<Rightarrow> number \<Rightarrow> string \<Rightarrow> SubjectGrade" where
  "boundaryGrade x g letter =
     \<lparr>g_subject = ''math'', g_class = ''c1'', g_semester = ''sem1'',
      g_scores = [scoreEntry (boundaryScore x)],
      g_finalGrade = g, g_letterGrade = letter, g_totalWeight = Fin 1\<rparr>"

text \<open>
  A store that rounds the value of a number to the scale of its column, a half away
  from zero, and refuses what does not fit the precision; and the row it keeps of score 0
  with a positive maxScore below 0.005.
\<close>

definition roundingStore :: Store where
  "roundingStore =
     exampleStore\<lparr>toDecimal :=
       (\<lambda>p s n. case n of
          Fin q \<Rightarrow>
            (let d = of_int \<lfloor>\<bar>q\<bar> * 10 ^ s + 1 / 2\<rfloor> / 10 ^ s
             in if d * 10 ^ s < 10 ^ p then Inr (sgn q * d) else Inl ''numeric field overflow'')
        | _ \<Rightarrow> Inl ''numeric field overflow'')\<rparr>"

definition zeroMax :: Score where
  "zeroMax =
     \<lparr>s_id = ''sc9'', s_studentId = ''s1'', s_classSubjectId = ''cs1'', s_subjectId = ''math'',
      s_scoreType = QUIZ, s_score = 0, s_maxScore = 0, s_weight = 1,
      s_notes = None, s_dateRecorded = ''d9''\<rparr>"

definition zeroMaxDb :: Database where
  "zeroMaxDb =
     exampleDb\<lparr>scores := [zeroMax], auditLogs := [auditLog ''u1'' ''CREATE'' ''sc9'']\<rparr>"

definition zeroMaxGrade :: SubjectGrade where
  "zeroMaxGrade =
     \<lparr>g_subject = ''math'', g_class = ''c1'', g_semester = ''sem1'',
      g_scores = [scoreEntry zeroMax],
      g_finalGrade = NaN, g_letterGrade = ''F'', g_totalWeight = Fin 1\<rparr>"

text \<open>
  Three validated records of one subject, with weights 0.25, 0.25 and 0.5, whose weighted
  average is exactly 89.995; and the same records in two table orders.
\<close>

definition homework899 :: Score where
  "homework899 =
     \<lparr>s_id = ''sc6'', s_studentId = ''s1'', s_classSubjectId = ''cs1'', s_subjectId = ''math'',
      s_scoreType = HOMEWORK, s_score = 899 / 10, s_maxScore = 100, s_weight = 1 / 4,
      s_notes = None, s_dateRecorded = ''d6''\<rparr>"

definition quiz9008 :: Score where
  "quiz9008 =
     \<lparr>s_id = ''sc7'', s_studentId = ''s1'', s_classSubjectId = ''cs1'', s_subjectId = ''math'',
      s_scoreType = QUIZ, s_score = 9008 / 100, s_maxScore = 100, s_weight = 1 / 4,
      s_notes = None, s_dateRecorded = ''d7''\<rparr>"

definition final90 :: Score where
  "final90 =
     \<lparr>s_id = ''sc8'', s_studentId = ''s1'', s_classSubjectId = ''cs1'', s_subjectId = ''math'',
      s_scoreType = FINAL, s_score = 90, s_maxScore = 100, s_weight = 1 / 2,
      s_notes = None, s_dateRecorded = ''d8''\<rparr>"

definition termDb :: Database where
  "termDb = exampleDb\<lparr>scores := [homework899, quiz9008, final90]\<rparr>"

definition reorderedDb :: Database where
  "reorderedDb = exampleDb\<lparr>scores := [homework899, final90, quiz9008]\<rparr>"

definition termGrade :: SubjectGrade where
  "termGrade =
     \<lparr>g_subject = ''math'', g_class = ''c1'', g_semester = ''sem1'',
      g_scores = [scoreEntry homework899, scoreEntry quiz9008, scoreEntry final90],
      g_finalGrade = Fin 90, g_letterGrade = ''A'', g_totalWeight = Fin 1\<rparr>"

definition reorderedGrade :: SubjectGrade where
  "reorderedGrade =
     \<lparr>g_subject = ''math'', g_class = ''c1'', g_semester = ''sem1'',
      g_scores = [scoreEntry homework899, scoreEntry final90, scoreEntry quiz9008],
      g_finalGrade = Number (8999 / 100), g_letterGrade = ''B'', g_totalWeight = Fin 1\<rparr>"

section \<open>Facts about binary64 rounding\<close>

lemma pow2_pos [simp]: "0 < (2::rat) powi k"
  by (simp add: power_int_def)

lemma pow2_mono: "i \<le> j \<Longrightarrow> (2::rat) powi i \<le> 2 powi j"
  by (rule power_int_increasing) simp_all

lemma pow2_strict_mono: "i < j \<Longrightarrow> (2::rat) powi i < 2 powi j"
  by (rule power_int_strict_increasing) simp_all

lemma pow2_le_iff [simp]: "(2::rat) powi i \<le> 2 powi j \<longleftrightarrow> i \<le> j"
  using pow2_mono [of i j] pow2_strict_mono [of j i] by (auto simp: not_le [symmetric])

lemma pow2_less_iff [simp]: "(2::rat) powi i < 2 powi j \<longleftrightarrow> i < j"
  using pow2_mono [of j i] pow2_strict_mono [of i j] by (auto simp: not_less [symmetric])

lemma pow2_numeral:
  "(2::rat) powi (numeral n) = 2 ^ numeral n"
  "(2::rat) powi (- numeral n) = 1 / 2 ^ numeral n"
  by (simp_all add: power_int_def inverse_eq_divide power_divide)

lemma pow2_add: "(2::rat) powi (i + j) = 2 powi i * 2 powi j"
  by (simp add: power_int_add)

lemma pow2_of_nat: "(2::rat) powi (int n) = 2 ^ n"
  by (simp add: power_int_def)

lemma pow2_int: "0 \<le> k \<Longrightarrow> (2::rat) powi k = of_int (2 ^ nat k)"
  by (simp add: power_int_def)

lemma nat_floorlog_bounds:
  assumes "0 < a"
  shows "(2::rat) powi (int (floorlog 2 (nat a)) - 1) \<le> of_int a"
    and "of_int a < (2::rat) powi (int (floorlog 2 (nat a)))"
proof -
  let ?l = "floorlog 2 (nat a)"
  from assms have pos: "0 < nat a" by simp
  from floorlog_bounds [OF pos, of 2]
  have lo: "2 ^ (?l - 1) \<le> nat a" and hi: "nat a < 2 ^ ?l" by simp_all
  have l1: "1 \<le> ?l" using pos by (simp add: floorlog_def)
  then have "int ?l - 1 = int (?l - 1)" by simp
  then have "(2::rat) powi (int ?l - 1) = 2 ^ (?l - 1)" by (simp only: pow2_of_nat)
  also have "\<dots> = of_nat (2 ^ (?l - 1))" by simp
  also have "\<dots> \<le> of_nat (nat a)" using lo of_nat_le_iff by blast
  also have "\<dots> = of_int a" using assms by simp
  finally show "(2::rat) powi (int ?l - 1) \<le> of_int a" .
  have "(of_int a :: rat) = of_nat (nat a)" using assms by simp
  also have "\<dots> < of_nat (2 ^ ?l)" using hi of_nat_less_iff by blast
  also have "\<dots> = 2 powi (int ?l)" by (simp add: pow2_of_nat)
  finally show "of_int a < (2::rat) powi (int ?l)" .
qed

lemma ilog2_bounds:
  assumes "q \<noteq> 0"
  shows "2 powi (ilog2 q) \<le> \<bar>q\<bar>" and "\<bar>q\<bar> < 2 powi (ilog2 q + 1)"
proof -
  obtain a b where ab: "quotient_of \<bar>q\<bar> = (a, b)" by (cases "quotient_of \<bar>q\<bar>")
  have b: "0 < b" using ab by (rule quotient_of_denom_pos)
  have q: "\<bar>q\<bar> = of_int a / of_int b" using ab by (rule quotient_of_div)
  have "0 < \<bar>q\<bar>" using assms by simp
  with q b have a: "0 < a" by (simp add: zero_less_divide_iff)
  define la where "la = int (floorlog 2 (nat a))"
  define lb where "lb = int (floorlog 2 (nat b))"
  define k where "k = la - lb"
  have alo: "(2::rat) powi (la - 1) \<le> of_int a" and ahi: "of_int a < (2::rat) powi la"
    using nat_floorlog_bounds [OF a] by (simp_all add: la_def)
  have blo: "(2::rat) powi (lb - 1) \<le> of_int b" and bhi: "of_int b < (2::rat) powi lb"
    using nat_floorlog_bounds [OF b] by (simp_all add: lb_def)
  have bpos: "(0::rat) < of_int b" using b by simp
  have lower: "2 powi (k - 1) < \<bar>q\<bar>"
  proof -
    have "(2::rat) powi (k - 1) * of_int b < 2 powi (k - 1) * 2 powi lb"
      using bhi by simp
    also have "\<dots> = 2 powi (la - 1)" by (simp add: k_def flip: pow2_add)
    also have "\<dots> \<le> of_int a" by (rule alo)
    finally show ?thesis using bpos by (simp add: q pos_less_divide_eq)
  qed
  have upper: "\<bar>q\<bar> < 2 powi (k + 1)"
  proof -
    have "of_int a < (2::rat) powi la" by (rule ahi)
    also have "\<dots> = 2 powi (k + 1) * 2 powi (lb - 1)" by (simp add: k_def flip: pow2_add)
    also have "\<dots> \<le> 2 powi (k + 1) * of_int b" using blo by simp
    finally show ?thesis using bpos by (simp add: q pos_divide_less_eq)
  qed
  have il: "ilog2 q = (if 2 powi k \<le> \<bar>q\<bar> then k else k - 1)"
    by (simp add: ilog2_def ab k_def la_def lb_def Let_def)
  show "2 powi (ilog2 q) \<le> \<bar>q\<bar>" using lower by (simp add: il)
  show "\<bar>q\<bar> < 2 powi (ilog2 q + 1)" using upper by (auto simp: il)
qed

lemma ilog2_eqI:
  assumes "2 powi e \<le> \<bar>q\<bar>" and "\<bar>q\<bar> < 2 powi (e + 1)"
  shows "ilog2 q = e"
proof -
  have "0 < \<bar>q\<bar>" using assms(1) pow2_pos [of e] by linarith
  then have q: "q \<noteq> 0" by simp
  note b = ilog2_bounds [OF q]
  have "\<not> ilog2 q < e"
  proof
    assume "ilog2 q < e"
    then have "(2::rat) powi (ilog2 q + 1) \<le> 2 powi e" by simp
    with b(2) assms(1) show False by simp
  qed
  moreover have "\<not> e < ilog2 q"
  proof
    assume "e < ilog2 q"
    then have "(2::rat) powi (e + 1) \<le> 2 powi (ilog2 q)" by simp
    with b(1) assms(2) show False by simp
  qed
  ultimately show ?thesis by simp
qed

lemma floor_rat_numeral [simp]:
  "\<lfloor>numeral a / numeral b :: rat\<rfloor> = numeral a div numeral b"
  "\<lfloor>- (numeral a / numeral b) :: rat\<rfloor> = - numeral a div numeral b"
  "\<lfloor>1 / numeral b :: rat\<rfloor> = 1 div numeral b"
  "\<lfloor>- (1 / numeral b) :: rat\<rfloor> = - 1 div numeral b"
proof -
  show "\<lfloor>numeral a / numeral b :: rat\<rfloor> = numeral a div numeral b"
    using floor_divide_of_int_eq [of "numeral a" "numeral b", where ?'a = rat] by simp
  show "\<lfloor>- (numeral a / numeral b) :: rat\<rfloor> = - numeral a div numeral b"
    using floor_divide_of_int_eq [of "- numeral a" "numeral b", where ?'a = rat] by simp
  show "\<lfloor>1 / numeral b :: rat\<rfloor> = 1 div numeral b"
    using floor_divide_of_int_eq [of 1 "numeral b", where ?'a = rat] by simp
  show "\<lfloor>- (1 / numeral b) :: rat\<rfloor> = - 1 div numeral b"
    using floor_divide_of_int_eq [of "- 1" "numeral b", where ?'a = rat] by simp
qed

lemma rhe_of_int [simp]: "rhe (of_int n) = n"
  by (simp add: rhe_def Let_def)

lemma rhe_ge: "of_int n \<le> x \<Longrightarrow> n \<le> rhe x"
proof -
  assume "of_int n \<le> x"
  then have "n \<le> \<lfloor>x\<rfloor>" by (simp add: le_floor_iff)
  then show ?thesis by (simp add: rhe_def Let_def)
qed

lemma rhe_le: "x \<le> of_int n \<Longrightarrow> rhe x \<le> n"
proof (cases "x = of_int n")
  case True
  then show ?thesis by simp
next
  case False
  assume "x \<le> of_int n"
  with False have "x < of_int n" by simp
  then have "\<lfloor>x\<rfloor> < n" by (simp add: floor_less_iff)
  then show ?thesis by (simp add: rhe_def Let_def)
qed

lemma rhe_nonneg: "0 \<le> x \<Longrightarrow> 0 \<le> rhe x"
  using rhe_ge [of 0 x] by simp

lemma rnd_zero [simp]: "rnd 0 = Fin 0"
  by (simp add: rnd_def)

text \<open>The shape of a rounded value: an integer multiple of the spacing at its exponent.\<close>

lemma rnd_cases:
  assumes "x \<noteq> 0"
  obtains e m where "e = max (ilog2 x) (- 1022)" and "m = rhe (x / 2 powi (e - 52))"
    and "rnd x = (if (2::rat) powi 1024 \<le> \<bar>of_int m * 2 powi (e - 52)\<bar>
                  then (if 0 < x then PosInf else NegInf)
                  else Fin (of_int m * 2 powi (e - 52)))"
  using assms by (simp add: rnd_def Let_def)

lemma rnd_nonneg:
  assumes "0 \<le> x"
  shows "rnd x = PosInf \<or> (\<exists>y. rnd x = Fin y \<and> 0 \<le> y)"
proof (cases "x = 0")
  case True
  then show ?thesis by simp
next
  case False
  then obtain e m where m: "m = rhe (x / 2 powi (e - 52))"
    and r: "rnd x = (if (2::rat) powi 1024 \<le> \<bar>of_int m * 2 powi (e - 52)\<bar>
                  then (if 0 < x then PosInf else NegInf)
                  else Fin (of_int m * 2 powi (e - 52)))"
    by (rule rnd_cases)
  have "0 \<le> x / 2 powi (e - 52)" using assms by simp
  then have "0 \<le> m" unfolding m by (rule rhe_nonneg)
  then have "(0::rat) \<le> of_int m * 2 powi (e - 52)" by simp
  moreover have "0 < x" using assms False by simp
  ultimately show ?thesis by (simp add: r)
qed

lemma rnd_upper:
  assumes "0 \<le> x" and "x \<le> 2 powi k" and "- 1074 \<le> k" and "k \<le> 1023"
  shows "\<exists>y. rnd x = Fin y \<and> 0 \<le> y \<and> y \<le> 2 powi k"
proof (cases "x = 0")
  case True
  then show ?thesis by simp
next
  case False
  define e where "e = max (ilog2 x) (- 1022)"
  define u :: rat where "u = 2 powi (e - 52)"
  define m where "m = rhe (x / u)"
  have u: "0 < u" by (simp add: u_def)
  have "2 powi (ilog2 x) \<le> \<bar>x\<bar>" using False by (rule ilog2_bounds)
  also have "\<bar>x\<bar> = x" using assms(1) by simp
  also note assms(2)
  finally have "ilog2 x \<le> k" by simp
  with assms(3) have ek: "e - 52 \<le> k" by (simp add: e_def)
  have "(2::rat) powi k = 2 powi (k - (e - 52)) * u"
    by (simp add: u_def flip: pow2_add)
  also have "\<dots> = of_int (2 ^ nat (k - (e - 52))) * u"
    using ek by (simp add: pow2_int)
  finally have pk: "(2::rat) powi k = of_int (2 ^ nat (k - (e - 52))) * u" .
  have "x / u \<le> of_int (2 ^ nat (k - (e - 52)))"
    using assms(2) u by (simp add: pk pos_divide_le_eq)
  then have "m \<le> 2 ^ nat (k - (e - 52))" unfolding m_def by (rule rhe_le)
  then have "(of_int m :: rat) \<le> of_int (2 ^ nat (k - (e - 52)))" by (simp only: of_int_le_iff)
  then have le: "of_int m * u \<le> 2 powi k" using u by (simp add: pk)
  have "0 \<le> x / u" using assms(1) u by simp
  then have "0 \<le> m" unfolding m_def by (rule rhe_nonneg)
  then have ge: "0 \<le> of_int m * u" using u by simp
  have "(2::rat) powi k < 2 powi 1024" using assms(4) by (intro pow2_strict_mono) simp
  with le ge have "\<not> 2 powi 1024 \<le> \<bar>of_int m * u\<bar>" by simp
  then have "rnd x = Fin (of_int m * u)"
    using False by (simp add: rnd_def Let_def e_def u_def m_def)
  with le ge show ?thesis by simp
qed

lemma rnd_lower_aux:
  assumes "x \<noteq> 0" and "2 powi k \<le> x" and "max (ilog2 x) (- 1022) - 52 \<le> k"
  shows "(2::rat) powi k \<le> of_int (rhe (x / 2 powi (max (ilog2 x) (- 1022) - 52)))
                        * 2 powi (max (ilog2 x) (- 1022) - 52)"
proof -
  define j where "j = max (ilog2 x) (- 1022) - 52"
  define u :: rat where "u = 2 powi j"
  have u: "0 < u" by (simp add: u_def)
  have "(2::rat) powi k = 2 powi (k - j) * u" by (simp add: u_def flip: pow2_add)
  also have "\<dots> = of_int (2 ^ nat (k - j)) * u"
    using assms(3) by (simp add: pow2_int j_def)
  finally have pk: "(2::rat) powi k = of_int (2 ^ nat (k - j)) * u" .
  have "of_int (2 ^ nat (k - j)) \<le> x / u"
    using assms(2) u by (simp add: pk pos_le_divide_eq)
  then have "2 ^ nat (k - j) \<le> rhe (x / u)" by (rule rhe_ge)
  then have "(of_int (2 ^ nat (k - j)) :: rat) \<le> of_int (rhe (x / u))"
    by (simp only: of_int_le_iff)
  then have "2 powi k \<le> of_int (rhe (x / u)) * u" using u by (simp add: pk)
  then show ?thesis by (simp add: u_def j_def)
qed

lemma rnd_lower:
  assumes "2 powi k \<le> x" and "- 1074 \<le> k"
  shows "rnd x = PosInf \<or> (\<exists>y. rnd x = Fin y \<and> 2 powi k \<le> y)"
proof -
  have pos: "0 < x" using assms(1) pow2_pos [of k] by linarith
  then have nz: "x \<noteq> 0" by simp
  define e where "e = max (ilog2 x) (- 1022)"
  define r :: rat where "r = of_int (rhe (x / 2 powi (e - 52))) * 2 powi (e - 52)"
  have r: "2 powi k \<le> r"
  proof (cases "e - 52 \<le> k")
    case True
    then show ?thesis
      using rnd_lower_aux [OF nz assms(1)] by (simp add: r_def e_def)
  next
    case False
    with assms(2) have e: "e = ilog2 x" by (auto simp: e_def max_def)
    have "2 powi e \<le> x" using ilog2_bounds(1) [OF nz] pos by (simp add: e)
    then have "2 powi e \<le> r"
      using rnd_lower_aux [OF nz, of e] by (simp add: r_def e_def)
    moreover have "(2::rat) powi k \<le> 2 powi e" using False by simp
    ultimately show ?thesis by (meson order_trans)
  qed
  have "rnd x = (if 2 powi 1024 \<le> \<bar>r\<bar> then PosInf else Fin r)"
    using nz pos by (simp add: rnd_def Let_def e_def r_def)
  with r show ?thesis by simp
qed

lemma rhe_abs_le: "\<bar>x\<bar> \<le> of_int n \<Longrightarrow> \<bar>rhe x\<bar> \<le> n"
proof -
  assume a: "\<bar>x\<bar> \<le> of_int n"
  then have "x \<le> of_int n" and "of_int (- n) \<le> x" by simp_all
  then have "rhe x \<le> n" and "- n \<le> rhe x" by (auto intro: rhe_le rhe_ge)
  then show ?thesis by simp
qed

lemma pow2_diff: "(2::rat) powi (i - j) = 2 powi i / 2 powi j"
  by (simp add: power_int_diff)

lemma pow2_53: "2 powi 53 * 2 powi (e - 52) = (2::rat) powi (e + 1)"
proof -
  have "(2::rat) powi 53 * 2 powi (e - 52) = 2 powi (53 + (e - 52))" by (simp only: pow2_add)
  also have "53 + (e - 52) = e + 1" by simp
  finally show ?thesis .
qed

text \<open>A value \<open>m \<sqdot> 2\<^sup>e\<^sup>-\<^sup>5\<^sup>2\<close> with \<open>|m| \<le> 2\<^sup>5\<^sup>3\<close> and \<open>e \<ge> -1022\<close> is a binary64 value.\<close>

lemma rnd_exact:
  assumes e: "- 1022 \<le> e" and m: "\<bar>m\<bar> \<le> 2 ^ 53"
    and y: "y = of_int m * 2 powi (e - 52)" and fin: "\<bar>y\<bar> < 2 powi 1024"
  shows "rnd y = Fin y"
proof (cases "y = 0")
  case True
  then show ?thesis by simp
next
  case False
  define e' where "e' = max (ilog2 y) (- 1022)"
  define u' :: rat where "u' = 2 powi (e' - 52)"
  have u': "0 < u'" by (simp add: u'_def)
  have "\<bar>y\<bar> = of_int \<bar>m\<bar> * 2 powi (e - 52)" by (simp add: y abs_mult)
  also have "\<dots> \<le> of_int (2 ^ 53) * 2 powi (e - 52)"
    using m by (intro mult_right_mono) (simp_all only: of_int_le_iff pow2_pos less_imp_le)
  also have "\<dots> = 2 powi 53 * 2 powi (e - 52)" by (simp add: pow2_numeral)
  also have "\<dots> = 2 powi (e + 1)" by (rule pow2_53)
  finally have bound: "\<bar>y\<bar> \<le> 2 powi (e + 1)" .
  have "\<exists>n. y / u' = of_int n"
  proof (cases "\<bar>y\<bar> = 2 powi (e + 1)")
    case True
    then have "ilog2 y = e + 1" by (intro ilog2_eqI) simp_all
    with e have e'1: "e' = e + 1" by (simp add: e'_def)
    have "\<bar>y\<bar> / u' = 2 powi (e + 1) / 2 powi (e + 1 - 52)" by (simp add: True u'_def e'1)
    also have "\<dots> = 2 powi (e + 1 - (e + 1 - 52))" by (simp only: pow2_diff)
    also have "e + 1 - (e + 1 - 52) = 52" by simp
    also have "(2::rat) powi 52 = of_int (2 ^ 52)" by (simp add: pow2_numeral)
    finally have ay: "\<bar>y\<bar> / u' = of_int (2 ^ 52)" .
    show ?thesis
    proof (cases "0 \<le> y")
      case True
      with ay show ?thesis by auto
    next
      case False
      then have "\<bar>y\<bar> = - y" by simp
      with ay have "y / u' = of_int (- (2 ^ 52))" by simp
      then show ?thesis by blast
    qed
  next
    case ne: False
    with bound have lt: "\<bar>y\<bar> < 2 powi (e + 1)" by simp
    have "2 powi (ilog2 y) \<le> \<bar>y\<bar>" using False by (rule ilog2_bounds)
    then have "(2::rat) powi (ilog2 y) < 2 powi (e + 1)" using lt by (rule le_less_trans)
    then have "ilog2 y \<le> e" by simp
    with e have le: "e' \<le> e" by (simp add: e'_def)
    have "y / u' = of_int m * (2 powi (e - 52) / 2 powi (e' - 52))" by (simp add: y u'_def)
    also have "2 powi (e - 52) / 2 powi (e' - 52) = (2::rat) powi (e - e')"
      by (simp flip: power_int_diff)
    also have "\<dots> = of_int (2 ^ nat (e - e'))" using le by (simp add: pow2_int)
    finally have "y / u' = of_int (m * 2 ^ nat (e - e'))" by simp
    then show ?thesis by blast
  qed
  then obtain n where n: "y / u' = of_int n" ..
  then have "of_int (rhe (y / u')) * u' = y" using u' by (simp add: field_simps)
  then show ?thesis
    using False fin by (simp add: rnd_def Let_def flip: e'_def u'_def)
qed

lemma rnd_form:
  assumes "rnd x = Fin y"
  shows "\<exists>e m. - 1022 \<le> e \<and> \<bar>m\<bar> \<le> 2 ^ 53 \<and> y = of_int m * 2 powi (e - 52) \<and>
               \<bar>y\<bar> < 2 powi 1024 \<and> (x \<noteq> 0 \<longrightarrow> e = max (ilog2 x) (- 1022))"
proof (cases "x = 0")
  case True
  with assms have "y = 0" by simp
  then show ?thesis using True by (intro exI [of _ 0]) (simp add: exI [of _ 0])
next
  case False
  define e where "e = max (ilog2 x) (- 1022)"
  define u :: rat where "u = 2 powi (e - 52)"
  define m where "m = rhe (x / u)"
  have u: "0 < u" by (simp add: u_def)
  have r: "rnd x = (if (2::rat) powi 1024 \<le> \<bar>of_int m * u\<bar>
                    then (if 0 < x then PosInf else NegInf) else Fin (of_int m * u))"
    using False by (simp add: rnd_def Let_def e_def u_def m_def)
  with assms have y: "y = of_int m * u" and fin: "\<bar>y\<bar> < 2 powi 1024"
    by (auto split: if_splits)
  have "\<bar>x\<bar> < 2 powi (ilog2 x + 1)" using False by (rule ilog2_bounds)
  also have "\<dots> \<le> 2 powi (e + 1)" by (simp add: e_def)
  also have "\<dots> = 2 powi 53 * u" by (simp only: u_def pow2_53)
  finally have "\<bar>x\<bar> / u < 2 powi 53" using u by (simp add: pos_divide_less_eq)
  then have "\<bar>x / u\<bar> \<le> of_int (2 ^ 53)" using u by (simp add: pow2_numeral)
  then have m: "\<bar>m\<bar> \<le> 2 ^ 53" unfolding m_def by (rule rhe_abs_le)
  have e: "- 1022 \<le> e" by (simp add: e_def)
  have "- 1022 \<le> e \<and> \<bar>m\<bar> \<le> 2 ^ 53 \<and> y = of_int m * 2 powi (e - 52) \<and>
        \<bar>y\<bar> < 2 powi 1024 \<and> (x \<noteq> 0 \<longrightarrow> e = max (ilog2 x) (- 1022))"
    using e m y fin unfolding u_def e_def by blast
  then show ?thesis by blast
qed

lemma rnd_idem: "rnd x = Fin y \<Longrightarrow> rnd y = Fin y"
  using rnd_form [of x y] rnd_exact by blast

lemma rnd_of_int: "\<bar>n\<bar> \<le> 2 ^ 53 \<Longrightarrow> rnd (of_int n) = Fin (of_int n)"
proof -
  assume n: "\<bar>n\<bar> \<le> 2 ^ 53"
  then have "\<bar>of_int n :: rat\<bar> \<le> of_int (2 ^ 53)"
    by (simp only: of_int_le_iff flip: of_int_abs)
  also have "\<dots> = 2 powi 53" by (simp add: pow2_numeral)
  also have "\<dots> < 2 powi 1024" by (intro pow2_strict_mono) simp
  finally have "\<bar>of_int n :: rat\<bar> < 2 powi 1024" .
  with n show ?thesis by (intro rnd_exact [of 52 n]) simp_all
qed

lemma rhe_near_even:
  assumes "0 \<le> d" and "d \<le> 1 / 2" and "even n"
  shows "rhe (of_int n + d) = n"
proof -
  have f: "\<lfloor>of_int n + d\<rfloor> = n" using assms(1,2) by (intro floor_unique) simp_all
  show ?thesis using assms by (simp add: rhe_def Let_def f)
qed

text \<open>Adding a weight of at most 1 never takes a running total past \<open>2\<^sup>5\<^sup>3\<close>.\<close>

lemma rnd_sat:
  assumes x: "rnd x = Fin x" and x0: "0 \<le> x" and x53: "x \<le> 2 powi 53"
    and w0: "0 \<le> w" and w1: "w \<le> 1"
  shows "\<exists>y. rnd (x + w) = Fin y \<and> 0 \<le> y \<and> y \<le> 2 powi 53"
proof (cases "x + w \<le> 2 powi 53")
  case True
  with x0 w0 show ?thesis by (intro rnd_upper) simp_all
next
  case False
  then have big: "2 powi 53 < x + w" by simp
  have p53: "(2::rat) powi 53 = 2 * 2 powi 52" by (simp add: pow2_numeral)
  have "2 powi 53 - 1 < x" using big w1 by linarith
  moreover have "(1::rat) \<le> 2 powi 52" by (simp add: pow2_numeral)
  ultimately have x52: "2 powi 52 \<le> x" using p53 by linarith
  then have xpos: "0 < x" using pow2_pos [of 52] by linarith
  then have nz: "x \<noteq> 0" by simp
  have "(2::rat) powi 52 \<le> \<bar>x\<bar>" using x52 xpos by simp
  also have "\<bar>x\<bar> < 2 powi (ilog2 x + 1)" using nz by (rule ilog2_bounds)
  finally have "(2::rat) powi 52 < 2 powi (ilog2 x + 1)" .
  then have "52 < ilog2 x + 1" by (simp only: pow2_less_iff)
  then have il: "52 \<le> ilog2 x" by simp
  from rnd_form [OF x] nz obtain e m where
    xm: "x = of_int m * 2 powi (e - 52)" and e: "e = max (ilog2 x) (- 1022)" by blast
  from e il have "0 \<le> e - 52" by simp
  then have "(2::rat) powi (e - 52) = of_int (2 ^ nat (e - 52))" by (rule pow2_int)
  with xm have "x = of_int (m * 2 ^ nat (e - 52))" by simp
  then obtain n :: int where n: "x = of_int n" ..
  have "(2::rat) powi 53 = of_int (2 ^ 53)" by (simp add: pow2_numeral)
  with x53 \<open>2 powi 53 - 1 < x\<close> have "of_int n \<le> (of_int (2 ^ 53) :: rat)"
    and "(of_int (2 ^ 53 - 1) :: rat) < of_int n" by (simp_all add: n)
  then have "n \<le> 2 ^ 53" and "2 ^ 53 - 1 < n" by (simp_all only: of_int_le_iff of_int_less_iff)
  then have "n = 2 ^ 53" by simp
  then have xv: "x = 2 powi 53" by (simp add: n pow2_numeral)
  have wpos: "0 < w" using big xv by simp
  have "2 powi 53 \<le> \<bar>x + w\<bar>" using xv w0 by simp
  moreover have "\<bar>x + w\<bar> < 2 powi (53 + 1)" using xv w0 w1 by (simp add: pow2_numeral)
  ultimately have i53: "ilog2 (x + w) = 53" by (rule ilog2_eqI)
  have half: "(x + w) / 2 = of_int (2 ^ 52) + w / 2" by (simp add: xv pow2_numeral)
  have "rhe (of_int (2 ^ 52) + w / 2) = 2 ^ 52"
    using w0 w1 by (intro rhe_near_even) simp_all
  then have m: "rhe ((x + w) / 2) = 2 ^ 52" by (simp only: half)
  have "x + w \<noteq> 0" using xpos w0 by linarith
  then have "rnd (x + w) = Fin (2 powi 53)"
    using m by (simp add: rnd_def Let_def i53 pow2_numeral)
  then show ?thesis by simp
qed

subsection \<open>Numbers that are not NaN and not negative\<close>

lemma dbl_rnd [simp]: "dbl (rnd x)"
  by (cases "rnd x") (simp_all add: dbl_def rnd_idem)

lemma dbl_fadd [simp]: "dbl (fadd x y)"
  by (cases x; cases y) (simp_all add: dbl_def [of PosInf] dbl_def [of NegInf] dbl_def [of NaN])

lemma dbl_zero [simp]: "dbl (Fin 0)"
  by (simp add: dbl_def)

lemma fadd_zero: "dbl x \<Longrightarrow> fadd x (Fin 0) = x"
  by (cases x) (simp_all add: dbl_def)

lemma nonneg_rnd: "0 \<le> x \<Longrightarrow> nonneg (rnd x)"
  using rnd_nonneg [of x] by (auto simp: nonneg_def)

lemma nonneg_fadd: "nonneg x \<Longrightarrow> nonneg y \<Longrightarrow> nonneg (fadd x y)"
  by (cases x; cases y) (simp_all add: nonneg_def nonneg_rnd [unfolded nonneg_def])

lemma nonneg_Math_round: "nonneg x \<Longrightarrow> nonneg (Math_round x)"
  by (cases x) (simp_all add: nonneg_def)

lemma nonneg_round2: "nonneg x \<Longrightarrow> nonneg (round2 x)"
proof -
  assume x: "nonneg x"
  have a: "nonneg (fmul x (Fin 100))"
    using x by (cases x) (simp_all add: nonneg_def nonneg_rnd [unfolded nonneg_def])
  have b: "nonneg (fdiv y (Fin 100))" if "nonneg y" for y
    using that by (cases y) (simp_all add: nonneg_def nonneg_rnd [unfolded nonneg_def])
  show ?thesis unfolding round2_def by (intro b nonneg_Math_round a)
qed

lemma nonneg_not_NaN: "nonneg x \<Longrightarrow> x \<noteq> NaN"
  by (auto simp: nonneg_def)

lemma lt_iff_not_ge: "x \<noteq> NaN \<Longrightarrow> lt x (Fin b) \<longleftrightarrow> \<not> ge x (Fin b)"
  by (cases x) (auto simp: lt_def)

section \<open>Keyed accumulators\<close>

lemma firstKeys_Nil [simp]: "firstKeys [] = []"
  by (simp add: firstKeys_def)

lemma firstKeys_snoc:
  "firstKeys (ks @ [k]) = (if k \<in> set ks then firstKeys ks else firstKeys ks @ [k])"
  by (simp add: firstKeys_def)

lemma set_firstKeys [simp]: "set (firstKeys ks) = set ks"
  by (simp add: firstKeys_def)

lemma distinct_firstKeys [simp]: "distinct (firstKeys ks)"
  by (simp add: firstKeys_def)

lemma map_of_keyed:
  "map_of (map (\<lambda>k. (k, g k)) ks) k = (if k \<in> set ks then Some (g k) else None)"
  by (induction ks) auto

lemma map_entry_keyed:
  "distinct ks \<Longrightarrow>
   AList.map_entry k f (map (\<lambda>x. (x, g x)) ks) = map (\<lambda>x. (x, if x = k then f (g x) else g x)) ks"
  by (induction ks) auto

lemma map_entry_snoc:
  "k \<notin> fst ` set xs \<Longrightarrow> AList.map_entry k f (xs @ [(k, v)]) = xs @ [(k, f v)]"
  by (induction xs) auto

lemma update_keyed_new:
  "k \<notin> set ks \<Longrightarrow> AList.update k v (map (\<lambda>x. (x, g x)) ks) = map (\<lambda>x. (x, g x)) ks @ [(k, v)]"
  by (induction ks) auto

lemma update_keyed_old:
  "k \<in> set ks \<Longrightarrow> g k = v \<Longrightarrow> AList.update k v (map (\<lambda>x. (x, g x)) ks) = map (\<lambda>x. (x, g x)) ks"
  by (induction ks) auto

subsection \<open>The report card groups by subject\<close>

lemma subjectData_snoc:
  "rows \<noteq> [] \<Longrightarrow> subjectData (rows @ [r]) = pushScore (fst r) (subjectData rows)"
  by (simp add: subjectData_def)

lemma subjectData_single: "subjectData [r] = pushScore (fst r) (newSubjectData r)"
  by (simp add: subjectData_def)

lemma groupScore_fold:
  "foldl groupScore [] rows =
     map (\<lambda>k. (k, subjectData (filter (\<lambda>row. s_subjectId (fst row) = k) rows)))
       (firstKeys (map (\<lambda>row. s_subjectId (fst row)) rows))"
proof (induction rows rule: rev_induct)
  case Nil
  then show ?case by simp
next
  case (snoc r rows)
  let ?key = "\<lambda>row. s_subjectId (fst row)"
  let ?G = "\<lambda>rows k. subjectData (filter (\<lambda>row. ?key row = k) rows)"
  let ?ks = "firstKeys (map ?key rows)"
  have st: "foldl groupScore [] (rows @ [r]) = groupScore (map (\<lambda>k. (k, ?G rows k)) ?ks) r"
    by (simp add: snoc.IH)
  show ?case
  proof (cases "?key r \<in> set (map ?key rows)")
    case True
    then obtain row where "row \<in> set rows" and "?key row = ?key r" by auto
    then have ne: "filter (\<lambda>row. ?key row = ?key r) rows \<noteq> []"
      unfolding filter_empty_conv by blast
    have "groupScore (map (\<lambda>k. (k, ?G rows k)) ?ks) r =
          map (\<lambda>k. (k, if k = ?key r then pushScore (fst r) (?G rows k) else ?G rows k)) ?ks"
      using True by (simp add: groupScore_def Let_def map_of_keyed map_entry_keyed)
    also have "\<dots> = map (\<lambda>k. (k, ?G (rows @ [r]) k)) ?ks"
      using ne by (auto simp: subjectData_snoc)
    finally show ?thesis unfolding st using True by (simp add: firstKeys_snoc)
  next
    case False
    then have "\<forall>row \<in> set rows. ?key row \<noteq> ?key r" by (metis (no_types, lifting) image_eqI list.set_map)
    then have nil: "filter (\<lambda>row. ?key row = ?key r) rows = []"
      unfolding filter_empty_conv by blast
    have notin: "?key r \<notin> fst ` set (map (\<lambda>k. (k, ?G rows k)) ?ks)"
      using False by (auto simp: image_iff)
    have "groupScore (map (\<lambda>k. (k, ?G rows k)) ?ks) r =
          map (\<lambda>k. (k, ?G rows k)) ?ks @ [(?key r, pushScore (fst r) (newSubjectData r))]"
      using False notin by (simp add: groupScore_def Let_def map_of_keyed map_entry_snoc)
    also have "\<dots> = map (\<lambda>k. (k, ?G (rows @ [r]) k)) (?ks @ [?key r])"
      using False by (auto simp: nil subjectData_single)
    finally show ?thesis unfolding st using False by (simp add: firstKeys_snoc)
  qed
qed

subsection \<open>The grade book groups by student\<close>

lemma initStudent_fold:
  "foldl initStudent [] es =
     map (\<lambda>k. (k, studentData k [])) (firstKeys (map en_studentId es))"
proof (induction es rule: rev_induct)
  case Nil
  then show ?case by simp
next
  case (snoc e es)
  let ?ks = "firstKeys (map en_studentId es)"
  have new: "newStudentData e = studentData (en_studentId e) []"
    by (simp add: newStudentData_def studentData_def)
  have st: "foldl initStudent [] (es @ [e]) =
            AList.update (en_studentId e) (studentData (en_studentId e) [])
              (map (\<lambda>k. (k, studentData k [])) ?ks)"
    by (simp add: snoc.IH) (simp add: initStudent_def new)
  show ?case
  proof (cases "en_studentId e \<in> set (map en_studentId es)")
    case True
    then show ?thesis
      unfolding st by (simp add: firstKeys_snoc update_keyed_old)
  next
    case False
    then show ?thesis
      unfolding st by (simp add: firstKeys_snoc update_keyed_new)
  qed
qed

lemma addClassScore_keyed:
  assumes "distinct ks"
  shows "addClassScore (map (\<lambda>k. (k, g k)) ks) s =
         map (\<lambda>k. (k, if k = s_studentId s then pushClassScore s (g k) else g k)) ks"
proof (cases "s_studentId s \<in> set ks")
  case True
  then show ?thesis using assms by (simp add: addClassScore_def map_of_keyed map_entry_keyed)
next
  case False
  then have "map (\<lambda>k. (k, if k = s_studentId s then pushClassScore s (g k) else g k)) ks =
             map (\<lambda>k. (k, g k)) ks" by (intro map_cong) auto
  then show ?thesis using False by (simp add: addClassScore_def map_of_keyed)
qed

lemma addClassScore_fold:
  assumes "distinct ks"
  shows "foldl addClassScore (map (\<lambda>k. (k, studentData k [])) ks) records =
         map (\<lambda>k. (k, studentData k (filter (\<lambda>s. s_studentId s = k) records))) ks"
proof (induction records rule: rev_induct)
  case Nil
  then show ?case by simp
next
  case (snoc s records)
  have "foldl addClassScore (map (\<lambda>k. (k, studentData k [])) ks) (records @ [s]) =
        addClassScore (map (\<lambda>k. (k, studentData k (filter (\<lambda>s. s_studentId s = k) records))) ks) s"
    by (simp add: snoc.IH)
  also have "\<dots> = map (\<lambda>k. (k, if k = s_studentId s
                 then pushClassScore s (studentData k (filter (\<lambda>s. s_studentId s = k) records))
                 else studentData k (filter (\<lambda>s. s_studentId s = k) records))) ks"
    using assms by (rule addClassScore_keyed)
  also have "\<dots> = map (\<lambda>k. (k, studentData k (filter (\<lambda>s. s_studentId s = k) (records @ [s])))) ks"
    by (auto simp: studentData_def)
  finally show ?case .
qed

section \<open>Validated rows compute with finite numbers\<close>

lemma decimal_5_2_upper: "decimal 5 2 x \<Longrightarrow> x \<le> 2 powi 10"
proof -
  assume "decimal 5 2 x"
  then have "\<bar>x * 100\<bar> < 100000" by (simp add: decimal_def)
  then have "x < 1000" by simp
  then show ?thesis by (simp add: pow2_numeral)
qed

lemma decimal_5_2_lower:
  assumes "decimal 5 2 x" and "0 < x"
  shows "2 powi (- 7) \<le> x"
proof -
  from assms(1) obtain n :: int where n: "x * 100 = of_int n"
    by (auto simp: decimal_def)
  from assms(2) have "0 < x * 100" by simp
  then have "0 < n" by (simp add: n)
  then have "1 \<le> n" by simp
  then have "(1::rat) \<le> of_int n" by (simp only: of_int_1_le_iff)
  then have "1 \<le> x * 100" by (simp only: n)
  then show ?thesis by (simp add: pow2_numeral)
qed

lemma validated_score:
  assumes "validated s"
  shows "\<exists>a. Number (s_score s) = Fin a \<and> 0 \<le> a \<and> a \<le> 2 powi 10"
  unfolding Number_def using assms
  by (intro rnd_upper decimal_5_2_upper) (simp_all add: validated_def)

lemma validated_maxScore:
  assumes "validated s"
  shows "\<exists>b. Number (s_maxScore s) = Fin b \<and> 2 powi (- 7) \<le> b \<and> b \<le> 2 powi 10"
proof -
  from assms have d: "decimal 5 2 (s_maxScore s)" and pos: "0 < s_maxScore s"
    by (simp_all add: validated_def)
  have "\<exists>b. rnd (s_maxScore s) = Fin b \<and> 0 \<le> b \<and> b \<le> 2 powi 10"
    using d pos by (intro rnd_upper decimal_5_2_upper) simp_all
  then obtain b where b: "rnd (s_maxScore s) = Fin b" and u: "b \<le> 2 powi 10" by blast
  have "rnd (s_maxScore s) = PosInf \<or> (\<exists>y. rnd (s_maxScore s) = Fin y \<and> 2 powi (- 7) \<le> y)"
    using d pos by (intro rnd_lower decimal_5_2_lower) simp_all
  with b have "2 powi (- 7) \<le> b" by simp
  with b u show ?thesis unfolding Number_def by blast
qed

lemma validated_weight:
  assumes "validated s"
  shows "\<exists>w. Number (s_weight s) = Fin w \<and> 0 \<le> w \<and> w \<le> 1"
proof -
  from assms have "0 \<le> s_weight s" and "s_weight s \<le> 2 powi 0" by (simp_all add: validated_def)
  then have "\<exists>w. rnd (s_weight s) = Fin w \<and> 0 \<le> w \<and> w \<le> 2 powi 0"
    by (intro rnd_upper) simp_all
  then show ?thesis by (simp add: Number_def)
qed

lemma validated_percentage:
  assumes "validated s"
  shows "\<exists>p. percentage s = Fin p \<and> 0 \<le> p \<and> p \<le> 2 powi 24"
proof -
  from validated_score [OF assms] obtain a
    where a: "Number (s_score s) = Fin a" "0 \<le> a" "a \<le> 2 powi 10" by blast
  from validated_maxScore [OF assms] obtain b
    where b: "Number (s_maxScore s) = Fin b" "2 powi (- 7) \<le> b" by blast
  have bpos: "0 < b" using b(2) pow2_pos [of "- 7"] by linarith
  have "a \<le> 2 powi 10 * (2 powi 7 * b)"
  proof -
    have "1 = (2::rat) powi 7 * 2 powi (- 7)" by (simp add: pow2_numeral)
    also have "\<dots> \<le> 2 powi 7 * b" using b(2) by (intro mult_left_mono) simp_all
    finally have "(1::rat) \<le> 2 powi 7 * b" .
    then have "2 powi 10 * 1 \<le> 2 powi 10 * (2 powi 7 * b)" by (intro mult_left_mono) simp_all
    with a(3) show ?thesis by simp
  qed
  then have "a / b \<le> 2 powi 10 * 2 powi 7" using bpos by (simp add: pos_divide_le_eq)
  also have "\<dots> = 2 powi 17" by (simp add: pow2_numeral)
  finally have "a / b \<le> 2 powi 17" .
  moreover have "0 \<le> a / b" using a(2) bpos by simp
  ultimately obtain c where c: "rnd (a / b) = Fin c" "0 \<le> c" "c \<le> 2 powi 17"
    using rnd_upper [of "a / b" 17] by auto
  have "c * 100 \<le> 2 powi 17 * 2 powi 7" using c(2,3) by (intro mult_mono) (simp_all add: pow2_numeral)
  also have "\<dots> = 2 powi 24" by (simp add: pow2_numeral)
  finally have "c * 100 \<le> 2 powi 24" .
  moreover have "0 \<le> c * 100" using c(2) by simp
  ultimately obtain p where p: "rnd (c * 100) = Fin p" "0 \<le> p" "p \<le> 2 powi 24"
    using rnd_upper [of "c * 100" 24] by auto
  have "percentage s = Fin p" using bpos by (simp add: percentage_def a b c p)
  with p show ?thesis by simp
qed

lemma validated_weightedScore:
  assumes "validated s"
  shows "\<exists>v. weightedScore s = Fin v \<and> 0 \<le> v"
proof -
  from validated_percentage [OF assms] obtain p
    where p: "percentage s = Fin p" "0 \<le> p" "p \<le> 2 powi 24" by blast
  from validated_weight [OF assms] obtain w
    where w: "Number (s_weight s) = Fin w" "0 \<le> w" "w \<le> 1" by blast
  have "p * w \<le> 2 powi 24 * 1" using p w by (intro mult_mono) simp_all
  moreover have "0 \<le> p * w" using p w by simp
  ultimately obtain v where "rnd (p * w) = Fin v" "0 \<le> v"
    using rnd_upper [of "p * w" 24] by auto
  then show ?thesis by (simp add: weightedScore_def p w)
qed

lemma zero_weight:
  assumes "validated s" and "s_weight s = 0"
  shows "Number (s_weight s) = Fin 0" and "weightedScore s = Fin 0"
proof -
  show w: "Number (s_weight s) = Fin 0" by (simp add: Number_def assms(2))
  from validated_percentage [OF assms(1)] obtain p where "percentage s = Fin p" by blast
  then show "weightedScore s = Fin 0" by (simp add: weightedScore_def w)
qed

subsection \<open>Totals of validated rows\<close>

lemma totalWeight_snoc: "totalWeight (rs @ [s]) = fadd (totalWeight rs) (Number (s_weight s))"
  by (simp add: totalWeight_def)

lemma totalWeightedScore_snoc:
  "totalWeightedScore (rs @ [s]) = fadd (totalWeightedScore rs) (weightedScore s)"
  by (simp add: totalWeightedScore_def)

lemma dbl_totalWeight [simp]: "dbl (totalWeight rs)"
  by (induction rs rule: rev_induct) (simp_all add: totalWeight_snoc, simp add: totalWeight_def)

lemma dbl_totalWeightedScore [simp]: "dbl (totalWeightedScore rs)"
  by (induction rs rule: rev_induct)
     (simp_all add: totalWeightedScore_snoc, simp add: totalWeightedScore_def)

lemma totalWeight_finite:
  assumes "\<forall>s \<in> set rs. validated s"
  shows "\<exists>t. totalWeight rs = Fin t \<and> 0 \<le> t \<and> t \<le> 2 powi 53"
  using assms
proof (induction rs rule: rev_induct)
  case Nil
  then show ?case by (simp add: totalWeight_def)
next
  case (snoc s rs)
  then obtain t where t: "totalWeight rs = Fin t" "0 \<le> t" "t \<le> 2 powi 53" by auto
  from snoc.prems have "validated s" by simp
  from validated_weight [OF this] obtain w
    where w: "Number (s_weight s) = Fin w" "0 \<le> w" "w \<le> 1" by blast
  have "dbl (Fin t)" using dbl_totalWeight [of rs] by (simp add: t)
  then have "rnd t = Fin t" by (simp add: dbl_def)
  from rnd_sat [OF this t(2,3) w(2,3)] show ?case by (simp add: totalWeight_snoc t w)
qed

lemma totalWeightedScore_nonneg:
  assumes "\<forall>s \<in> set rs. validated s"
  shows "nonneg (totalWeightedScore rs)"
  using assms
proof (induction rs rule: rev_induct)
  case Nil
  then show ?case by (simp add: totalWeightedScore_def nonneg_def)
next
  case (snoc s rs)
  from snoc.prems have "validated s" by simp
  from validated_weightedScore [OF this] have "nonneg (weightedScore s)"
    by (auto simp: nonneg_def)
  with snoc show ?case by (simp add: totalWeightedScore_snoc nonneg_fadd)
qed

lemma finalGrade_nonneg:
  assumes "\<forall>s \<in> set rs. validated s"
  shows "nonneg (finalGrade (totalWeightedScore rs) (totalWeight rs))"
proof -
  from totalWeight_finite [OF assms] obtain t
    where t: "totalWeight rs = Fin t" "0 \<le> t" by blast
  have n: "nonneg (totalWeightedScore rs)" using assms by (rule totalWeightedScore_nonneg)
  show ?thesis
  proof (cases "0 < t")
    case True
    have "nonneg (fdiv (totalWeightedScore rs) (Fin t))"
      using n True by (cases "totalWeightedScore rs")
        (simp_all add: nonneg_def nonneg_rnd [unfolded nonneg_def])
    then show ?thesis using True by (simp add: finalGrade_def t nonneg_round2)
  next
    case False
    then show ?thesis by (simp add: finalGrade_def t nonneg_def)
  qed
qed

section \<open>What the two views return\<close>

lemma pushScore_fold_scores:
  "sd_scores (foldl (\<lambda>d row. pushScore (fst row) d) d0 rows) =
     sd_scores d0 @ map (\<lambda>row. scoreEntry (fst row)) rows"
  by (induction rows arbitrary: d0) (simp_all add: pushScore_def)

lemma pushScore_fold_tws:
  "sd_totalWeightedScore (foldl (\<lambda>d row. pushScore (fst row) d) d0 rows) =
     foldl fadd (sd_totalWeightedScore d0) (map (\<lambda>row. weightedScore (fst row)) rows)"
  by (induction rows arbitrary: d0) (simp_all add: pushScore_def)

lemma pushScore_fold_tw:
  "sd_totalWeight (foldl (\<lambda>d row. pushScore (fst row) d) d0 rows) =
     foldl fadd (sd_totalWeight d0) (map (\<lambda>row. Number (s_weight (fst row))) rows)"
  by (induction rows arbitrary: d0) (simp_all add: pushScore_def)

lemma pushScore_fold_keys:
  "sd_subject (foldl (\<lambda>d row. pushScore (fst row) d) d0 rows) = sd_subject d0"
  "sd_class (foldl (\<lambda>d row. pushScore (fst row) d) d0 rows) = sd_class d0"
  "sd_semester (foldl (\<lambda>d row. pushScore (fst row) d) d0 rows) = sd_semester d0"
  by (induction rows arbitrary: d0) (simp_all add: pushScore_def)

lemma subjectData_fields:
  "sd_scores (subjectData rows) = map (\<lambda>row. scoreEntry (fst row)) rows"
  "sd_totalWeightedScore (subjectData rows) = totalWeightedScore (map fst rows)"
  "sd_totalWeight (subjectData rows) = totalWeight (map fst rows)"
  "sd_subject (subjectData rows) = s_subjectId (fst (hd rows))"
  "sd_class (subjectData rows) = cs_classId (snd (hd rows))"
  "sd_semester (subjectData rows) = cs_semesterId (snd (hd rows))"
  by (simp_all add: subjectData_def pushScore_fold_scores pushScore_fold_tws pushScore_fold_tw
        pushScore_fold_keys newSubjectData_def totalWeightedScore_def totalWeight_def comp_def)

lemma pushClassScore_fold_scores:
  "sn_scores (foldl (\<lambda>d s. pushClassScore s d) d0 records) =
     sn_scores d0 @ map classScoreEntry records"
  by (induction records arbitrary: d0) (simp_all add: pushClassScore_def)

lemma pushClassScore_fold_tws:
  "sn_totalWeightedScore (foldl (\<lambda>d s. pushClassScore s d) d0 records) =
     foldl fadd (sn_totalWeightedScore d0) (map weightedScore records)"
  by (induction records arbitrary: d0) (simp_all add: pushClassScore_def)

lemma pushClassScore_fold_tw:
  "sn_totalWeight (foldl (\<lambda>d s. pushClassScore s d) d0 records) =
     foldl fadd (sn_totalWeight d0) (map (\<lambda>s. Number (s_weight s)) records)"
  by (induction records arbitrary: d0) (simp_all add: pushClassScore_def)

lemma pushClassScore_fold_student:
  "sn_student (foldl (\<lambda>d s. pushClassScore s d) d0 records) = sn_student d0"
  by (induction records arbitrary: d0) (simp_all add: pushClassScore_def)

lemma studentData_fields:
  "sn_scores (studentData k records) = map classScoreEntry records"
  "sn_totalWeightedScore (studentData k records) = totalWeightedScore records"
  "sn_totalWeight (studentData k records) = totalWeight records"
  "sn_student (studentData k records) = k"
  by (simp_all add: studentData_def pushClassScore_fold_scores pushClassScore_fold_tws
        pushClassScore_fold_tw pushClassScore_fold_student totalWeightedScore_def totalWeight_def)

text \<open>
  The report card has one entry per subject among the fetched scores, in the order in
  which the subjects first appear; the entry is computed from that subject's rows.
\<close>

lemma getStudentGrades_groups:
  assumes "getStudentGrades db studentId semesterId = Inr results"
  shows "results =
         map (\<lambda>k. subjectGrade (subjectData
                (filter (\<lambda>row. s_subjectId (fst row) = k) (scoresOfStudent db studentId semesterId))))
           (firstKeys (map (\<lambda>row. s_subjectId (fst row)) (scoresOfStudent db studentId semesterId)))"
  using assms
  by (auto simp: getStudentGrades_def groupScore_fold comp_def split: option.splits)

text \<open>
  The grade book has one entry per student among the ACTIVE enrollments, in the order
  in which the students first appear; the entry is computed from that student's rows.
\<close>

lemma getClassSubjectScores_groups:
  assumes "getClassSubjectScores db classSubjectId = Inr (classSubject, results)"
  shows "findClassSubject db classSubjectId = Some classSubject"
    and "results =
         map (\<lambda>k. studentGrade (studentData k
                (filter (\<lambda>s. s_studentId s = k) (scoresOfClassSubject db classSubjectId))))
           (firstKeys (map en_studentId (activeEnrollments db classSubject)))"
  using assms
  by (auto simp: getClassSubjectScores_def initStudent_fold addClassScore_fold comp_def
           split: option.splits)

lemma hd_filter_key:
  assumes "k \<in> set (map f xs)"
  shows "filter (\<lambda>x. f x = k) xs \<noteq> []" and "f (hd (filter (\<lambda>x. f x = k) xs)) = k"
proof -
  from assms obtain x where "x \<in> set xs" and "f x = k" by auto
  then show ne: "filter (\<lambda>x. f x = k) xs \<noteq> []" unfolding filter_empty_conv by blast
  then have "hd (filter (\<lambda>x. f x = k) xs) \<in> set (filter (\<lambda>x. f x = k) xs)" by (rule hd_in_set)
  then show "f (hd (filter (\<lambda>x. f x = k) xs)) = k" by simp
qed

lemma subjectGrade_fields:
  "g_subject (subjectGrade d) = sd_subject d"
  "g_scores (subjectGrade d) = sd_scores d"
  "g_totalWeight (subjectGrade d) = sd_totalWeight d"
  "g_finalGrade (subjectGrade d) = finalGrade (sd_totalWeightedScore d) (sd_totalWeight d)"
  "g_letterGrade (subjectGrade d) = letterGrade (finalGrade (sd_totalWeightedScore d) (sd_totalWeight d))"
  by (simp_all add: subjectGrade_def Let_def)

lemma studentGrade_fields:
  "sg_student (studentGrade d) = sn_student d"
  "sg_scores (studentGrade d) = sn_scores d"
  "sg_finalGrade (studentGrade d) = finalGrade (sn_totalWeightedScore d) (sn_totalWeight d)"
  "sg_letterGrade (studentGrade d) = letterGrade (finalGrade (sn_totalWeightedScore d) (sn_totalWeight d))"
  by (simp_all add: studentGrade_def Let_def)

text \<open>Every entry of the report card, in terms of the rows of its subject.\<close>

lemma report_entry:
  assumes "getStudentGrades db studentId semesterId = Inr results" and "g \<in> set results"
  defines "rows \<equiv> filter (\<lambda>row. s_subjectId (fst row) = g_subject g)
                     (scoresOfStudent db studentId semesterId)"
  shows "rows \<noteq> []"
    and "g_scores g = map (\<lambda>row. scoreEntry (fst row)) rows"
    and "g_totalWeight g = totalWeight (map fst rows)"
    and "g_finalGrade g = finalGrade (totalWeightedScore (map fst rows)) (totalWeight (map fst rows))"
    and "g_letterGrade g = letterGrade (g_finalGrade g)"
proof -
  let ?all = "scoresOfStudent db studentId semesterId"
  let ?key = "\<lambda>row. s_subjectId (fst row)"
  from getStudentGrades_groups [OF assms(1)] assms(2)
  obtain k where k: "k \<in> set (map ?key ?all)"
    and g: "g = subjectGrade (subjectData (filter (\<lambda>row. ?key row = k) ?all))"
    by auto
  from hd_filter_key [OF k] have ne: "filter (\<lambda>row. ?key row = k) ?all \<noteq> []"
    and "?key (hd (filter (\<lambda>row. ?key row = k) ?all)) = k" by simp_all
  then have "g_subject g = k" by (simp add: g subjectGrade_fields subjectData_fields)
  then have rows: "rows = filter (\<lambda>row. ?key row = k) ?all" by (simp add: rows_def)
  show "rows \<noteq> []" using ne by (simp add: rows)
  show "g_scores g = map (\<lambda>row. scoreEntry (fst row)) rows"
    by (simp add: rows g subjectGrade_fields subjectData_fields)
  show "g_totalWeight g = totalWeight (map fst rows)"
    by (simp add: rows g subjectGrade_fields subjectData_fields)
  show "g_finalGrade g = finalGrade (totalWeightedScore (map fst rows)) (totalWeight (map fst rows))"
    by (simp add: rows g subjectGrade_fields subjectData_fields)
  show "g_letterGrade g = letterGrade (g_finalGrade g)"
    by (simp add: g subjectGrade_fields)
qed

text \<open>Every entry of the grade book, in terms of the rows of its student.\<close>

lemma gradebook_entry:
  assumes "getClassSubjectScores db classSubjectId = Inr (classSubject, results)"
    and "g \<in> set results"
  defines "records \<equiv> filter (\<lambda>s. s_studentId s = sg_student g)
                        (scoresOfClassSubject db classSubjectId)"
  shows "sg_student g \<in> set (map en_studentId (activeEnrollments db classSubject))"
    and "sg_scores g = map classScoreEntry records"
    and "sg_finalGrade g = finalGrade (totalWeightedScore records) (totalWeight records)"
    and "sg_letterGrade g = letterGrade (sg_finalGrade g)"
proof -
  let ?all = "scoresOfClassSubject db classSubjectId"
  from getClassSubjectScores_groups(2) [OF assms(1)] assms(2)
  obtain k where k: "k \<in> set (map en_studentId (activeEnrollments db classSubject))"
    and g: "g = studentGrade (studentData k (filter (\<lambda>s. s_studentId s = k) ?all))"
    by auto
  have gk: "sg_student g = k" by (simp add: g studentGrade_fields studentData_fields)
  then have records: "records = filter (\<lambda>s. s_studentId s = k) ?all" by (simp add: records_def)
  show "sg_student g \<in> set (map en_studentId (activeEnrollments db classSubject))"
    using k gk by simp
  show "sg_scores g = map classScoreEntry records"
    by (simp add: records g studentGrade_fields studentData_fields)
  show "sg_finalGrade g = finalGrade (totalWeightedScore records) (totalWeight records)"
    by (simp add: records g studentGrade_fields studentData_fields)
  show "sg_letterGrade g = letterGrade (sg_finalGrade g)"
    by (simp add: g studentGrade_fields)
qed

section \<open>Evaluating numbers\<close>

lemma rnd_eval:
  assumes lo: "2 powi e \<le> \<bar>q\<bar>" and hi: "\<bar>q\<bar> < 2 powi (e + 1)"
    and e: "- 1022 \<le> e" "e < 1023"
  shows "rnd q = Fin (of_int (rhe (q / 2 powi (e - 52))) * 2 powi (e - 52))"
proof -
  define u :: rat where "u = 2 powi (e - 52)"
  have u: "0 < u" by (simp add: u_def)
  have il: "ilog2 q = e" using lo hi by (rule ilog2_eqI)
  have "0 < \<bar>q\<bar>" using lo pow2_pos [of e] by linarith
  then have nz: "q \<noteq> 0" by simp
  have "\<bar>q\<bar> < 2 powi 53 * u" using hi by (simp only: u_def pow2_53)
  then have "\<bar>q\<bar> / u < 2 powi 53" using u by (simp add: pos_divide_less_eq)
  then have "\<bar>q / u\<bar> \<le> of_int (2 ^ 53)" using u by (simp add: pow2_numeral)
  then have "\<bar>rhe (q / u)\<bar> \<le> 2 ^ 53" by (rule rhe_abs_le)
  then have "(of_int \<bar>rhe (q / u)\<bar> :: rat) \<le> of_int (2 ^ 53)" by (simp only: of_int_le_iff)
  then have "\<bar>of_int (rhe (q / u)) * u\<bar> \<le> of_int (2 ^ 53) * u"
    using u by (simp add: abs_mult)
  also have "of_int (2 ^ 53) * u = 2 powi 53 * u" by (simp add: pow2_numeral)
  also have "\<dots> = 2 powi (e + 1)" by (simp only: u_def pow2_53)
  also have "\<dots> < 2 powi 1024" using e by (intro pow2_strict_mono) simp
  finally have "\<not> 2 powi 1024 \<le> \<bar>of_int (rhe (q / u)) * u\<bar>" by simp
  then show ?thesis using nz e by (simp add: rnd_def Let_def il flip: u_def)
qed

lemma rnd_numeral [simp]:
  "\<bar>numeral n :: int\<bar> \<le> 2 ^ 53 \<Longrightarrow> rnd (numeral n) = Fin (numeral n)"
  using rnd_of_int [of "numeral n"] by simp

lemma rnd_one [simp]: "rnd 1 = Fin 1"
  using rnd_of_int [of 1] by simp

lemma Number_simps [simp]:
  "Number 0 = Fin 0" "Number 1 = Fin 1"
  "\<bar>numeral n :: int\<bar> \<le> 2 ^ 53 \<Longrightarrow> Number (numeral n) = Fin (numeral n)"
  by (simp_all add: Number_def)

lemma rnd_9_10: "rnd (9 / 10) = Fin (8106479329266893 / 9007199254740992)"
  by (subst rnd_eval [where e = "- 1"]) (simp_all add: pow2_numeral rhe_def Let_def)

lemma rnd_90: "rnd (202661983231672325 / 2251799813685248) = Fin 90"
  by (subst rnd_eval [where e = 6]) (simp_all add: pow2_numeral rhe_def Let_def)

lemma rnd_half: "rnd (1 / 2) = Fin (1 / 2)"
  by (subst rnd_eval [where e = "- 1"]) (simp_all add: pow2_numeral rhe_def Let_def)

lemma rnd_3_4: "rnd (3 / 4) = Fin (3 / 4)"
  by (subst rnd_eval [where e = "- 1"]) (simp_all add: pow2_numeral rhe_def Let_def)

lemma rnd_3_2: "rnd (3 / 2) = Fin (3 / 2)"
  by (subst rnd_eval [where e = 0]) (simp_all add: pow2_numeral rhe_def Let_def)

lemma round2_of_int:
  assumes "\<bar>n * 100\<bar> \<le> 2 ^ 53"
  shows "round2 (Fin (of_int n)) = Fin (of_int n)"
proof -
  have "\<bar>n\<bar> \<le> \<bar>n * 100\<bar>" by (simp add: abs_mult)
  with assms have b: "\<bar>n\<bar> \<le> 2 ^ 53" by linarith
  have "rnd (of_int (n * 100)) = Fin (of_int (n * 100))"
    using assms by (rule rnd_of_int)
  then have m: "fmul (Fin (of_int n)) (Fin 100) = Fin (of_int (n * 100))" by simp
  have "\<lfloor>of_int (n * 100) + 1 / 2 :: rat\<rfloor> = n * 100"
    by (intro floor_unique) simp_all
  then have r: "Math_round (Fin (of_int (n * 100))) = Fin (of_int (n * 100))" by simp
  have "fdiv (Fin (of_int (n * 100))) (Fin 100) = rnd (of_int n)" by simp
  also have "\<dots> = Fin (of_int n)" using b by (rule rnd_of_int)
  finally show ?thesis by (simp only: round2_def m r)
qed

lemma round2_numeral:
  "\<bar>numeral n * 100 :: int\<bar> \<le> 2 ^ 53 \<Longrightarrow> round2 (Fin (numeral n)) = Fin (numeral n)"
  using round2_of_int [of "numeral n"] by simp

lemma round2_zero: "round2 (Fin 0) = Fin 0"
  by (simp add: round2_def)

section \<open>The example database\<close>

lemma quiz45_numbers:
  "percentage quiz45 = Fin 90" "weightedScore quiz45 = Fin 90" "Number (s_weight quiz45) = Fin 1"
proof -
  show p: "percentage quiz45 = Fin 90"
    by (simp add: percentage_def quiz45_def rnd_9_10 rnd_90)
  show "weightedScore quiz45 = Fin 90" unfolding weightedScore_def p by (simp add: quiz45_def)
  show "Number (s_weight quiz45) = Fin 1" by (simp add: quiz45_def)
qed

lemma homework10_numbers:
  "percentage homework10 = Fin 50" "weightedScore homework10 = Fin 0"
  "Number (s_weight homework10) = Fin 0"
proof -
  show p: "percentage homework10 = Fin 50"
    by (simp add: percentage_def homework10_def rnd_half)
  show "weightedScore homework10 = Fin 0" unfolding weightedScore_def p by (simp add: homework10_def)
  show "Number (s_weight homework10) = Fin 0" by (simp add: homework10_def)
qed

lemma quiz30_numbers:
  "percentage quiz30 = Fin 75" "weightedScore quiz30 = Fin 75" "Number (s_weight quiz30) = Fin 1"
proof -
  show p: "percentage quiz30 = Fin 75"
    by (simp add: percentage_def quiz30_def rnd_3_4)
  show "weightedScore quiz30 = Fin 75" unfolding weightedScore_def p by (simp add: quiz30_def)
  show "Number (s_weight quiz30) = Fin 1" by (simp add: quiz30_def)
qed

lemma example_validated: "validated quiz45" "validated homework10" "validated quiz30"
  by (simp_all add: validated_def decimal_def quiz45_def homework10_def quiz30_def)

lemma example_scoresOfStudent:
  "scoresOfStudent exampleDb ''s1'' None = [(quiz45, mathClass), (homework10, mathClass)]"
  by (simp add: scoresOfStudent_def exampleDb_def List.map_filter_simps withClassSubject_def
        findClassSubject_def truthy_def quiz45_def homework10_def quiz30_def mathClass_def)

lemma getStudentGrades_eq:
  assumes "findStudent db studentId = Some student"
  shows "getStudentGrades db studentId semesterId =
         Inr (map (\<lambda>k. subjectGrade (subjectData
                (filter (\<lambda>row. s_subjectId (fst row) = k) (scoresOfStudent db studentId semesterId))))
           (firstKeys (map (\<lambda>row. s_subjectId (fst row)) (scoresOfStudent db studentId semesterId))))"
  using assms by (simp add: getStudentGrades_def groupScore_fold comp_def)

lemma getClassSubjectScores_eq:
  assumes "findClassSubject db classSubjectId = Some classSubject"
  shows "getClassSubjectScores db classSubjectId =
         Inr (classSubject,
           map (\<lambda>k. studentGrade (studentData k
                  (filter (\<lambda>s. s_studentId s = k) (scoresOfClassSubject db classSubjectId))))
             (firstKeys (map en_studentId (activeEnrollments db classSubject))))"
  using assms
  by (simp add: getClassSubjectScores_def initStudent_fold addClassScore_fold comp_def)

lemma finalGrade_zero [simp]: "finalGrade x (Fin 0) = Fin 0"
  by (simp add: finalGrade_def)

lemma letterGrade_zero [simp]: "letterGrade (Fin 0) = ''F''"
  by (simp add: letterGrade_def)

lemma letterGrade_90 [simp]: "letterGrade (Fin 90) = ''A''"
  by (simp add: letterGrade_def)

lemma finalGrade_90_1 [simp]: "finalGrade (Fin 90) (Fin 1) = Fin 90"
  by (simp add: finalGrade_def round2_numeral)

lemma studentGrade_empty:
  "studentGrade (studentData k []) =
     \<lparr>sg_student = k, sg_scores = [], sg_finalGrade = Fin 0, sg_letterGrade = ''F''\<rparr>"
  by (simp add: studentGrade_def studentData_def)

lemma example_findClassSubject: "findClassSubject exampleDb ''cs1'' = Some mathClass"
  by (simp add: findClassSubject_def exampleDb_def mathClass_def)

lemma example_activeEnrollments:
  "map en_studentId (activeEnrollments exampleDb mathClass) = [''s1'', ''s2'']"
  by (simp add: activeEnrollments_def exampleDb_def mathClass_def)

lemma example_scoresOfClassSubject:
  "scoresOfClassSubject exampleDb ''cs1'' = [quiz30, homework10, quiz45]"
  by (simp add: scoresOfClassSubject_def exampleDb_def List.map_filter_simps withStudent_def
        findStudent_def quiz45_def homework10_def quiz30_def)

lemma example_ids [simp]:
  "s_studentId quiz45 = ''s1''" "s_studentId homework10 = ''s1''" "s_studentId quiz30 = ''s3''"
  "s_subjectId quiz45 = ''math''" "s_subjectId homework10 = ''math''" "s_subjectId quiz30 = ''math''"
  by (simp_all add: quiz45_def homework10_def quiz30_def)

lemma example_gradebook:
  "getClassSubjectScores exampleDb ''cs1'' =
     Inr (mathClass, [annGrade, bobGrade])"
  by (simp add: annGrade_def bobGrade_def
        getClassSubjectScores_eq [OF example_findClassSubject] example_activeEnrollments
        example_scoresOfClassSubject firstKeys_def studentGrade_def studentData_def
        pushClassScore_def quiz45_numbers homework10_numbers)

lemma example_reportCard:
  "getStudentGrades exampleDb ''s1'' None =
     Inr [mathGrade]"
proof -
  have "findStudent exampleDb ''s1'' =
        Some \<lparr>st_id = ''s1'', st_firstName = ''Ann'', st_lastName = ''Doe''\<rparr>"
    by (simp add: findStudent_def exampleDb_def)
  from getStudentGrades_eq [OF this] show ?thesis
    by (simp add: mathGrade_def example_scoresOfStudent firstKeys_def subjectGrade_def subjectData_def
          pushScore_def newSubjectData_def quiz45_numbers homework10_numbers mathClass_def)
qed

lemma scoresOfClassSubject_set:
  assumes "s \<in> set (scoresOfClassSubject db classSubjectId)"
  shows "s \<in> set (scores db)" and "s_classSubjectId s = classSubjectId"
proof -
  from assms obtain st where "(s, st) \<in> set (List.map_filter (withStudent db) (scores db))"
    and c: "s_classSubjectId s = classSubjectId"
    by (auto simp: scoresOfClassSubject_def)
  then show "s \<in> set (scores db)"
    by (auto simp: List.map_filter_def withStudent_def)
  show "s_classSubjectId s = classSubjectId" by (rule c)
qed

lemma scoresOfStudent_set:
  assumes "row \<in> set (scoresOfStudent db studentId semesterId)"
  shows "fst row \<in> set (scores db)" and "s_studentId (fst row) = studentId"
proof -
  from assms have "row \<in> set (List.map_filter (withClassSubject db) (scores db))"
    and c: "s_studentId (fst row) = studentId"
    by (auto simp: scoresOfStudent_def)
  then show "fst row \<in> set (scores db)"
    by (auto simp: List.map_filter_def withClassSubject_def)
  show "s_studentId (fst row) = studentId" by (rule c)
qed

lemma map_filter_withStudent_filter:
  "List.map_filter (withStudent db) (filter P xs) =
     filter (\<lambda>row. P (fst row)) (List.map_filter (withStudent db) xs)"
  by (induction xs) (auto simp: List.map_filter_simps withStudent_def split: option.splits)

lemma scoresOfClassSubject_filter:
  assumes "students db' = students db" and "scores db' = filter P (scores db)"
  shows "scoresOfClassSubject db' classSubjectId = filter P (scoresOfClassSubject db classSubjectId)"
proof -
  have w: "withStudent db' = withStudent db"
    by (simp add: fun_eq_iff withStudent_def findStudent_def assms(1))
  let ?rows = "List.map_filter (withStudent db) (scores db)"
  let ?c = "\<lambda>row. s_classSubjectId (fst row) = classSubjectId"
  let ?f = "\<lambda>row. scoreTypeRank (s_scoreType (fst row))"
  let ?g = "\<lambda>row :: Score \<times> Student. st_lastName (snd row)"
  have "scoresOfClassSubject db' classSubjectId =
        map fst (sort_key ?g (sort_key ?f (filter ?c (filter (\<lambda>row. P (fst row)) ?rows))))"
    by (simp add: scoresOfClassSubject_def w assms(2) map_filter_withStudent_filter)
  also have "filter ?c (filter (\<lambda>row. P (fst row)) ?rows) =
             filter (\<lambda>row. P (fst row)) (filter ?c ?rows)"
    by (simp add: conj_commute)
  also have "map fst (sort_key ?g (sort_key ?f (filter (\<lambda>row. P (fst row)) (filter ?c ?rows)))) =
             map fst (filter (\<lambda>row. P (fst row)) (sort_key ?g (sort_key ?f (filter ?c ?rows))))"
    by (simp only: filter_sort)
  also have "\<dots> = filter P (map fst (sort_key ?g (sort_key ?f (filter ?c ?rows))))"
    by (simp add: filter_map comp_def)
  finally show ?thesis by (simp add: scoresOfClassSubject_def)
qed

lemma twice_activeEnrollments:
  "map en_studentId (activeEnrollments twiceEnrolledDb mathClass) = [''s1'', ''s2'', ''s1'']"
  by (simp add: activeEnrollments_def twiceEnrolledDb_def exampleDb_def mathClass_def)

lemma twice_gradebook:
  "getClassSubjectScores twiceEnrolledDb ''cs1'' = Inr (mathClass, [annGrade, bobGrade])"
proof -
  have c: "findClassSubject twiceEnrolledDb ''cs1'' = Some mathClass"
    by (simp add: findClassSubject_def twiceEnrolledDb_def exampleDb_def mathClass_def)
  have "withStudent twiceEnrolledDb = withStudent exampleDb"
    by (simp add: fun_eq_iff withStudent_def findStudent_def twiceEnrolledDb_def)
  moreover have "scores twiceEnrolledDb = scores exampleDb" by (simp add: twiceEnrolledDb_def)
  ultimately have s: "scoresOfClassSubject twiceEnrolledDb ''cs1'' = scoresOfClassSubject exampleDb ''cs1''"
    by (simp add: scoresOfClassSubject_def)
  show ?thesis
    by (simp add: getClassSubjectScores_eq [OF c] s twice_activeEnrollments annGrade_def
        bobGrade_def example_scoresOfClassSubject firstKeys_def studentGrade_def studentData_def
        pushClassScore_def quiz45_numbers homework10_numbers)
qed

section \<open>Banding and rounding\<close>

lemma letterGrade_banded: "x \<noteq> NaN \<Longrightarrow> banded x (letterGrade x)"
  by (cases x) (auto simp: banded_def letterGrade_def lt_def)

lemma floor_half_up:
  "\<lfloor>q + 1 / 2\<rfloor> = (if q - of_int \<lfloor>q\<rfloor> < 1 / 2 then \<lfloor>q\<rfloor> else \<lfloor>q\<rfloor> + 1)" for q :: rat
proof (cases "q - of_int \<lfloor>q\<rfloor> < 1 / 2")
  case True
  have "\<lfloor>q + 1 / 2\<rfloor> = \<lfloor>q\<rfloor>"
  proof (rule floor_unique)
    show "of_int \<lfloor>q\<rfloor> \<le> q + 1 / 2" using of_int_floor_le [of q] by linarith
    show "q + 1 / 2 < of_int \<lfloor>q\<rfloor> + 1" using True by linarith
  qed
  with True show ?thesis by simp
next
  case False
  have "\<lfloor>q + 1 / 2\<rfloor> = \<lfloor>q\<rfloor> + 1"
  proof (rule floor_unique)
    show "of_int (\<lfloor>q\<rfloor> + 1) \<le> q + 1 / 2" using False by simp
    show "q + 1 / 2 < of_int (\<lfloor>q\<rfloor> + 1) + 1" using floor_correct [of q] by simp
  qed
  with False show ?thesis by simp
qed

lemma percentage_finite:
  assumes "decimal 5 2 (s_score s)" and "0 \<le> s_score s"
    and "decimal 5 2 (s_maxScore s)" and "0 < s_maxScore s"
  shows "\<exists>p. percentage s = Fin p \<and> 0 \<le> p \<and> p \<le> 2 powi 24"
proof -
  have "validated (s\<lparr>s_weight := 0\<rparr>)"
    using assms by (simp add: validated_def decimal_def)
  from validated_percentage [OF this] show ?thesis by (simp add: percentage_def)
qed

lemma round2_half_up:
  assumes "0 \<le> p" and "p \<le> 2 powi 24"
  shows "\<exists>q. fmul (Fin p) (Fin 100) = Fin q \<and> 0 \<le> q \<and>
             round2 (Fin p) =
               fdiv (Fin (of_int (if q - of_int \<lfloor>q\<rfloor> < 1 / 2 then \<lfloor>q\<rfloor> else \<lfloor>q\<rfloor> + 1)))
                    (Fin 100)"
proof -
  have "p * 100 \<le> 2 powi 24 * 2 powi 7"
    using assms by (intro mult_mono) (simp_all add: pow2_numeral)
  also have "\<dots> = 2 powi 31" by (simp add: pow2_numeral)
  finally have "p * 100 \<le> 2 powi 31" .
  moreover have "0 \<le> p * 100" using assms(1) by simp
  ultimately obtain q where q: "rnd (p * 100) = Fin q" "0 \<le> q"
    using rnd_upper [of "p * 100" 31] by auto
  have "round2 (Fin p) = fdiv (Fin (of_int \<lfloor>q + 1 / 2\<rfloor>)) (Fin 100)"
    by (simp add: round2_def q)
  then show ?thesis using q by (simp only: floor_half_up fmul.simps) blast
qed

lemma single_reportCard: "getStudentGrades singleDb ''s1'' None = Inr [singleGrade]"
proof -
  have f: "findStudent singleDb ''s1'' =
        Some \<lparr>st_id = ''s1'', st_firstName = ''Ann'', st_lastName = ''Doe''\<rparr>"
    by (simp add: findStudent_def singleDb_def exampleDb_def)
  have s: "scoresOfStudent singleDb ''s1'' None = [(quiz45, mathClass)]"
    by (simp add: scoresOfStudent_def singleDb_def exampleDb_def List.map_filter_simps
          withClassSubject_def findClassSubject_def truthy_def quiz45_def mathClass_def)
  show ?thesis
    by (simp add: getStudentGrades_eq [OF f] s singleGrade_def firstKeys_def subjectGrade_def
          subjectData_def pushScore_def newSubjectData_def quiz45_numbers mathClass_def)
qed

lemma over100_numbers:
  "percentage over100 = Fin 150" "weightedScore over100 = Fin 150"
  "Number (s_weight over100) = Fin 1"
proof -
  show p: "percentage over100 = Fin 150"
    by (simp add: percentage_def over100_def rnd_3_2)
  show "weightedScore over100 = Fin 150" unfolding weightedScore_def p by (simp add: over100_def)
  show "Number (s_weight over100) = Fin 1" by (simp add: over100_def)
qed

lemma over100_reportCard: "getStudentGrades over100Db ''s1'' None = Inr [over100Grade]"
proof -
  have f: "findStudent over100Db ''s1'' =
        Some \<lparr>st_id = ''s1'', st_firstName = ''Ann'', st_lastName = ''Doe''\<rparr>"
    by (simp add: findStudent_def over100Db_def exampleDb_def)
  have s: "scoresOfStudent over100Db ''s1'' None = [(over100, mathClass)]"
    by (simp add: scoresOfStudent_def over100Db_def exampleDb_def List.map_filter_simps
          withClassSubject_def findClassSubject_def truthy_def over100_def mathClass_def)
  have g: "finalGrade (Fin 150) (Fin 1) = Fin 150"
    by (simp add: finalGrade_def round2_numeral)
  have l: "letterGrade (Fin 150) = ''A''" by (simp add: letterGrade_def)
  show ?thesis
    by (simp add: getStudentGrades_eq [OF f] s over100Grade_def firstKeys_def subjectGrade_def
          subjectData_def pushScore_def newSubjectData_def over100_numbers mathClass_def g l
          over100_def [THEN arg_cong, of s_subjectId])
qed

lemma rnd_8999: "rnd (8999 / 100) = Fin (6332483288547983 / 70368744177664)"
  by (subst rnd_eval [where e = 6]) (simp_all add: pow2_numeral rhe_def Let_def)

lemma rnd_5999: "rnd (5999 / 100) = Fin (8442841926436127 / 140737488355328)"
  by (subst rnd_eval [where e = 5]) (simp_all add: pow2_numeral rhe_def Let_def)

text \<open>
  The half goes up on the product as computed. For 0.29 out of 0.32 the quotient times
  100 is 90.625 exactly, but in binary64 it is computed as \<open>90.62499999999998579\<close>, so the
  percentage reported is 90.62.
\<close>

lemma tieScore_percentage:
  "validated tieScore"
  "percentage tieScore = Fin (6377167441100799 / 70368744177664)"
  "round2 (percentage tieScore) = Number (9062 / 100)"
proof -
  show "validated tieScore" by (simp add: validated_def decimal_def tieScore_def)
  have a: "rnd (29 / 100) = Fin (5224175567749775 / 18014398509481984)"
    by (subst rnd_eval [where e = "- 2"]) (simp_all add: pow2_numeral rhe_def Let_def)
  have b: "rnd (8 / 25) = Fin (5764607523034235 / 18014398509481984)"
    by (subst rnd_eval [where e = "- 2"]) (simp_all add: pow2_numeral rhe_def Let_def)
  have c: "rnd (1044835113549955 / 1152921504606847) = Fin (8162774324609023 / 9007199254740992)"
    by (subst rnd_eval [where e = "- 1"]) (simp_all add: pow2_numeral rhe_def Let_def)
  have p: "rnd (204069358115225575 / 2251799813685248) = Fin (6377167441100799 / 70368744177664)"
    by (subst rnd_eval [where e = 6]) (simp_all add: pow2_numeral rhe_def Let_def)
  have q: "rnd (159429186027519975 / 17592186044416) = Fin (4982162063359999 / 549755813888)"
    by (subst rnd_eval [where e = 13]) (simp_all add: pow2_numeral rhe_def Let_def)
  show pc: "percentage tieScore = Fin (6377167441100799 / 70368744177664)"
    by (simp add: percentage_def tieScore_def Number_def a b c p)
  show "round2 (percentage tieScore) = Number (9062 / 100)"
    by (simp add: pc round2_def q Number_def)
qed

section \<open>Records of weight zero\<close>

lemma totalWeightedScore_filter:
  assumes "\<forall>s \<in> set records. validated s"
    and "\<forall>s \<in> set records. \<not> keep s \<longrightarrow> s_weight s = 0"
  shows "totalWeightedScore (filter keep records) = totalWeightedScore records"
  using assms
proof (induction records rule: rev_induct)
  case Nil
  then show ?case by simp
next
  case (snoc s records)
  then have ih: "totalWeightedScore (filter keep records) = totalWeightedScore records"
    by simp
  show ?case
  proof (cases "keep s")
    case True
    then show ?thesis by (simp add: totalWeightedScore_snoc ih)
  next
    case False
    with snoc.prems have "validated s" and "s_weight s = 0" by simp_all
    then have "weightedScore s = Fin 0" by (rule zero_weight)
    then show ?thesis using False by (simp add: totalWeightedScore_snoc ih fadd_zero)
  qed
qed

lemma totalWeight_filter:
  assumes "\<forall>s \<in> set records. \<not> keep s \<longrightarrow> s_weight s = 0"
  shows "totalWeight (filter keep records) = totalWeight records"
  using assms
proof (induction records rule: rev_induct)
  case Nil
  then show ?case by simp
next
  case (snoc s records)
  then have ih: "totalWeight (filter keep records) = totalWeight records" by simp
  show ?case
  proof (cases "keep s")
    case True
    then show ?thesis by (simp add: totalWeight_snoc ih)
  next
    case False
    with snoc.prems have "s_weight s = 0" by simp
    then have "Number (s_weight s) = Fin 0" by simp
    then show ?thesis using False by (simp add: totalWeight_snoc ih fadd_zero)
  qed
qed

lemma filter_eq_distinct:
  "distinct xs \<Longrightarrow> filter (\<lambda>x. x = k) xs = (if k \<in> set xs then [k] else [])"
  by (induction xs) (auto simp: filter_empty_conv)

lemma aggregate_eq:
  "aggregate records =
     (finalGrade (totalWeightedScore records) (totalWeight records),
      letterGrade (finalGrade (totalWeightedScore records) (totalWeight records)))"
  by (simp add: aggregate_def finalGrade_def Let_def)

lemma map_filter_withClassSubject_filter:
  "List.map_filter (withClassSubject db) (filter P xs) =
     filter (\<lambda>row. P (fst row)) (List.map_filter (withClassSubject db) xs)"
  by (induction xs) (auto simp: List.map_filter_simps withClassSubject_def split: option.splits)

lemma scoresOfStudent_filter:
  assumes "classSubjects db' = classSubjects db" and "scores db' = filter P (scores db)"
  shows "scoresOfStudent db' studentId semesterId =
         filter (\<lambda>row. P (fst row)) (scoresOfStudent db studentId semesterId)"
proof -
  have w: "withClassSubject db' = withClassSubject db"
    by (simp add: fun_eq_iff withClassSubject_def findClassSubject_def assms(1))
  show ?thesis
    by (simp add: scoresOfStudent_def w assms(2) map_filter_withClassSubject_filter conj_commute)
qed

lemma report_lookup:
  fixes k :: string
  assumes "getStudentGrades db studentId semesterId = Inr results"
  defines "rows \<equiv> filter (\<lambda>row. s_subjectId (fst row) = k)
                     (scoresOfStudent db studentId semesterId)"
  shows "filter (\<lambda>g. g_subject g = k) results =
         (if rows = [] then [] else [subjectGrade (subjectData rows)])"
proof -
  let ?all = "scoresOfStudent db studentId semesterId"
  let ?key = "\<lambda>row. s_subjectId (fst row)"
  let ?F = "\<lambda>k. subjectGrade (subjectData (filter (\<lambda>row. ?key row = k) ?all))"
  let ?ks = "firstKeys (map ?key ?all)"
  have F: "g_subject (?F k') = k'" if "k' \<in> set ?ks" for k'
    using hd_filter_key(2) [of k' ?key ?all] that
    by (simp add: subjectGrade_fields subjectData_fields)
  have "filter (\<lambda>g. g_subject g = k) (map ?F ?ks) = map ?F (filter (\<lambda>k'. k' = k) ?ks)"
    unfolding filter_map comp_def using F by (intro arg_cong [where f = "map ?F"] filter_cong) auto
  also have "filter (\<lambda>k'. k' = k) ?ks = (if k \<in> set ?ks then [k] else [])"
    by (rule filter_eq_distinct) simp
  also have "k \<in> set ?ks \<longleftrightarrow> rows \<noteq> []"
    by (auto simp: rows_def filter_empty_conv)
  finally show ?thesis
    unfolding getStudentGrades_groups [OF assms(1)] by (simp add: rows_def)
qed

lemma report_member:
  assumes "getStudentGrades db studentId semesterId = Inr results"
  shows "g \<in> set results \<longleftrightarrow>
         filter (\<lambda>row. s_subjectId (fst row) = g_subject g)
           (scoresOfStudent db studentId semesterId) \<noteq> [] \<and>
         g = subjectGrade (subjectData (filter (\<lambda>row. s_subjectId (fst row) = g_subject g)
               (scoresOfStudent db studentId semesterId)))"
proof -
  have "g \<in> set results \<longleftrightarrow> g \<in> set (filter (\<lambda>g'. g_subject g' = g_subject g) results)"
    by simp
  also have "\<dots> \<longleftrightarrow> filter (\<lambda>row. s_subjectId (fst row) = g_subject g)
           (scoresOfStudent db studentId semesterId) \<noteq> [] \<and>
         g = subjectGrade (subjectData (filter (\<lambda>row. s_subjectId (fst row) = g_subject g)
               (scoresOfStudent db studentId semesterId)))"
    unfolding report_lookup [OF assms] by simp
  finally show ?thesis .
qed

lemma subjectGrade_subject:
  assumes "rows = filter (\<lambda>row. s_subjectId (fst row) = k) all" and "rows \<noteq> []"
  shows "g_subject (subjectGrade (subjectData rows)) = k"
proof -
  from assms have "hd rows \<in> set (filter (\<lambda>row. s_subjectId (fst row) = k) all)"
    using hd_in_set by blast
  then show ?thesis by (simp add: subjectGrade_fields subjectData_fields)
qed

lemma example_weights [simp]:
  "s_weight quiz45 = 1" "s_weight homework10 = 0" "s_weight quiz30 = 1"
  by (simp_all add: quiz45_def homework10_def quiz30_def)

lemma kept_reportCard:
  "getStudentGrades (exampleDb\<lparr>scores := [quiz45, quiz30]\<rparr>) ''s1'' None = Inr [singleGrade]"
proof -
  let ?db = "exampleDb\<lparr>scores := [quiz45, quiz30]\<rparr>"
  have f: "findStudent ?db ''s1'' =
        Some \<lparr>st_id = ''s1'', st_firstName = ''Ann'', st_lastName = ''Doe''\<rparr>"
    by (simp add: findStudent_def exampleDb_def)
  have s: "scoresOfStudent ?db ''s1'' None = [(quiz45, mathClass)]"
    by (simp add: scoresOfStudent_def exampleDb_def List.map_filter_simps
          withClassSubject_def findClassSubject_def truthy_def quiz45_def quiz30_def mathClass_def)
  show ?thesis
    by (simp add: getStudentGrades_eq [OF f] s singleGrade_def firstKeys_def subjectGrade_def
          subjectData_def pushScore_def newSubjectData_def quiz45_numbers mathClass_def)
qed

lemma later_scoresOfStudent:
  "scoresOfStudent laterDb ''s1'' None = [(quiz45, mathClass), (homework10, mathClass)]"
  by (simp add: scoresOfStudent_def laterDb_def exampleDb_def List.map_filter_simps
        withClassSubject_def findClassSubject_def truthy_def quiz45_def homework10_def
        quiz30_def over100_def mathClass_def)

section \<open>The validation boundary\<close>

lemma lt_not_ge: "lt n (Fin b) \<Longrightarrow> \<not> ge n (Fin b)"
  by (cases n) (simp_all add: lt_def)

lemma gt_not_ge: "gt n (Fin b) \<Longrightarrow> \<not> ge (Fin b) n"
  by (cases n) simp_all

lemma issue_None [simp]: "issue path None = [path]"
  by (simp add: issue_def)

lemma zOptional_JNum [simp]: "zOptional p (JNum n) = map_option Some (p (JNum n))"
  by (simp add: zOptional_def)

lemma invalid_number_issue:
  assumes "(\<exists>n. b_maxScore body = JNum n \<and> \<not> gt n (Fin 0)) \<or>
           (\<exists>n. b_score body = JNum n \<and> lt n (Fin 0)) \<or>
           (\<exists>n. b_weight body = JNum n \<and> (lt n (Fin 0) \<or> gt n (Fin 1)))"
  shows "\<exists>issues. createScoreSchema fm body = Inl issues"
    and "\<exists>issues. updateScoreSchema body = Inl issues"
proof -
  from assms have "zMaxScore (b_maxScore body) = None \<and> zOptional zMaxScore (b_maxScore body) = None
      \<or> zScore (b_score body) = None \<and> zOptional zScore (b_score body) = None
      \<or> zWeight (b_weight body) = None \<and> zOptional zWeight (b_weight body) = None"
    by (auto simp: zMaxScore_def zScore_def zWeight_def zNumber_def dest: lt_not_ge gt_not_ge)
  then show "\<exists>issues. createScoreSchema fm body = Inl issues"
    and "\<exists>issues. updateScoreSchema body = Inl issues"
    by (auto simp: createScoreSchema_def updateScoreSchema_def Let_def)
qed

lemma invalid_bulk_issue:
  assumes "(\<exists>n. bb_maxScore body = JNum n \<and> \<not> gt n (Fin 0)) \<or>
           (\<exists>n. bb_weight body = JNum n \<and> (lt n (Fin 0) \<or> gt n (Fin 1))) \<or>
           (\<exists>items item n. bb_scores body = Some items \<and> item \<in> set items \<and>
                          bi_score item = JNum n \<and> lt n (Fin 0))"
  shows "\<exists>issues. bulkCreateScoresSchema fm body = Inl issues"
proof -
  have item: "zItem fm item = None" if "bi_score item = JNum n" and "lt n (Fin 0)" for item n
    using that by (auto simp: zItem_def zScore_def zNumber_def dest: lt_not_ge split: option.splits)
  let ?D = "zMaxScore (bb_maxScore body) = None
      \<or> zWeight (bb_weight body) = None
      \<or> zArray (zItem fm) (bb_scores body) = None"
  have ?D
    using assms
  proof (elim disjE exE conjE)
    fix n assume "bb_maxScore body = JNum n" and "\<not> gt n (Fin 0)"
    then have "zMaxScore (bb_maxScore body) = None" by (simp add: zMaxScore_def zNumber_def)
    then show ?D by simp
  next
    fix n assume "bb_weight body = JNum n" and "lt n (Fin 0)"
    then have "zWeight (bb_weight body) = None"
      by (auto simp: zWeight_def zNumber_def dest: lt_not_ge)
    then show ?D by simp
  next
    fix n assume "bb_weight body = JNum n" and "gt n (Fin 1)"
    then have "zWeight (bb_weight body) = None"
      by (auto simp: zWeight_def zNumber_def dest: gt_not_ge)
    then show ?D by simp
  next
    fix items item n
    assume "bb_scores body = Some items" and "item \<in> set items"
      and "bi_score item = JNum n" and "lt n (Fin 0)"
    then have "bb_scores body = Some items" and "\<not> list_all (\<lambda>item. zItem fm item \<noteq> None) items"
      using item [of item n] unfolding list_all_iff by blast+
    then have "zArray (zItem fm) (bb_scores body) = None"
      by (simp add: zArray_def)
    then show ?D by simp
  qed
  then show ?thesis
    by (auto simp: bulkCreateScoresSchema_def Let_def)
qed

text \<open>The boundary lets a valid body through: the score is stored and logged.\<close>

lemma valid_request_creates:
  "GradingController_createScore anyFormat exampleStore exampleDb
     \<lparr>r_user = Some ''u1'', r_id = [], r_body = validBody\<rparr> =
   (Success (Some 201) ''Score created successfully'',
    exampleDb\<lparr>scores := scores exampleDb @ [quiz45\<lparr>s_id := ''sc9'', s_dateRecorded := ''d9''\<rparr>],
              auditLogs := [auditLog ''u1'' ''CREATE'' ''sc9'']\<rparr>)"
  by (simp add: GradingController_createScore_def createScoreSchema_def createScore_def
        validBody_def anyFormat_def exampleStore_def zString_def zScoreType_def zScore_def
        zMaxScore_def zWeight_def zNumber_def zOptional_def issue_def Let_def findStudent_def
        findClassSubject_def findSubject_def exampleDb_def mathClass_def quiz45_def)

section \<open>Every group has an entry\<close>

text \<open>
  Both views answer when the row they look up first exists, and the answer has an entry
  for every group: every subject among the fetched scores, every student with an ACTIVE
  enrollment.
\<close>

lemma report_total:
  assumes "findStudent db studentId = Some student"
  shows "\<exists>results. getStudentGrades db studentId semesterId = Inr results \<and>
           (\<forall>row \<in> set (scoresOfStudent db studentId semesterId).
              \<exists>g \<in> set results. g_subject g = s_subjectId (fst row))"
proof -
  let ?all = "scoresOfStudent db studentId semesterId"
  let ?key = "\<lambda>row. s_subjectId (fst row)"
  let ?F = "\<lambda>k. subjectGrade (subjectData (filter (\<lambda>row. ?key row = k) ?all))"
  let ?results = "map ?F (firstKeys (map ?key ?all))"
  have r: "getStudentGrades db studentId semesterId = Inr ?results"
    using assms by (rule getStudentGrades_eq)
  have "\<exists>g \<in> set ?results. g_subject g = ?key row" if "row \<in> set ?all" for row
  proof -
    from that have kin: "?key row \<in> set (map ?key ?all)" by simp
    then have "?F (?key row) \<in> set ?results" by simp
    moreover have "g_subject (?F (?key row)) = ?key row"
      using hd_filter_key(2) [OF kin] by (simp add: subjectGrade_fields subjectData_fields)
    ultimately show ?thesis by blast
  qed
  with r show ?thesis by blast
qed

lemma gradebook_total:
  assumes "findClassSubject db classSubjectId = Some classSubject"
  shows "\<exists>entries. getClassSubjectScores db classSubjectId = Inr (classSubject, entries) \<and>
           (\<forall>e \<in> set (activeEnrollments db classSubject).
              \<exists>g \<in> set entries. sg_student g = en_studentId e)"
proof -
  let ?all = "scoresOfClassSubject db classSubjectId"
  let ?F = "\<lambda>k. studentGrade (studentData k (filter (\<lambda>s. s_studentId s = k) ?all))"
  let ?entries = "map ?F (firstKeys (map en_studentId (activeEnrollments db classSubject)))"
  have r: "getClassSubjectScores db classSubjectId = Inr (classSubject, ?entries)"
    using assms by (rule getClassSubjectScores_eq)
  have "\<exists>g \<in> set ?entries. sg_student g = en_studentId e"
    if "e \<in> set (activeEnrollments db classSubject)" for e
  proof -
    from that have "?F (en_studentId e) \<in> set ?entries" by simp
    moreover have "sg_student (?F (en_studentId e)) = en_studentId e"
      by (simp add: studentGrade_fields studentData_fields)
    ultimately show ?thesis by blast
  qed
  with r show ?thesis by blast
qed

lemma report_subjects:
  assumes "getStudentGrades db studentId semesterId = Inr results"
  shows "g_subject ` set results =
         (\<lambda>row. s_subjectId (fst row)) ` set (scoresOfStudent db studentId semesterId)"
proof -
  let ?all = "scoresOfStudent db studentId semesterId"
  let ?key = "\<lambda>row. s_subjectId (fst row)"
  let ?F = "\<lambda>k. subjectGrade (subjectData (filter (\<lambda>row. ?key row = k) ?all))"
  have F: "g_subject (?F k) = k" if "k \<in> ?key ` set ?all" for k
    using hd_filter_key(2) [of k ?key ?all] that
    by (simp add: subjectGrade_fields subjectData_fields)
  have "g_subject ` set results = (\<lambda>k. g_subject (?F k)) ` (?key ` set ?all)"
    unfolding getStudentGrades_groups [OF assms] by (simp add: image_image)
  also have "\<dots> = (\<lambda>k. k) ` (?key ` set ?all)"
    using F by (intro image_cong) simp_all
  finally show ?thesis by simp
qed

section \<open>Further examples\<close>

lemma example_findStudent:
  "findStudent exampleDb ''s1'' =
     Some \<lparr>st_id = ''s1'', st_firstName = ''Ann'', st_lastName = ''Doe''\<rparr>"
  by (simp add: findStudent_def exampleDb_def)

lemma single_gradebook:
  "getClassSubjectScores singleDb ''cs1'' = Inr (mathClass, [singleAnn, bobGrade])"
proof -
  have c: "findClassSubject singleDb ''cs1'' = Some mathClass"
    by (simp add: findClassSubject_def singleDb_def exampleDb_def mathClass_def)
  have a: "map en_studentId (activeEnrollments singleDb mathClass) = [''s1'', ''s2'']"
    by (simp add: activeEnrollments_def singleDb_def exampleDb_def mathClass_def)
  have s: "scoresOfClassSubject singleDb ''cs1'' = [quiz45]"
    by (simp add: scoresOfClassSubject_def singleDb_def exampleDb_def List.map_filter_simps
          withStudent_def findStudent_def quiz45_def)
  show ?thesis
    by (simp add: getClassSubjectScores_eq [OF c] a s singleAnn_def bobGrade_def firstKeys_def
          studentGrade_def studentData_def pushClassScore_def quiz45_numbers)
qed

text \<open>
  The report cards of the single records with score 90, 89.99, 60 and 59.99 out of 100.
\<close>

lemma boundary_rnd_1: "rnd (6332483288547983 / 7036874417766400) = Fin (4052789304670709 / 4503599627370496)"
  by (subst rnd_eval [where e = "- 1"]) (simp_all add: pow2_numeral rhe_def Let_def)

lemma boundary_rnd_2: "rnd (101319732616767725 / 1125899906842624) = Fin (6332483288547983 / 70368744177664)"
  by (subst rnd_eval [where e = 6]) (simp_all add: pow2_numeral rhe_def Let_def)

lemma boundary_rnd_3: "rnd (6332483288547983 / 70368744177664) = Fin (6332483288547983 / 70368744177664)"
  by (subst rnd_eval [where e = 6]) (simp_all add: pow2_numeral rhe_def Let_def)

lemma boundary_rnd_4: "rnd (158312082213699575 / 17592186044416) = Fin 8999"
  by (subst rnd_eval [where e = 13]) (simp_all add: pow2_numeral rhe_def Let_def)

lemma boundary_rnd_5: "rnd (3 / 5) = Fin (5404319552844595 / 9007199254740992)"
  by (subst rnd_eval [where e = "- 1"]) (simp_all add: pow2_numeral rhe_def Let_def)

lemma boundary_rnd_6: "rnd (135107988821114875 / 2251799813685248) = Fin 60"
  by (subst rnd_eval [where e = 5]) (simp_all add: pow2_numeral rhe_def Let_def)

lemma boundary_rnd_7: "rnd (8442841926436127 / 14073748835532800) = Fin (5403418832919121 / 9007199254740992)"
  by (subst rnd_eval [where e = "- 1"]) (simp_all add: pow2_numeral rhe_def Let_def)

lemma boundary_rnd_8: "rnd (135085470822978025 / 2251799813685248) = Fin (8442841926436127 / 140737488355328)"
  by (subst rnd_eval [where e = 5]) (simp_all add: pow2_numeral rhe_def Let_def)

lemma boundary_rnd_9: "rnd (8442841926436127 / 140737488355328) = Fin (8442841926436127 / 140737488355328)"
  by (subst rnd_eval [where e = 5]) (simp_all add: pow2_numeral rhe_def Let_def)

lemma boundary_rnd_10: "rnd (211071048160903175 / 35184372088832) = Fin 5999"
  by (subst rnd_eval [where e = 12]) (simp_all add: pow2_numeral rhe_def Let_def)

lemmas boundary_rnd = boundary_rnd_1 boundary_rnd_2 boundary_rnd_3 boundary_rnd_4 boundary_rnd_5
  boundary_rnd_6 boundary_rnd_7 boundary_rnd_8 boundary_rnd_9 boundary_rnd_10
  rnd_9_10 rnd_90 rnd_8999 rnd_5999

lemma boundary_reportCard_eq:
  "getStudentGrades (boundaryDb x) ''s1'' None =
     Inr [boundaryGrade x
            (finalGrade (fadd (Fin 0) (weightedScore (boundaryScore x))) (Fin 1))
            (letterGrade (finalGrade (fadd (Fin 0) (weightedScore (boundaryScore x))) (Fin 1)))]"
proof -
  have f: "findStudent (boundaryDb x) ''s1'' =
        Some \<lparr>st_id = ''s1'', st_firstName = ''Ann'', st_lastName = ''Doe''\<rparr>"
    by (simp add: findStudent_def boundaryDb_def exampleDb_def)
  have s: "scoresOfStudent (boundaryDb x) ''s1'' None = [(boundaryScore x, mathClass)]"
    by (simp add: scoresOfStudent_def boundaryDb_def exampleDb_def List.map_filter_simps
          withClassSubject_def findClassSubject_def truthy_def boundaryScore_def quiz45_def
          mathClass_def)
  have i: "s_subjectId (boundaryScore x) = ''math''" "Number (s_weight (boundaryScore x)) = Fin 1"
    by (simp_all add: boundaryScore_def quiz45_def)
  show ?thesis
    by (simp add: getStudentGrades_eq [OF f] s boundaryGrade_def firstKeys_def subjectGrade_def
          subjectData_def pushScore_def newSubjectData_def mathClass_def i Let_def)
qed

lemma boundary_weightedScore:
  "weightedScore (boundaryScore 90) = Fin 90"
  "weightedScore (boundaryScore (8999 / 100)) = Number (8999 / 100)"
  "weightedScore (boundaryScore 60) = Fin 60"
  "weightedScore (boundaryScore (5999 / 100)) = Number (5999 / 100)"
  by (simp_all add: weightedScore_def percentage_def boundaryScore_def quiz45_def Number_def
        boundary_rnd)

lemma boundary_finalGrade:
  "finalGrade (Fin 90) (Fin 1) = Fin 90"
  "finalGrade (Number (8999 / 100)) (Fin 1) = fdiv (Fin 8999) (Fin 100)"
  "finalGrade (Fin 60) (Fin 1) = Fin 60"
  "finalGrade (Number (5999 / 100)) (Fin 1) = fdiv (Fin 5999) (Fin 100)"
  by (simp_all add: finalGrade_def round2_def Number_def boundary_rnd)

lemma boundary_reportCard:
  "getStudentGrades (boundaryDb 90) ''s1'' None = Inr [boundaryGrade 90 (Fin 90) ''A'']"
  "getStudentGrades (boundaryDb (8999 / 100)) ''s1'' None =
     Inr [boundaryGrade (8999 / 100) (fdiv (Fin 8999) (Fin 100)) ''B'']"
  "getStudentGrades (boundaryDb 60) ''s1'' None = Inr [boundaryGrade 60 (Fin 60) ''D'']"
  "getStudentGrades (boundaryDb (5999 / 100)) ''s1'' None =
     Inr [boundaryGrade (5999 / 100) (fdiv (Fin 5999) (Fin 100)) ''F'']"
proof -
  have z: "fadd (Fin 0) (Number q) = Number q" for q
    by (cases "Number q") (auto simp: Number_def dest: rnd_idem)
  show "getStudentGrades (boundaryDb 90) ''s1'' None = Inr [boundaryGrade 90 (Fin 90) ''A'']"
    by (simp add: boundary_reportCard_eq boundary_weightedScore boundary_finalGrade
          letterGrade_def)
  show "getStudentGrades (boundaryDb 60) ''s1'' None = Inr [boundaryGrade 60 (Fin 60) ''D'']"
    by (simp add: boundary_reportCard_eq boundary_weightedScore boundary_finalGrade
          letterGrade_def)
  show "getStudentGrades (boundaryDb (8999 / 100)) ''s1'' None =
     Inr [boundaryGrade (8999 / 100) (fdiv (Fin 8999) (Fin 100)) ''B'']"
    unfolding boundary_reportCard_eq boundary_weightedScore z boundary_finalGrade
    by (simp add: letterGrade_def rnd_8999)
  show "getStudentGrades (boundaryDb (5999 / 100)) ''s1'' None =
     Inr [boundaryGrade (5999 / 100) (fdiv (Fin 5999) (Fin 100)) ''F'']"
    unfolding boundary_reportCard_eq boundary_weightedScore z boundary_finalGrade
    by (simp add: letterGrade_def rnd_5999)
qed

lemma letterGrade_bandedOrNaN: "bandedOrNaN g (letterGrade g)"
proof (cases "g = NaN")
  case True
  then show ?thesis by (simp add: bandedOrNaN_def letterGrade_def lt_def)
next
  case False
  from letterGrade_banded [OF this] False show ?thesis
    by (simp add: bandedOrNaN_def banded_def)
qed

text \<open>
  With such a store a request that passes validation with maxScore \<open>2\<^sup>-\<^sup>1\<^sup>0\<close> is stored with
  maxScore 0, and the report card of the stored row has the final grade NaN.
\<close>

lemma zeroMax_created:
  "GradingController_createScore anyFormat roundingStore (exampleDb\<lparr>scores := []\<rparr>)
     \<lparr>r_user = Some ''u1'', r_id = [],
      r_body = validBody\<lparr>b_score := JNum (Fin 0), b_maxScore := JNum (Fin (1 / 1024))\<rparr>\<rparr> =
   (Success (Some 201) ''Score created successfully'', zeroMaxDb)"
  by (simp add: GradingController_createScore_def createScoreSchema_def createScore_def
        validBody_def anyFormat_def roundingStore_def exampleStore_def zString_def zScoreType_def
        zScore_def zMaxScore_def zWeight_def zNumber_def zOptional_def issue_def Let_def
        findStudent_def findClassSubject_def findSubject_def exampleDb_def mathClass_def
        zeroMax_def zeroMaxDb_def)

lemma zeroMax_numbers:
  "percentage zeroMax = NaN" "weightedScore zeroMax = NaN" "Number (s_weight zeroMax) = Fin 1"
  by (simp_all add: weightedScore_def percentage_def zeroMax_def)

lemma zeroMax_reportCard: "getStudentGrades zeroMaxDb ''s1'' None = Inr [zeroMaxGrade]"
proof -
  have f: "findStudent zeroMaxDb ''s1'' =
        Some \<lparr>st_id = ''s1'', st_firstName = ''Ann'', st_lastName = ''Doe''\<rparr>"
    by (simp add: findStudent_def zeroMaxDb_def exampleDb_def)
  have s: "scoresOfStudent zeroMaxDb ''s1'' None = [(zeroMax, mathClass)]"
    by (simp add: scoresOfStudent_def zeroMaxDb_def exampleDb_def List.map_filter_simps
          withClassSubject_def findClassSubject_def truthy_def zeroMax_def mathClass_def)
  have g: "finalGrade NaN (Fin 1) = NaN"
    by (simp add: finalGrade_def round2_def)
  have l: "letterGrade NaN = ''F''" by (simp add: letterGrade_def)
  show ?thesis
    by (simp add: getStudentGrades_eq [OF f] s zeroMaxGrade_def firstKeys_def subjectGrade_def
          subjectData_def pushScore_def newSubjectData_def zeroMax_numbers mathClass_def g l
          zeroMax_def [THEN arg_cong, of s_subjectId])
qed

text \<open>
  The two table orders of the three records: the running sums differ in the last
  place, the quotient times 100 is 8999.5 in one order and below it in the other.
\<close>

lemma order_rnd_1: "rnd (899 / 10) = Fin (3163075050785997 / 35184372088832)"
  by (subst rnd_eval [where e = 6]) (simp_all add: pow2_numeral rhe_def Let_def)

lemma order_rnd_2: "rnd (1 / 4) = Fin (1 / 4)"
  by (subst rnd_eval [where e = "- 2"]) (simp_all add: pow2_numeral rhe_def Let_def)

lemma order_rnd_3: "rnd (3163075050785997 / 3518437208883200) = Fin (1012184016251519 / 1125899906842624)"
  by (subst rnd_eval [where e = "- 1"]) (simp_all add: pow2_numeral rhe_def Let_def)

lemma order_rnd_4: "rnd (25304600406287975 / 281474976710656) = Fin (3163075050785997 / 35184372088832)"
  by (subst rnd_eval [where e = 6]) (simp_all add: pow2_numeral rhe_def Let_def)

lemma order_rnd_5: "rnd (3163075050785997 / 140737488355328) = Fin (3163075050785997 / 140737488355328)"
  by (subst rnd_eval [where e = 4]) (simp_all add: pow2_numeral rhe_def Let_def)

lemma order_rnd_6: "rnd (2252 / 25) = Fin (6338816475523973 / 70368744177664)"
  by (subst rnd_eval [where e = 6]) (simp_all add: pow2_numeral rhe_def Let_def)

lemma order_rnd_7: "rnd (6338816475523973 / 7036874417766400) = Fin (8113685088670685 / 9007199254740992)"
  by (subst rnd_eval [where e = "- 1"]) (simp_all add: pow2_numeral rhe_def Let_def)

lemma order_rnd_8: "rnd (202842127216767125 / 2251799813685248) = Fin (6338816475523973 / 70368744177664)"
  by (subst rnd_eval [where e = 6]) (simp_all add: pow2_numeral rhe_def Let_def)

lemma order_rnd_9: "rnd (6338816475523973 / 281474976710656) = Fin (6338816475523973 / 281474976710656)"
  by (subst rnd_eval [where e = 4]) (simp_all add: pow2_numeral rhe_def Let_def)

lemma order_rnd_10: "rnd (12664966577095967 / 281474976710656) = Fin (395780205534249 / 8796093022208)"
  by (subst rnd_eval [where e = 5]) (simp_all add: pow2_numeral rhe_def Let_def)

lemma order_rnd_11: "rnd (791604391533609 / 8796093022208) = Fin (791604391533609 / 8796093022208)"
  by (subst rnd_eval [where e = 6]) (simp_all add: pow2_numeral rhe_def Let_def)

lemma order_rnd_12: "rnd (19790109788340225 / 2199023255552) = Fin (17999 / 2)"
  by (subst rnd_eval [where e = 13]) (simp_all add: pow2_numeral rhe_def Let_def)

lemma order_rnd_13: "rnd (9496262026775757 / 140737488355328) = Fin (2374065506693939 / 35184372088832)"
  by (subst rnd_eval [where e = 6]) (simp_all add: pow2_numeral rhe_def Let_def)

lemma order_rnd_14: "rnd (25331340529075485 / 281474976710656) = Fin (6332835132268871 / 70368744177664)"
  by (subst rnd_eval [where e = 6]) (simp_all add: pow2_numeral rhe_def Let_def)

lemma order_rnd_15: "rnd (6332835132268871 / 70368744177664) = Fin (6332835132268871 / 70368744177664)"
  by (subst rnd_eval [where e = 6]) (simp_all add: pow2_numeral rhe_def Let_def)

lemma order_rnd_16: "rnd (158320878306721775 / 17592186044416) = Fin (4947527447085055 / 549755813888)"
  by (subst rnd_eval [where e = 13]) (simp_all add: pow2_numeral rhe_def Let_def)

lemmas order_rnd = order_rnd_1 order_rnd_2 order_rnd_3 order_rnd_4 order_rnd_5 order_rnd_6
  order_rnd_7 order_rnd_8 order_rnd_9 order_rnd_10 order_rnd_11 order_rnd_12 order_rnd_13
  order_rnd_14 order_rnd_15 order_rnd_16 rnd_half rnd_3_4 rnd_8999

lemma homework899_numbers:
  "percentage homework899 = Fin (3163075050785997 / 35184372088832)"
  "weightedScore homework899 = Fin (3163075050785997 / 140737488355328)"
  "Number (s_weight homework899) = Fin (1 / 4)"
proof -
  show p: "percentage homework899 = Fin (3163075050785997 / 35184372088832)"
    by (simp add: percentage_def homework899_def Number_def order_rnd_1 order_rnd_3 order_rnd_4)
  show "weightedScore homework899 = Fin (3163075050785997 / 140737488355328)"
    unfolding weightedScore_def p by (simp add: homework899_def Number_def order_rnd_2 order_rnd_5)
  show "Number (s_weight homework899) = Fin (1 / 4)"
    by (simp add: homework899_def Number_def order_rnd_2)
qed

lemma quiz9008_numbers:
  "percentage quiz9008 = Fin (6338816475523973 / 70368744177664)"
  "weightedScore quiz9008 = Fin (6338816475523973 / 281474976710656)"
  "Number (s_weight quiz9008) = Fin (1 / 4)"
proof -
  show p: "percentage quiz9008 = Fin (6338816475523973 / 70368744177664)"
    by (simp add: percentage_def quiz9008_def Number_def order_rnd_6 order_rnd_7 order_rnd_8)
  show "weightedScore quiz9008 = Fin (6338816475523973 / 281474976710656)"
    unfolding weightedScore_def p by (simp add: quiz9008_def Number_def order_rnd_2 order_rnd_9)
  show "Number (s_weight quiz9008) = Fin (1 / 4)"
    by (simp add: quiz9008_def Number_def order_rnd_2)
qed

lemma final90_numbers:
  "percentage final90 = Fin 90" "weightedScore final90 = Fin 45"
  "Number (s_weight final90) = Fin (1 / 2)"
proof -
  show p: "percentage final90 = Fin 90"
    by (simp add: percentage_def final90_def rnd_9_10 rnd_90)
  show "weightedScore final90 = Fin 45"
    unfolding weightedScore_def p by (simp add: final90_def Number_def rnd_half)
  show "Number (s_weight final90) = Fin (1 / 2)"
    by (simp add: final90_def Number_def rnd_half)
qed

lemma term_findStudent:
  "findStudent termDb ''s1'' = Some \<lparr>st_id = ''s1'', st_firstName = ''Ann'', st_lastName = ''Doe''\<rparr>"
  "findStudent reorderedDb ''s1'' = Some \<lparr>st_id = ''s1'', st_firstName = ''Ann'', st_lastName = ''Doe''\<rparr>"
  by (simp_all add: findStudent_def termDb_def reorderedDb_def exampleDb_def)

lemma term_scoresOfStudent:
  "scoresOfStudent termDb ''s1'' None =
     [(homework899, mathClass), (quiz9008, mathClass), (final90, mathClass)]"
  "scoresOfStudent reorderedDb ''s1'' None =
     [(homework899, mathClass), (final90, mathClass), (quiz9008, mathClass)]"
  by (simp_all add: scoresOfStudent_def termDb_def reorderedDb_def exampleDb_def
        List.map_filter_simps withClassSubject_def findClassSubject_def truthy_def
        homework899_def quiz9008_def final90_def mathClass_def)

lemma term_ids:
  "s_subjectId homework899 = ''math''" "s_subjectId quiz9008 = ''math''"
  "s_subjectId final90 = ''math''"
  by (simp_all add: homework899_def quiz9008_def final90_def)

lemma term_finalGrade:
  "finalGrade (Fin (791604391533609 / 8796093022208)) (Fin 1) = Fin 90"
  "finalGrade (Fin (6332835132268871 / 70368744177664)) (Fin 1) = Number (8999 / 100)"
  by (simp_all add: finalGrade_def round2_def Number_def order_rnd)

lemma term_letterGrade: "letterGrade (Number (8999 / 100)) = ''B''"
  by (simp add: letterGrade_def Number_def rnd_8999)

lemma term_reportCard: "getStudentGrades termDb ''s1'' None = Inr [termGrade]"
  by (simp add: getStudentGrades_eq [OF term_findStudent(1)] term_scoresOfStudent termGrade_def
        firstKeys_def subjectGrade_def subjectData_def pushScore_def newSubjectData_def
        homework899_numbers quiz9008_numbers final90_numbers mathClass_def term_ids
        order_rnd term_finalGrade)

lemma reordered_reportCard: "getStudentGrades reorderedDb ''s1'' None = Inr [reorderedGrade]"
  by (simp add: getStudentGrades_eq [OF term_findStudent(2)] term_scoresOfStudent
        reorderedGrade_def firstKeys_def subjectGrade_def subjectData_def pushScore_def
        newSubjectData_def homework899_numbers quiz9008_numbers final90_numbers mathClass_def
        term_ids order_rnd term_finalGrade term_letterGrade)

section \<open>The claims\<close>



text \<open>
  C2, as the code has it. Both views answer with an entry for every group, and in every
  entry the letter follows the fixed bands of the final grade: A from 90, B from 80 and
  below 90, C from 70 and below 80, D from 60 and below 70, and F below 60 or when the
  final grade is NaN. On the boundary values: 90 gives A, 89.99 gives B, 60 gives D, 59.99
  gives F (89.99 and 59.99 being the numbers \<open>8999 / 100\<close> and \<open>5999 / 100\<close> as the program
  computes them), and these are the final grades and letters on the report card of a
  single record of weight 1 with score 90, 89.99, 60 and 59.99 out of 100.
\<close>

theorem letterGrade_bands:
  "(findStudent db studentId = Some student \<longrightarrow>
      (\<exists>results. getStudentGrades db studentId semesterId = Inr results \<and>
         (\<forall>row \<in> set (scoresOfStudent db studentId semesterId).
            \<exists>g \<in> set results. g_subject g = s_subjectId (fst row)) \<and>
         (\<forall>g \<in> set results. bandedOrNaN (g_finalGrade g) (g_letterGrade g))))
   \<and> (findClassSubject db classSubjectId = Some classSubject \<longrightarrow>
      (\<exists>entries. getClassSubjectScores db classSubjectId = Inr (classSubject, entries) \<and>
         (\<forall>e \<in> set (activeEnrollments db classSubject).
            \<exists>g \<in> set entries. sg_student g = en_studentId e) \<and>
         (\<forall>g \<in> set entries. bandedOrNaN (sg_finalGrade g) (sg_letterGrade g))))
   \<and> letterGrade (Fin 90) = ''A''
   \<and> letterGrade (fdiv (Fin 8999) (Fin 100)) = ''B''
   \<and> letterGrade (Fin 60) = ''D''
   \<and> letterGrade (fdiv (Fin 5999) (Fin 100)) = ''F''
   \<and> getStudentGrades (boundaryDb 90) ''s1'' None = Inr [boundaryGrade 90 (Fin 90) ''A'']
   \<and> getStudentGrades (boundaryDb (8999 / 100)) ''s1'' None =
       Inr [boundaryGrade (8999 / 100) (fdiv (Fin 8999) (Fin 100)) ''B'']
   \<and> getStudentGrades (boundaryDb 60) ''s1'' None = Inr [boundaryGrade 60 (Fin 60) ''D'']
   \<and> getStudentGrades (boundaryDb (5999 / 100)) ''s1'' None =
       Inr [boundaryGrade (5999 / 100) (fdiv (Fin 5999) (Fin 100)) ''F'']"
proof (intro conjI impI)
  assume "findStudent db studentId = Some student"
  from report_total [OF this, of semesterId] obtain results
    where r: "getStudentGrades db studentId semesterId = Inr results"
      and c: "\<forall>row \<in> set (scoresOfStudent db studentId semesterId).
                \<exists>g \<in> set results. g_subject g = s_subjectId (fst row)"
    by blast
  have "bandedOrNaN (g_finalGrade g) (g_letterGrade g)" if "g \<in> set results" for g
    using report_entry(5) [OF r that] letterGrade_bandedOrNaN [of "g_finalGrade g"] by simp
  with r c
  show "\<exists>results. getStudentGrades db studentId semesterId = Inr results \<and>
         (\<forall>row \<in> set (scoresOfStudent db studentId semesterId).
            \<exists>g \<in> set results. g_subject g = s_subjectId (fst row)) \<and>
         (\<forall>g \<in> set results. bandedOrNaN (g_finalGrade g) (g_letterGrade g))"
    by blast
next
  assume "findClassSubject db classSubjectId = Some classSubject"
  from gradebook_total [OF this] obtain entries
    where r: "getClassSubjectScores db classSubjectId = Inr (classSubject, entries)"
      and c: "\<forall>e \<in> set (activeEnrollments db classSubject).
                \<exists>g \<in> set entries. sg_student g = en_studentId e"
    by blast
  have "bandedOrNaN (sg_finalGrade g) (sg_letterGrade g)" if "g \<in> set entries" for g
    using gradebook_entry(4) [OF r that] letterGrade_bandedOrNaN [of "sg_finalGrade g"] by simp
  with r c
  show "\<exists>entries. getClassSubjectScores db classSubjectId = Inr (classSubject, entries) \<and>
         (\<forall>e \<in> set (activeEnrollments db classSubject).
            \<exists>g \<in> set entries. sg_student g = en_studentId e) \<and>
         (\<forall>g \<in> set entries. bandedOrNaN (sg_finalGrade g) (sg_letterGrade g))"
    by blast
next
  show "letterGrade (Fin 90) = ''A''" and "letterGrade (Fin 60) = ''D''"
    by (simp_all add: letterGrade_def)
  show "letterGrade (fdiv (Fin 8999) (Fin 100)) = ''B''"
    by (simp add: letterGrade_def rnd_8999)
  show "letterGrade (fdiv (Fin 5999) (Fin 100)) = ''F''"
    by (simp add: letterGrade_def rnd_5999)
  show "getStudentGrades (boundaryDb 90) ''s1'' None = Inr [boundaryGrade 90 (Fin 90) ''A'']"
    by (rule boundary_reportCard)
  show "getStudentGrades (boundaryDb (8999 / 100)) ''s1'' None =
        Inr [boundaryGrade (8999 / 100) (fdiv (Fin 8999) (Fin 100)) ''B'']"
    by (rule boundary_reportCard)
  show "getStudentGrades (boundaryDb 60) ''s1'' None = Inr [boundaryGrade 60 (Fin 60) ''D'']"
    by (rule boundary_reportCard)
  show "getStudentGrades (boundaryDb (5999 / 100)) ''s1'' None =
        Inr [boundaryGrade (5999 / 100) (fdiv (Fin 5999) (Fin 100)) ''F'']"
    by (rule boundary_reportCard)
qed

text \<open>
  C2 as stated fails: the report card of a stored record with score 0 and maxScore 0 has
  the final grade NaN and the letter F, and NaN is not below 60. The record is what the
  rounding store keeps of a request that passes validation (\<open>zeroMax_created\<close>).
\<close>

theorem letterGrade_NaN_counterexample:
  "getStudentGrades zeroMaxDb ''s1'' None = Inr [zeroMaxGrade]
   \<and> g_finalGrade zeroMaxGrade = NaN
   \<and> g_letterGrade zeroMaxGrade = ''F''
   \<and> \<not> lt (g_finalGrade zeroMaxGrade) (Fin 60)
   \<and> \<not> banded (g_finalGrade zeroMaxGrade) (g_letterGrade zeroMaxGrade)"
  by (simp add: zeroMax_reportCard zeroMaxGrade_def banded_def lt_def)

theorem letterGrade_bands_witness:
  "getStudentGrades exampleDb ''s1'' None = Inr [mathGrade]
   \<and> bandedOrNaN (g_finalGrade mathGrade) (g_letterGrade mathGrade)
   \<and> g_finalGrade mathGrade = Fin 90 \<and> g_letterGrade mathGrade = ''A''
   \<and> getClassSubjectScores exampleDb ''cs1'' = Inr (mathClass, [annGrade, bobGrade])
   \<and> bandedOrNaN (sg_finalGrade annGrade) (sg_letterGrade annGrade)
   \<and> bandedOrNaN (sg_finalGrade bobGrade) (sg_letterGrade bobGrade)
   \<and> sg_finalGrade bobGrade = Fin 0 \<and> sg_letterGrade bobGrade = ''F''"
proof -
  note t = letterGrade_bands [of exampleDb "''s1''" _ None "''cs1''" mathClass]
  from t example_findStudent obtain results
    where "getStudentGrades exampleDb ''s1'' None = Inr results"
      and "\<forall>g \<in> set results. bandedOrNaN (g_finalGrade g) (g_letterGrade g)"
    by blast
  then have m: "bandedOrNaN (g_finalGrade mathGrade) (g_letterGrade mathGrade)"
    by (auto simp: example_reportCard)
  from t example_findClassSubject obtain entries
    where "getClassSubjectScores exampleDb ''cs1'' = Inr (mathClass, entries)"
      and "\<forall>g \<in> set entries. bandedOrNaN (sg_finalGrade g) (sg_letterGrade g)"
    by blast
  then have "bandedOrNaN (sg_finalGrade annGrade) (sg_letterGrade annGrade)"
    and "bandedOrNaN (sg_finalGrade bobGrade) (sg_letterGrade bobGrade)"
    by (auto simp: example_gradebook)
  with m example_reportCard example_gradebook show ?thesis
    by (simp add: mathGrade_def bobGrade_def)
qed

text \<open>
  C3. Both views answer with an entry for every group, and the percentages listed in an
  entry are, record by record, \<open>Math.round(x * 100) / 100\<close> for
  \<open>x = (score / maxScore) * 100\<close>. For a stored row with \<open>score \<ge> 0\<close> and \<open>maxScore > 0\<close> both
  \<open>x\<close> and \<open>x * 100\<close> are finite and not negative, and \<open>Math.round\<close> takes \<open>x * 100\<close> to the
  nearest integer with a half going up. The single record 45 out of 50 with weight 1 is
  reported, in the report card and in the grade book, with percentage 90, final grade 90
  and letter A.
\<close>

theorem percentage_rounded_to_two_decimals:
  "(findStudent db studentId = Some student \<longrightarrow>
      (\<exists>results. getStudentGrades db studentId semesterId = Inr results \<and>
         (\<forall>row \<in> set (scoresOfStudent db studentId semesterId).
            \<exists>g \<in> set results. g_subject g = s_subjectId (fst row)) \<and>
         (\<forall>g \<in> set results.
            map e_percentage (g_scores g) =
            map (\<lambda>row. round2 (fmul (fdiv (Number (s_score (fst row))) (Number (s_maxScore (fst row))))
                                   (Fin 100)))
              (filter (\<lambda>row. s_subjectId (fst row) = g_subject g)
                 (scoresOfStudent db studentId semesterId)))))
   \<and> (findClassSubject db classSubjectId = Some classSubject \<longrightarrow>
      (\<exists>entries. getClassSubjectScores db classSubjectId = Inr (classSubject, entries) \<and>
         (\<forall>e \<in> set (activeEnrollments db classSubject).
            \<exists>g \<in> set entries. sg_student g = en_studentId e) \<and>
         (\<forall>g \<in> set entries.
            map ce_percentage (sg_scores g) =
            map (\<lambda>s. round2 (fmul (fdiv (Number (s_score s)) (Number (s_maxScore s))) (Fin 100)))
              (filter (\<lambda>s. s_studentId s = sg_student g) (scoresOfClassSubject db classSubjectId)))))
   \<and> (decimal 5 2 (s_score (s :: Score)) \<and> 0 \<le> s_score s \<and> decimal 5 2 (s_maxScore s) \<and> 0 < s_maxScore s \<longrightarrow>
      (\<exists>p q. fmul (fdiv (Number (s_score s)) (Number (s_maxScore s))) (Fin 100) = Fin p \<and> 0 \<le> p \<and>
             fmul (Fin p) (Fin 100) = Fin q \<and> 0 \<le> q \<and>
             round2 (Fin p) =
               fdiv (Fin (of_int (if q - of_int \<lfloor>q\<rfloor> < 1 / 2 then \<lfloor>q\<rfloor> else \<lfloor>q\<rfloor> + 1)))
                    (Fin 100)))
   \<and> getStudentGrades singleDb ''s1'' None = Inr [singleGrade]
   \<and> map e_percentage (g_scores singleGrade) = [Fin 90]
   \<and> g_finalGrade singleGrade = Fin 90
   \<and> g_letterGrade singleGrade = ''A''
   \<and> getClassSubjectScores singleDb ''cs1'' = Inr (mathClass, [singleAnn, bobGrade])
   \<and> map ce_percentage (sg_scores singleAnn) = [Fin 90]
   \<and> sg_finalGrade singleAnn = Fin 90
   \<and> sg_letterGrade singleAnn = ''A''"
proof (intro conjI impI)
  assume "findStudent db studentId = Some student"
  from report_total [OF this, of semesterId] obtain results
    where r: "getStudentGrades db studentId semesterId = Inr results"
      and c: "\<forall>row \<in> set (scoresOfStudent db studentId semesterId).
                \<exists>g \<in> set results. g_subject g = s_subjectId (fst row)"
    by blast
  have "map e_percentage (g_scores g) =
        map (\<lambda>row. round2 (fmul (fdiv (Number (s_score (fst row))) (Number (s_maxScore (fst row))))
                               (Fin 100)))
          (filter (\<lambda>row. s_subjectId (fst row) = g_subject g)
             (scoresOfStudent db studentId semesterId))" if "g \<in> set results" for g
    using report_entry(2) [OF r that] by (simp add: scoreEntry_def percentage_def comp_def)
  with r c
  show "\<exists>results. getStudentGrades db studentId semesterId = Inr results \<and>
         (\<forall>row \<in> set (scoresOfStudent db studentId semesterId).
            \<exists>g \<in> set results. g_subject g = s_subjectId (fst row)) \<and>
         (\<forall>g \<in> set results.
            map e_percentage (g_scores g) =
            map (\<lambda>row. round2 (fmul (fdiv (Number (s_score (fst row))) (Number (s_maxScore (fst row))))
                                   (Fin 100)))
              (filter (\<lambda>row. s_subjectId (fst row) = g_subject g)
                 (scoresOfStudent db studentId semesterId)))"
    by (intro exI [of _ results] conjI ballI) simp_all
next
  assume "findClassSubject db classSubjectId = Some classSubject"
  from gradebook_total [OF this] obtain entries
    where r: "getClassSubjectScores db classSubjectId = Inr (classSubject, entries)"
      and c: "\<forall>e \<in> set (activeEnrollments db classSubject).
                \<exists>g \<in> set entries. sg_student g = en_studentId e"
    by blast
  have "map ce_percentage (sg_scores g) =
        map (\<lambda>s. round2 (fmul (fdiv (Number (s_score s)) (Number (s_maxScore s))) (Fin 100)))
          (filter (\<lambda>s. s_studentId s = sg_student g) (scoresOfClassSubject db classSubjectId))"
    if "g \<in> set entries" for g
    using gradebook_entry(2) [OF r that] by (simp add: classScoreEntry_def percentage_def comp_def)
  with r c
  show "\<exists>entries. getClassSubjectScores db classSubjectId = Inr (classSubject, entries) \<and>
         (\<forall>e \<in> set (activeEnrollments db classSubject).
            \<exists>g \<in> set entries. sg_student g = en_studentId e) \<and>
         (\<forall>g \<in> set entries.
            map ce_percentage (sg_scores g) =
            map (\<lambda>s. round2 (fmul (fdiv (Number (s_score s)) (Number (s_maxScore s))) (Fin 100)))
              (filter (\<lambda>s. s_studentId s = sg_student g) (scoresOfClassSubject db classSubjectId)))"
    by (intro exI [of _ entries] conjI ballI) simp_all
next
  assume a: "decimal 5 2 (s_score s) \<and> 0 \<le> s_score s \<and> decimal 5 2 (s_maxScore s) \<and>
             0 < s_maxScore s"
  then obtain p where p: "percentage s = Fin p" "0 \<le> p" "p \<le> 2 powi 24"
    using percentage_finite [of s] by blast
  from round2_half_up [OF p(2,3)] p(1,2)
  show "\<exists>p q. fmul (fdiv (Number (s_score s)) (Number (s_maxScore s))) (Fin 100) = Fin p \<and> 0 \<le> p \<and>
             fmul (Fin p) (Fin 100) = Fin q \<and> 0 \<le> q \<and>
             round2 (Fin p) =
               fdiv (Fin (of_int (if q - of_int \<lfloor>q\<rfloor> < 1 / 2 then \<lfloor>q\<rfloor> else \<lfloor>q\<rfloor> + 1)))
                    (Fin 100)"
    unfolding percentage_def by blast
next
  show "getStudentGrades singleDb ''s1'' None = Inr [singleGrade]" by (rule single_reportCard)
  show "map e_percentage (g_scores singleGrade) = [Fin 90]"
    by (simp add: singleGrade_def scoreEntry_def quiz45_numbers round2_numeral)
  show "g_finalGrade singleGrade = Fin 90" and "g_letterGrade singleGrade = ''A''"
    by (simp_all add: singleGrade_def)
  show "getClassSubjectScores singleDb ''cs1'' = Inr (mathClass, [singleAnn, bobGrade])"
    by (rule single_gradebook)
  show "map ce_percentage (sg_scores singleAnn) = [Fin 90]"
    by (simp add: singleAnn_def classScoreEntry_def quiz45_numbers round2_numeral)
  show "sg_finalGrade singleAnn = Fin 90" and "sg_letterGrade singleAnn = ''A''"
    by (simp_all add: singleAnn_def)
qed

theorem percentage_rounded_to_two_decimals_witness:
  "getStudentGrades exampleDb ''s1'' None = Inr [mathGrade]
   \<and> map e_percentage (g_scores mathGrade) =
     [round2 (fmul (fdiv (Number 45) (Number 50)) (Fin 100)),
      round2 (fmul (fdiv (Number 10) (Number 20)) (Fin 100))]
   \<and> map e_percentage (g_scores mathGrade) = [Fin 90, Fin 50]
   \<and> getClassSubjectScores exampleDb ''cs1'' = Inr (mathClass, [annGrade, bobGrade])
   \<and> map ce_percentage (sg_scores annGrade) =
     [round2 (fmul (fdiv (Number 10) (Number 20)) (Fin 100)),
      round2 (fmul (fdiv (Number 45) (Number 50)) (Fin 100))]
   \<and> map ce_percentage (sg_scores annGrade) = [Fin 50, Fin 90]
   \<and> fmul (fdiv (Number (s_score quiz45)) (Number (s_maxScore quiz45))) (Fin 100) = Fin 90
   \<and> fmul (Fin 90) (Fin 100) = Fin 9000
   \<and> round2 (Fin 90) = fdiv (Fin 9000) (Fin 100)"
proof -
  note t = percentage_rounded_to_two_decimals [of exampleDb "''s1''" _ None "''cs1''" mathClass
      quiz45]
  have m: "g_subject mathGrade = ''math''" by (simp add: mathGrade_def)
  have a: "sg_student annGrade = ''s1''" "sg_student bobGrade = ''s2''"
    by (simp_all add: annGrade_def bobGrade_def)
  have v: "s_score quiz45 = 45" "s_maxScore quiz45 = 50"
    "s_score homework10 = 10" "s_maxScore homework10 = 20"
    by (simp_all add: quiz45_def homework10_def)
  have p: "fmul (fdiv (Number (s_score quiz45)) (Number (s_maxScore quiz45))) (Fin 100) = Fin 90"
    using quiz45_numbers(1) by (simp only: percentage_def)
  from t [THEN conjunct1, THEN mp, OF example_findStudent] obtain results
    where rr: "getStudentGrades exampleDb ''s1'' None = Inr results"
      and rp: "\<forall>g \<in> set results.
            map e_percentage (g_scores g) =
            map (\<lambda>row. round2 (fmul (fdiv (Number (s_score (fst row))) (Number (s_maxScore (fst row))))
                                   (Fin 100)))
              (filter (\<lambda>row. s_subjectId (fst row) = g_subject g)
                 (scoresOfStudent exampleDb ''s1'' None))"
    by (elim exE conjE)
  from rr have re: "results = [mathGrade]" by (auto simp: example_reportCard)
  from rp [unfolded re]
  have "map e_percentage (g_scores mathGrade) =
        map (\<lambda>row. round2 (fmul (fdiv (Number (s_score (fst row))) (Number (s_maxScore (fst row))))
                               (Fin 100)))
          (filter (\<lambda>row. s_subjectId (fst row) = g_subject mathGrade)
             (scoresOfStudent exampleDb ''s1'' None))"
    by (rule bspec) simp
  then have r: "map e_percentage (g_scores mathGrade) =
     [round2 (fmul (fdiv (Number 45) (Number 50)) (Fin 100)),
      round2 (fmul (fdiv (Number 10) (Number 20)) (Fin 100))]"
    by (simp add: m v example_scoresOfStudent del: Number_simps)
  from t [THEN conjunct2, THEN conjunct1, THEN mp, OF example_findClassSubject] obtain entries
    where gr: "getClassSubjectScores exampleDb ''cs1'' = Inr (mathClass, entries)"
      and gp: "\<forall>g \<in> set entries.
            map ce_percentage (sg_scores g) =
            map (\<lambda>s. round2 (fmul (fdiv (Number (s_score s)) (Number (s_maxScore s))) (Fin 100)))
              (filter (\<lambda>s. s_studentId s = sg_student g) (scoresOfClassSubject exampleDb ''cs1''))"
    by (elim exE conjE)
  from gr have ge: "entries = [annGrade, bobGrade]" by (auto simp: example_gradebook)
  from gp [unfolded ge]
  have "map ce_percentage (sg_scores annGrade) =
        map (\<lambda>s. round2 (fmul (fdiv (Number (s_score s)) (Number (s_maxScore s))) (Fin 100)))
          (filter (\<lambda>s. s_studentId s = sg_student annGrade) (scoresOfClassSubject exampleDb ''cs1''))"
    by (rule bspec) simp
  then have g: "map ce_percentage (sg_scores annGrade) =
     [round2 (fmul (fdiv (Number 10) (Number 20)) (Fin 100)),
      round2 (fmul (fdiv (Number 45) (Number 50)) (Fin 100))]"
    by (simp add: a v example_scoresOfClassSubject del: Number_simps)
  have e: "map e_percentage (g_scores mathGrade) = [Fin 90, Fin 50]"
    "map ce_percentage (sg_scores annGrade) = [Fin 50, Fin 90]"
    by (simp_all add: mathGrade_def annGrade_def scoreEntry_def classScoreEntry_def
          quiz45_numbers homework10_numbers round2_numeral)
  have "fmul (Fin 90) (Fin 100) = Fin 9000" by simp
  moreover have "round2 (Fin 90) = fdiv (Fin 9000) (Fin 100)" by (simp add: round2_def)
  ultimately show ?thesis
    using p r g e example_reportCard example_gradebook by (simp only: simp_thms)
qed

text \<open>
  C4. The aggregate of an empty group is final grade 0 and letter F. The grade book never
  fails once its class subject is found, and every student with an ACTIVE enrollment and
  no score recorded for the class subject gets the entry with no scores, final grade 0
  and letter F.
\<close>

theorem empty_group_default:
  "aggregate [] = (Fin 0, ''F'')
   \<and> (findClassSubject db classSubjectId = Some classSubject \<longrightarrow>
        (\<exists>entries. getClassSubjectScores db classSubjectId = Inr (classSubject, entries)))
   \<and> (getClassSubjectScores db classSubjectId = Inr (classSubject, entries) \<longrightarrow>
        (\<forall>e \<in> set (activeEnrollments db classSubject).
           (\<forall>s \<in> set (scores db).
              s_classSubjectId s = classSubjectId \<longrightarrow> s_studentId s \<noteq> en_studentId e) \<longrightarrow>
           \<lparr>sg_student = en_studentId e, sg_scores = [], sg_finalGrade = Fin 0,
            sg_letterGrade = ''F''\<rparr> \<in> set entries))"
proof (intro conjI impI ballI)
  show "aggregate [] = (Fin 0, ''F'')"
    by (simp add: aggregate_def totalWeight_def)
next
  assume "findClassSubject db classSubjectId = Some classSubject"
  then show "\<exists>entries. getClassSubjectScores db classSubjectId = Inr (classSubject, entries)"
    by (simp add: getClassSubjectScores_eq)
next
  fix e
  assume r: "getClassSubjectScores db classSubjectId = Inr (classSubject, entries)"
    and e: "e \<in> set (activeEnrollments db classSubject)"
    and none: "\<forall>s \<in> set (scores db).
                 s_classSubjectId s = classSubjectId \<longrightarrow> s_studentId s \<noteq> en_studentId e"
  let ?k = "en_studentId e"
  have "filter (\<lambda>s. s_studentId s = ?k) (scoresOfClassSubject db classSubjectId) = []"
    unfolding filter_empty_conv using none scoresOfClassSubject_set by blast
  moreover have "?k \<in> set (firstKeys (map en_studentId (activeEnrollments db classSubject)))"
    using e by simp
  ultimately have "studentGrade (studentData ?k []) \<in> set entries"
    unfolding getClassSubjectScores_groups(2) [OF r] by force
  then show "\<lparr>sg_student = ?k, sg_scores = [], sg_finalGrade = Fin 0, sg_letterGrade = ''F''\<rparr>
             \<in> set entries"
    by (simp only: studentGrade_empty)
qed

theorem empty_group_default_witness:
  "getClassSubjectScores exampleDb ''cs1'' = Inr (mathClass, [annGrade, bobGrade])
   \<and> \<lparr>sg_student = ''s2'', sg_scores = [], sg_finalGrade = Fin 0, sg_letterGrade = ''F''\<rparr>
       \<in> set [annGrade, bobGrade]"
proof -
  let ?e = "\<lparr>en_studentId = ''s2'', en_classId = ''c1'', en_academicYearId = ''y1'',
             en_status = ''ACTIVE''\<rparr>"
  have e: "?e \<in> set (activeEnrollments exampleDb mathClass)"
    by (simp add: activeEnrollments_def exampleDb_def mathClass_def)
  have none: "\<forall>s \<in> set (scores exampleDb).
                s_classSubjectId s = ''cs1'' \<longrightarrow> s_studentId s \<noteq> en_studentId ?e"
    by (simp add: exampleDb_def)
  from empty_group_default [of exampleDb "''cs1''" mathClass "[annGrade, bobGrade]"]
    example_gradebook e none
  have "\<lparr>sg_student = en_studentId ?e, sg_scores = [], sg_finalGrade = Fin 0,
         sg_letterGrade = ''F''\<rparr> \<in> set [annGrade, bobGrade]"
    by blast
  with example_gradebook show ?thesis by simp
qed

text \<open>
  C5. A request to create or to update a score whose body has a \<open>maxScore\<close> that is not
  positive, a negative \<open>score\<close>, or a \<open>weight\<close> below 0 or above 1 leaves the store as it
  is, whatever the other fields hold; so does a request to create scores in bulk whose
  \<open>maxScore\<close> or \<open>weight\<close> is such, or one of whose scores is negative. When the request
  carries a user (every grading
  route runs \<open>authenticate\<close> first, which sets it or answers 401 itself) the answer is
  \<open>VALIDATION_ERROR\<close> with status 422; the service, and with it the store, is not reached.
\<close>

theorem invalid_numbers_rejected:
  "((\<exists>n. b_maxScore (r_body req) = JNum n \<and> \<not> gt n (Fin 0)) \<or>
    (\<exists>n. b_score (r_body req) = JNum n \<and> lt n (Fin 0)) \<or>
    (\<exists>n. b_weight (r_body req) = JNum n \<and> (lt n (Fin 0) \<or> gt n (Fin 1))) \<longrightarrow>
      snd (GradingController_createScore fm st db req) = db
      \<and> snd (GradingController_updateScore st db req) = db
      \<and> (r_user req \<noteq> None \<longrightarrow>
           GradingController_createScore fm st db req =
             (Failure ''VALIDATION_ERROR'' ''Invalid input'' 422, db)
           \<and> GradingController_updateScore st db req =
             (Failure ''VALIDATION_ERROR'' ''Invalid input'' 422, db)))
   \<and> ((\<exists>n. bb_maxScore (br_body bulk) = JNum n \<and> \<not> gt n (Fin 0)) \<or>
       (\<exists>n. bb_weight (br_body bulk) = JNum n \<and> (lt n (Fin 0) \<or> gt n (Fin 1))) \<or>
       (\<exists>items item n. bb_scores (br_body bulk) = Some items \<and> item \<in> set items \<and>
                      bi_score item = JNum n \<and> lt n (Fin 0)) \<longrightarrow>
      snd (GradingController_bulkCreateScores fm st db bulk) = db
      \<and> (br_user bulk \<noteq> None \<longrightarrow>
           GradingController_bulkCreateScores fm st db bulk =
             (Failure ''VALIDATION_ERROR'' ''Invalid input'' 422, db)))"
proof (intro conjI impI)
  assume a: "(\<exists>n. b_maxScore (r_body req) = JNum n \<and> \<not> gt n (Fin 0)) \<or>
   (\<exists>n. b_score (r_body req) = JNum n \<and> lt n (Fin 0)) \<or>
   (\<exists>n. b_weight (r_body req) = JNum n \<and> (lt n (Fin 0) \<or> gt n (Fin 1)))"
  from invalid_number_issue [OF a] obtain i1 i2
    where c: "createScoreSchema fm (r_body req) = Inl i1"
      and u: "updateScoreSchema (r_body req) = Inl i2" by blast
  show "snd (GradingController_createScore fm st db req) = db"
    and "snd (GradingController_updateScore st db req) = db"
    by (cases "r_user req";
        simp add: GradingController_createScore_def GradingController_updateScore_def c u)+
  assume "r_user req \<noteq> None"
  then show "GradingController_createScore fm st db req =
             (Failure ''VALIDATION_ERROR'' ''Invalid input'' 422, db)"
    and "GradingController_updateScore st db req =
             (Failure ''VALIDATION_ERROR'' ''Invalid input'' 422, db)"
    by (auto simp: GradingController_createScore_def GradingController_updateScore_def c u)
next
  assume b: "(\<exists>n. bb_maxScore (br_body bulk) = JNum n \<and> \<not> gt n (Fin 0)) \<or>
       (\<exists>n. bb_weight (br_body bulk) = JNum n \<and> (lt n (Fin 0) \<or> gt n (Fin 1))) \<or>
       (\<exists>items item n. bb_scores (br_body bulk) = Some items \<and> item \<in> set items \<and>
                      bi_score item = JNum n \<and> lt n (Fin 0))"
  from invalid_bulk_issue [OF b] obtain i
    where c: "bulkCreateScoresSchema fm (br_body bulk) = Inl i" by blast
  show "snd (GradingController_bulkCreateScores fm st db bulk) = db"
    by (cases "br_user bulk") (simp_all add: GradingController_bulkCreateScores_def c)
  assume "br_user bulk \<noteq> None"
  then show "GradingController_bulkCreateScores fm st db bulk =
             (Failure ''VALIDATION_ERROR'' ''Invalid input'' 422, db)"
    by (auto simp: GradingController_bulkCreateScores_def c)
qed

theorem invalid_numbers_rejected_witness:
  "b_maxScore (r_body zeroMaxRequest) = JNum (Fin 0)
   \<and> GradingController_createScore anyFormat exampleStore exampleDb zeroMaxRequest =
       (Failure ''VALIDATION_ERROR'' ''Invalid input'' 422, exampleDb)
   \<and> GradingController_updateScore exampleStore exampleDb zeroMaxRequest =
       (Failure ''VALIDATION_ERROR'' ''Invalid input'' 422, exampleDb)
   \<and> GradingController_bulkCreateScores anyFormat exampleStore exampleDb negativeBulkRequest =
       (Failure ''VALIDATION_ERROR'' ''Invalid input'' 422, exampleDb)"
proof -
  have m: "b_maxScore (r_body zeroMaxRequest) = JNum (Fin 0)"
    and u: "r_user zeroMaxRequest \<noteq> None"
    by (simp_all add: zeroMaxRequest_def)
  have "\<not> gt (Fin 0) (Fin 0)" by simp
  with m have h1: "(\<exists>n. b_maxScore (r_body zeroMaxRequest) = JNum n \<and> \<not> gt n (Fin 0)) \<or>
   (\<exists>n. b_score (r_body zeroMaxRequest) = JNum n \<and> lt n (Fin 0)) \<or>
   (\<exists>n. b_weight (r_body zeroMaxRequest) = JNum n \<and> (lt n (Fin 0) \<or> gt n (Fin 1)))"
    by blast
  let ?item = "\<lparr>bi_studentId = JStr ''s1'', bi_score = JNum (Fin (- 1)), bi_notes = JUndefined\<rparr>"
  have "bb_scores (br_body negativeBulkRequest) = Some [?item]" and "?item \<in> set [?item]"
    and "bi_score ?item = JNum (Fin (- 1))" and "lt (Fin (- 1)) (Fin 0)"
    and bu: "br_user negativeBulkRequest \<noteq> None"
    by (simp_all add: negativeBulkRequest_def lt_def)
  then have h2: "(\<exists>n. bb_maxScore (br_body negativeBulkRequest) = JNum n \<and> \<not> gt n (Fin 0)) \<or>
       (\<exists>n. bb_weight (br_body negativeBulkRequest) = JNum n \<and> (lt n (Fin 0) \<or> gt n (Fin 1))) \<or>
       (\<exists>items item n. bb_scores (br_body negativeBulkRequest) = Some items \<and> item \<in> set items \<and>
                      bi_score item = JNum n \<and> lt n (Fin 0))"
    by blast
  from invalid_numbers_rejected [of zeroMaxRequest anyFormat exampleStore exampleDb
      negativeBulkRequest] h1 h2 u bu m
  show ?thesis by blast
qed

text \<open>
  C6. For validated records, removing (or, read from right to left, adding) records of
  weight 0 anywhere in a group changes neither the final grade nor the letter. A group
  whose records all have weight 0 has total weight 0 and gets the same result as the
  empty group: final grade 0 and letter F. In the report card: when such records are
  removed from the store, every subject that is still listed keeps its final grade and
  letter, and a subject that is no longer listed had total weight 0, final grade 0 and
  letter F.
\<close>

theorem zero_weight_neutral:
  "((\<forall>s \<in> set records. validated s) \<and> (\<forall>s \<in> set records. \<not> keep s \<longrightarrow> s_weight s = 0) \<longrightarrow>
      aggregate (filter keep records) = aggregate records)
   \<and> ((\<forall>s \<in> set records. validated s \<and> s_weight s = 0) \<longrightarrow>
      totalWeight records = Fin 0 \<and> aggregate records = (Fin 0, ''F'') \<and>
      aggregate records = aggregate [])
   \<and> ((\<forall>s \<in> set (scores db). validated s) \<and>
       (\<forall>s \<in> set (scores db). \<not> keep s \<longrightarrow> s_weight s = 0) \<and>
       getStudentGrades db studentId semesterId = Inr results \<and>
       getStudentGrades (db\<lparr>scores := filter keep (scores db)\<rparr>) studentId semesterId
         = Inr results' \<longrightarrow>
      (\<forall>g' \<in> set results'. \<exists>g \<in> set results.
          g_subject g = g_subject g' \<and> g_finalGrade g = g_finalGrade g' \<and>
          g_letterGrade g = g_letterGrade g')
      \<and> (\<forall>g \<in> set results.
          (\<exists>g' \<in> set results'.
             g_subject g' = g_subject g \<and> g_finalGrade g' = g_finalGrade g \<and>
             g_letterGrade g' = g_letterGrade g)
          \<or> (g_totalWeight g = Fin 0 \<and> g_finalGrade g = Fin 0 \<and> g_letterGrade g = ''F'')))"
proof (intro conjI impI)
  assume "(\<forall>s \<in> set records. validated s) \<and> (\<forall>s \<in> set records. \<not> keep s \<longrightarrow> s_weight s = 0)"
  then show "aggregate (filter keep records) = aggregate records"
    by (simp add: aggregate_eq totalWeightedScore_filter totalWeight_filter)
next
  assume a: "\<forall>s \<in> set records. validated s \<and> s_weight s = 0"
  then have "totalWeight (filter (\<lambda>s. False) records) = totalWeight records"
    by (intro totalWeight_filter) simp
  then show t: "totalWeight records = Fin 0" by (simp add: totalWeight_def)
  then show "aggregate records = (Fin 0, ''F'')" and "aggregate records = aggregate []"
    by (simp_all add: aggregate_eq totalWeight_def)
next
  assume a: "(\<forall>s \<in> set (scores db). validated s) \<and>
       (\<forall>s \<in> set (scores db). \<not> keep s \<longrightarrow> s_weight s = 0) \<and>
       getStudentGrades db studentId semesterId = Inr results \<and>
       getStudentGrades (db\<lparr>scores := filter keep (scores db)\<rparr>) studentId semesterId
         = Inr results'"
  let ?db' = "db\<lparr>scores := filter keep (scores db)\<rparr>"
  let ?all = "scoresOfStudent db studentId semesterId"
  let ?rows = "\<lambda>k. filter (\<lambda>row. s_subjectId (fst row) = k) ?all"
  let ?kept = "\<lambda>k. filter (\<lambda>row. keep (fst row)) (?rows k)"
  from a have r: "getStudentGrades db studentId semesterId = Inr results"
    and r': "getStudentGrades ?db' studentId semesterId = Inr results'" by simp_all
  have all': "scoresOfStudent ?db' studentId semesterId = filter (\<lambda>row. keep (fst row)) ?all"
    by (rule scoresOfStudent_filter) simp_all
  have rows': "filter (\<lambda>row. s_subjectId (fst row) = k) (scoresOfStudent ?db' studentId semesterId)
               = ?kept k" for k
    by (simp add: all' conj_commute)
  have valid: "\<forall>s \<in> set (map fst (?rows k)). validated s" for k
    using a scoresOfStudent_set(1) by auto
  have zero: "\<forall>s \<in> set (map fst (?rows k)). \<not> keep s \<longrightarrow> s_weight s = 0" for k
    using a scoresOfStudent_set(1) by auto
  have fst_kept: "map fst (?kept k) = filter keep (map fst (?rows k))" for k
    by (simp add: filter_map comp_def)
  have same: "finalGrade (totalWeightedScore (map fst (?kept k))) (totalWeight (map fst (?kept k)))
              = finalGrade (totalWeightedScore (map fst (?rows k))) (totalWeight (map fst (?rows k)))"
    for k
    unfolding fst_kept
    by (simp add: totalWeightedScore_filter [OF valid zero] totalWeight_filter [OF zero])
  let ?G = "\<lambda>k. subjectGrade (subjectData (?rows k))"
  let ?G' = "\<lambda>k. subjectGrade (subjectData (?kept k))"
  have grades: "g_finalGrade (?G' k) = g_finalGrade (?G k) \<and>
                g_letterGrade (?G' k) = g_letterGrade (?G k)" for k
    by (simp only: subjectGrade_fields subjectData_fields same simp_thms)
  have subj: "g_subject (?G k) = k" if "?rows k \<noteq> []" for k
    using subjectGrade_subject [OF refl that] .
  have subj': "g_subject (?G' k) = k" if "?kept k \<noteq> []" for k
  proof -
    have "?kept k = filter (\<lambda>row. s_subjectId (fst row) = k) (filter (\<lambda>row. keep (fst row)) ?all)"
      by (simp add: conj_commute)
    from subjectGrade_subject [OF this that] show ?thesis .
  qed
  have mem: "?G k \<in> set results" if "?rows k \<noteq> []" for k
    using report_member [OF r, of "?G k"] subj [OF that] that by simp
  have mem': "?G' k \<in> set results'" if "?kept k \<noteq> []" for k
    using report_member [OF r', of "?G' k"] subj' [OF that] that by (simp add: rows')
  show "\<forall>g' \<in> set results'. \<exists>g \<in> set results.
          g_subject g = g_subject g' \<and> g_finalGrade g = g_finalGrade g' \<and>
          g_letterGrade g = g_letterGrade g'"
  proof
    fix g'
    assume "g' \<in> set results'"
    with report_member [OF r', of g'] have ne: "?kept (g_subject g') \<noteq> []"
      and g': "g' = ?G' (g_subject g')" by (simp_all add: rows')
    from ne have ne0: "?rows (g_subject g') \<noteq> []" by (metis filter.simps(1))
    have "g_subject (?G (g_subject g')) = g_subject g'" using subj [OF ne0] .
    moreover have "g_finalGrade (?G (g_subject g')) = g_finalGrade g'"
      and "g_letterGrade (?G (g_subject g')) = g_letterGrade g'"
      using grades [of "g_subject g'"] g' by simp_all
    ultimately show "\<exists>g \<in> set results.
          g_subject g = g_subject g' \<and> g_finalGrade g = g_finalGrade g' \<and>
          g_letterGrade g = g_letterGrade g'"
      using mem [OF ne0] by blast
  qed
  show "\<forall>g \<in> set results.
          (\<exists>g' \<in> set results'.
             g_subject g' = g_subject g \<and> g_finalGrade g' = g_finalGrade g \<and>
             g_letterGrade g' = g_letterGrade g)
          \<or> (g_totalWeight g = Fin 0 \<and> g_finalGrade g = Fin 0 \<and> g_letterGrade g = ''F'')"
  proof
    fix g
    assume "g \<in> set results"
    with report_member [OF r, of g] have ne: "?rows (g_subject g) \<noteq> []"
      and g: "g = ?G (g_subject g)" by simp_all
    show "(\<exists>g' \<in> set results'.
             g_subject g' = g_subject g \<and> g_finalGrade g' = g_finalGrade g \<and>
             g_letterGrade g' = g_letterGrade g)
          \<or> (g_totalWeight g = Fin 0 \<and> g_finalGrade g = Fin 0 \<and> g_letterGrade g = ''F'')"
    proof (cases "?kept (g_subject g) = []")
      case False
      have "g_subject (?G' (g_subject g)) = g_subject g" using subj' [OF False] .
      moreover have "g_finalGrade (?G' (g_subject g)) = g_finalGrade g"
        and "g_letterGrade (?G' (g_subject g)) = g_letterGrade g"
        using grades [of "g_subject g"] g by simp_all
      ultimately show ?thesis using mem' [OF False] by blast
    next
      case True
      then have "filter keep (map fst (?rows (g_subject g))) = []"
        using fst_kept [of "g_subject g"] by simp
      then have "totalWeight (map fst (?rows (g_subject g))) = totalWeight []"
        using totalWeight_filter [OF zero, of "g_subject g"] by simp
      then have "totalWeight (map fst (?rows (g_subject g))) = Fin 0"
        by (simp add: totalWeight_def)
      then have "g_totalWeight (?G (g_subject g)) = Fin 0 \<and>
                 g_finalGrade (?G (g_subject g)) = Fin 0 \<and>
                 g_letterGrade (?G (g_subject g)) = ''F''"
        by (simp add: subjectGrade_fields subjectData_fields)
      with g show ?thesis by simp
    qed
  qed
qed

theorem zero_weight_neutral_witness:
  "aggregate (filter (\<lambda>s. s_weight s \<noteq> 0) [quiz45, homework10]) = aggregate [quiz45, homework10]
   \<and> totalWeight [homework10] = Fin 0
   \<and> aggregate [homework10] = (Fin 0, ''F'')
   \<and> getStudentGrades exampleDb ''s1'' None = Inr [mathGrade]
   \<and> getStudentGrades (exampleDb\<lparr>scores := [quiz45, quiz30]\<rparr>) ''s1'' None = Inr [singleGrade]
   \<and> g_finalGrade mathGrade = g_finalGrade singleGrade
   \<and> g_letterGrade mathGrade = g_letterGrade singleGrade"
proof -
  let ?keep = "\<lambda>s. s_weight s \<noteq> 0"
  have v: "\<forall>s \<in> set (scores exampleDb). validated s"
    by (simp add: exampleDb_def example_validated)
  have z: "\<forall>s \<in> set (scores exampleDb). \<not> ?keep s \<longrightarrow> s_weight s = 0" by simp
  have k: "filter ?keep (scores exampleDb) = [quiz45, quiz30]" by (simp add: exampleDb_def)
  note t1 = zero_weight_neutral [of "[quiz45, homework10]" ?keep exampleDb "''s1''" None
      "[mathGrade]" "[singleGrade]"]
  note t2 = zero_weight_neutral [of "[homework10]" ?keep exampleDb "''s1''" None
      "[mathGrade]" "[singleGrade]"]
  from t1 have a: "aggregate (filter ?keep [quiz45, homework10]) = aggregate [quiz45, homework10]"
    by (simp add: example_validated)
  from t2 have b: "totalWeight [homework10] = Fin 0 \<and> aggregate [homework10] = (Fin 0, ''F'')"
    by (simp add: example_validated)
  from t1 v z example_reportCard kept_reportCard
  have "\<forall>g' \<in> set [singleGrade]. \<exists>g \<in> set [mathGrade].
          g_subject g = g_subject g' \<and> g_finalGrade g = g_finalGrade g' \<and>
          g_letterGrade g = g_letterGrade g'"
    unfolding k by blast
  then have c: "g_finalGrade mathGrade = g_finalGrade singleGrade \<and>
                g_letterGrade mathGrade = g_letterGrade singleGrade" by simp
  from a b c example_reportCard kept_reportCard show ?thesis by blast
qed

text \<open>
  C7, as the code has it. The report card is computed from the fetched records and their
  order alone. Two stores with the student give the same report card when they give the
  same fetched rows, whatever else they hold (other students' records, enrollments, audit
  log); they give the same entry for a subject (final grade, letter, per-record results),
  or both none, when they give the same rows of that subject in the same order; and when
  they give the same set of rows, in any order, they list the same subjects with the same
  per-record results. The function returns no store, so a second call sees nothing of the
  first.
\<close>

theorem grades_determined_by_records:
  "findStudent db studentId = Some student \<and> findStudent db' studentId' = Some student' \<longrightarrow>
     (\<exists>results results'.
        getStudentGrades db studentId semesterId = Inr results \<and>
        getStudentGrades db' studentId' semesterId' = Inr results' \<and>
        (scoresOfStudent db studentId semesterId = scoresOfStudent db' studentId' semesterId' \<longrightarrow>
           results = results') \<and>
        (filter (\<lambda>row. s_subjectId (fst row) = k) (scoresOfStudent db studentId semesterId) =
         filter (\<lambda>row. s_subjectId (fst row) = k) (scoresOfStudent db' studentId' semesterId') \<longrightarrow>
           filter (\<lambda>g. g_subject g = k) results = filter (\<lambda>g. g_subject g = k) results') \<and>
        (set (scoresOfStudent db studentId semesterId) =
         set (scoresOfStudent db' studentId' semesterId') \<longrightarrow>
           g_subject ` set results = g_subject ` set results' \<and>
           (\<forall>g \<in> set results. \<forall>g' \<in> set results'.
              g_subject g = g_subject g' \<longrightarrow> set (g_scores g) = set (g_scores g'))))"
proof
  assume a: "findStudent db studentId = Some student \<and> findStudent db' studentId' = Some student'"
  let ?rows = "scoresOfStudent db studentId semesterId"
  let ?rows' = "scoresOfStudent db' studentId' semesterId'"
  from a report_total [of db studentId student semesterId] obtain results
    where r: "getStudentGrades db studentId semesterId = Inr results" by blast
  from a report_total [of db' studentId' student' semesterId'] obtain results'
    where r': "getStudentGrades db' studentId' semesterId' = Inr results'" by blast
  have A: "results = results'" if "?rows = ?rows'"
    using that by (simp only: getStudentGrades_groups [OF r] getStudentGrades_groups [OF r'])
  have B: "filter (\<lambda>g. g_subject g = k) results = filter (\<lambda>g. g_subject g = k) results'"
    if "filter (\<lambda>row. s_subjectId (fst row) = k) ?rows =
        filter (\<lambda>row. s_subjectId (fst row) = k) ?rows'"
    using that by (simp only: report_lookup [OF r] report_lookup [OF r'])
  have C1: "g_subject ` set results = g_subject ` set results'" if "set ?rows = set ?rows'"
    using that by (simp only: report_subjects [OF r] report_subjects [OF r'])
  have C2: "set (g_scores g) = set (g_scores g')"
    if s: "set ?rows = set ?rows'" and g: "g \<in> set results" and g': "g' \<in> set results'"
      and e: "g_subject g = g_subject g'" for g g'
  proof -
    have "set (g_scores g) =
          (\<lambda>row. scoreEntry (fst row)) ` {row \<in> set ?rows. s_subjectId (fst row) = g_subject g}"
      by (simp add: report_entry(2) [OF r g])
    also have "\<dots> =
          (\<lambda>row. scoreEntry (fst row)) ` {row \<in> set ?rows'. s_subjectId (fst row) = g_subject g'}"
      by (simp only: s e)
    also have "\<dots> = set (g_scores g')"
      by (simp add: report_entry(2) [OF r' g'])
    finally show ?thesis .
  qed
  show "\<exists>results results'.
        getStudentGrades db studentId semesterId = Inr results \<and>
        getStudentGrades db' studentId' semesterId' = Inr results' \<and>
        (?rows = ?rows' \<longrightarrow> results = results') \<and>
        (filter (\<lambda>row. s_subjectId (fst row) = k) ?rows =
         filter (\<lambda>row. s_subjectId (fst row) = k) ?rows' \<longrightarrow>
           filter (\<lambda>g. g_subject g = k) results = filter (\<lambda>g. g_subject g = k) results') \<and>
        (set ?rows = set ?rows' \<longrightarrow>
           g_subject ` set results = g_subject ` set results' \<and>
           (\<forall>g \<in> set results. \<forall>g' \<in> set results'.
              g_subject g = g_subject g' \<longrightarrow> set (g_scores g) = set (g_scores g')))"
  proof (intro exI conjI impI ballI)
    show "getStudentGrades db studentId semesterId = Inr results" by (rule r)
    show "getStudentGrades db' studentId' semesterId' = Inr results'" by (rule r')
    show "results = results'" if "?rows = ?rows'" using that by (rule A)
    show "filter (\<lambda>g. g_subject g = k) results = filter (\<lambda>g. g_subject g = k) results'"
      if "filter (\<lambda>row. s_subjectId (fst row) = k) ?rows =
          filter (\<lambda>row. s_subjectId (fst row) = k) ?rows'"
      using that by (rule B)
    show "g_subject ` set results = g_subject ` set results'" if "set ?rows = set ?rows'"
      using that by (rule C1)
    show "set (g_scores g) = set (g_scores g')"
      if "set ?rows = set ?rows'" "g \<in> set results" "g' \<in> set results'"
        "g_subject g = g_subject g'" for g g'
      using that by (rule C2)
  qed
qed

text \<open>
  C7 as stated fails: the final grade and the letter are not functions of the record
  set. The query of the report card has no \<^verbatim>\<open>orderBy\<close>, the totals are running sums of
  binary64 numbers, and three validated records give 90 and A in one table order, 89.99
  and B in another.
\<close>

theorem grades_depend_on_order_counterexample:
  "validated homework899 \<and> validated quiz9008 \<and> validated final90
   \<and> set (scores reorderedDb) = set (scores termDb)
   \<and> getStudentGrades termDb ''s1'' None = Inr [termGrade]
   \<and> getStudentGrades reorderedDb ''s1'' None = Inr [reorderedGrade]
   \<and> g_finalGrade termGrade = Fin 90 \<and> g_letterGrade termGrade = ''A''
   \<and> g_finalGrade reorderedGrade = Number (8999 / 100) \<and> g_letterGrade reorderedGrade = ''B''
   \<and> g_finalGrade termGrade \<noteq> g_finalGrade reorderedGrade
   \<and> g_letterGrade termGrade \<noteq> g_letterGrade reorderedGrade"
proof -
  have "validated homework899" "validated quiz9008" "validated final90"
    by (simp_all add: validated_def decimal_def homework899_def quiz9008_def final90_def)
  moreover have "set (scores reorderedDb) = set (scores termDb)"
    by (auto simp: reorderedDb_def termDb_def)
  moreover have "Number (8999 / 100) \<noteq> Fin 90"
    by (simp add: Number_def rnd_8999)
  ultimately show ?thesis
    by (simp add: term_reportCard reordered_reportCard termGrade_def reorderedGrade_def)
qed

theorem grades_determined_by_records_witness:
  "getStudentGrades exampleDb ''s1'' None = Inr [mathGrade]
   \<and> getStudentGrades laterDb ''s1'' None = Inr [mathGrade]
   \<and> scoresOfStudent laterDb ''s1'' None = scoresOfStudent exampleDb ''s1'' None
   \<and> auditLogs laterDb \<noteq> auditLogs exampleDb
   \<and> scores laterDb \<noteq> scores exampleDb
   \<and> getStudentGrades termDb ''s1'' None = Inr [termGrade]
   \<and> getStudentGrades reorderedDb ''s1'' None = Inr [reorderedGrade]
   \<and> set (scoresOfStudent termDb ''s1'' None) = set (scoresOfStudent reorderedDb ''s1'' None)
   \<and> g_subject termGrade = g_subject reorderedGrade
   \<and> set (g_scores termGrade) = set (g_scores reorderedGrade)"
proof -
  have f: "findStudent laterDb ''s1'' =
        Some \<lparr>st_id = ''s1'', st_firstName = ''Ann'', st_lastName = ''Doe''\<rparr>"
    by (simp add: findStudent_def laterDb_def exampleDb_def)
  have same: "scoresOfStudent exampleDb ''s1'' None = scoresOfStudent laterDb ''s1'' None"
    by (simp only: example_scoresOfStudent later_scoresOfStudent)
  note t = grades_determined_by_records [of exampleDb "''s1''" _ laterDb "''s1''" _ None None
      "''math''", THEN mp, OF conjI [OF example_findStudent f]]
  then obtain results where "\<exists>results'.
        getStudentGrades exampleDb ''s1'' None = Inr results \<and>
        getStudentGrades laterDb ''s1'' None = Inr results' \<and>
        (scoresOfStudent exampleDb ''s1'' None = scoresOfStudent laterDb ''s1'' None \<longrightarrow>
           results = results') \<and>
        (filter (\<lambda>row. s_subjectId (fst row) = ''math'') (scoresOfStudent exampleDb ''s1'' None) =
         filter (\<lambda>row. s_subjectId (fst row) = ''math'') (scoresOfStudent laterDb ''s1'' None) \<longrightarrow>
           filter (\<lambda>g. g_subject g = ''math'') results =
           filter (\<lambda>g. g_subject g = ''math'') results') \<and>
        (set (scoresOfStudent exampleDb ''s1'' None) = set (scoresOfStudent laterDb ''s1'' None) \<longrightarrow>
           g_subject ` set results = g_subject ` set results' \<and>
           (\<forall>g \<in> set results. \<forall>g' \<in> set results'.
              g_subject g = g_subject g' \<longrightarrow> set (g_scores g) = set (g_scores g')))" ..
  then obtain results' where "getStudentGrades exampleDb ''s1'' None = Inr results"
    and "getStudentGrades laterDb ''s1'' None = Inr results'"
    and "scoresOfStudent exampleDb ''s1'' None = scoresOfStudent laterDb ''s1'' None \<longrightarrow>
           results = results'"
    by (elim exE conjE)
  with same have l: "getStudentGrades laterDb ''s1'' None = Inr [mathGrade]"
    by (simp add: example_reportCard)
  have s: "set (scoresOfStudent termDb ''s1'' None) = set (scoresOfStudent reorderedDb ''s1'' None)"
    by (simp add: term_scoresOfStudent insert_commute)
  note u = grades_determined_by_records [of termDb "''s1''" _ reorderedDb "''s1''" _ None None
      "''math''", THEN mp, OF conjI [OF term_findStudent(1) term_findStudent(2)]]
  then obtain results where "\<exists>results'.
        getStudentGrades termDb ''s1'' None = Inr results \<and>
        getStudentGrades reorderedDb ''s1'' None = Inr results' \<and>
        (scoresOfStudent termDb ''s1'' None = scoresOfStudent reorderedDb ''s1'' None \<longrightarrow>
           results = results') \<and>
        (filter (\<lambda>row. s_subjectId (fst row) = ''math'') (scoresOfStudent termDb ''s1'' None) =
         filter (\<lambda>row. s_subjectId (fst row) = ''math'') (scoresOfStudent reorderedDb ''s1'' None) \<longrightarrow>
           filter (\<lambda>g. g_subject g = ''math'') results =
           filter (\<lambda>g. g_subject g = ''math'') results') \<and>
        (set (scoresOfStudent termDb ''s1'' None) = set (scoresOfStudent reorderedDb ''s1'' None) \<longrightarrow>
           g_subject ` set results = g_subject ` set results' \<and>
           (\<forall>g \<in> set results. \<forall>g' \<in> set results'.
              g_subject g = g_subject g' \<longrightarrow> set (g_scores g) = set (g_scores g')))" ..
  then obtain results' where tr: "getStudentGrades termDb ''s1'' None = Inr results"
    and rr: "getStudentGrades reorderedDb ''s1'' None = Inr results'"
    and c: "set (scoresOfStudent termDb ''s1'' None) = set (scoresOfStudent reorderedDb ''s1'' None) \<longrightarrow>
           g_subject ` set results = g_subject ` set results' \<and>
           (\<forall>g \<in> set results. \<forall>g' \<in> set results'.
              g_subject g = g_subject g' \<longrightarrow> set (g_scores g) = set (g_scores g'))"
    by (elim exE conjE)
  have e: "g_subject termGrade = g_subject reorderedGrade"
    by (simp add: termGrade_def reorderedGrade_def)
  from tr rr have "termGrade \<in> set results" "reorderedGrade \<in> set results'"
    by (auto simp: term_reportCard reordered_reportCard)
  with c s e have p: "set (g_scores termGrade) = set (g_scores reorderedGrade)"
    by blast
  have "auditLogs laterDb \<noteq> auditLogs exampleDb" "scores laterDb \<noteq> scores exampleDb"
    by (simp_all add: laterDb_def exampleDb_def)
  with p show ?thesis
    using example_reportCard l same s e term_reportCard reordered_reportCard by simp
qed

text \<open>
  C8. The report card has an entry for a subject exactly when the fetched scores (those of
  the student, in the semester when one is given) contain a score of that subject. Every
  entry lists at least one score, so the summary of an empty group never appears here.
\<close>

theorem report_card_subjects:
  "getStudentGrades db studentId semesterId = Inr results \<longrightarrow>
     ((\<exists>g \<in> set results. g_subject g = k) \<longleftrightarrow>
        (\<exists>row \<in> set (scoresOfStudent db studentId semesterId). s_subjectId (fst row) = k))
     \<and> (\<forall>g \<in> set results. g_scores g \<noteq> [])"
proof (intro impI conjI ballI)
  assume r: "getStudentGrades db studentId semesterId = Inr results"
  let ?all = "scoresOfStudent db studentId semesterId"
  let ?key = "\<lambda>row. s_subjectId (fst row)"
  show "(\<exists>g \<in> set results. g_subject g = k) \<longleftrightarrow> (\<exists>row \<in> set ?all. ?key row = k)"
  proof
    assume "\<exists>g \<in> set results. g_subject g = k"
    then obtain g where g: "g \<in> set results" and k: "g_subject g = k" by blast
    from report_entry(1) [OF r g] obtain row
      where "row \<in> set (filter (\<lambda>row. ?key row = g_subject g) ?all)"
      by (meson hd_in_set)
    then show "\<exists>row \<in> set ?all. ?key row = k" using k by auto
  next
    assume "\<exists>row \<in> set ?all. ?key row = k"
    then have kin: "k \<in> set (map ?key ?all)" by auto
    let ?g = "subjectGrade (subjectData (filter (\<lambda>row. ?key row = k) ?all))"
    have "?g \<in> set results"
      unfolding getStudentGrades_groups [OF r] using kin by force
    moreover have "g_subject ?g = k"
      using hd_filter_key(2) [OF kin] by (simp add: subjectGrade_fields subjectData_fields)
    ultimately show "\<exists>g \<in> set results. g_subject g = k" by blast
  qed
next
  fix g
  assume r: "getStudentGrades db studentId semesterId = Inr results" and g: "g \<in> set results"
  from report_entry(1,2) [OF r g] show "g_scores g \<noteq> []" by simp
qed

theorem report_card_subjects_witness:
  "getStudentGrades exampleDb ''s1'' None = Inr [mathGrade]
   \<and> g_subject mathGrade = ''math''
   \<and> s_subjectId (fst (quiz45, mathClass)) = ''math''
   \<and> (quiz45, mathClass) \<in> set (scoresOfStudent exampleDb ''s1'' None)
   \<and> g_scores mathGrade \<noteq> []"
  using report_card_subjects [of exampleDb "''s1''" None "[mathGrade]" "''math''"]
    example_reportCard
  by (simp add: example_scoresOfStudent mathGrade_def)

text \<open>
  C9, as the code has it. The grade book answers when the class subject exists, with
  exactly one entry per student who has an ACTIVE enrollment in the class (a student with
  several such enrollments gets one entry). A score whose student has no ACTIVE enrollment
  changes nothing: removing all such scores from the store leaves the whole answer as it
  is.
\<close>

theorem gradebook_one_entry_per_student:
  "(findClassSubject db classSubjectId = Some classSubject \<longrightarrow>
      (\<exists>entries. getClassSubjectScores db classSubjectId = Inr (classSubject, entries)))
   \<and> (getClassSubjectScores db classSubjectId = Inr (classSubject, entries) \<longrightarrow>
     distinct (map sg_student entries)
     \<and> set (map sg_student entries) = en_studentId ` set (activeEnrollments db classSubject)
     \<and> getClassSubjectScores
         (db\<lparr>scores := filter (\<lambda>s. s_studentId s \<in>
                                   en_studentId ` set (activeEnrollments db classSubject))
                           (scores db)\<rparr>) classSubjectId
       = Inr (classSubject, entries))"
proof (rule conjI)
  show "findClassSubject db classSubjectId = Some classSubject \<longrightarrow>
      (\<exists>entries. getClassSubjectScores db classSubjectId = Inr (classSubject, entries))"
    by (simp add: getClassSubjectScores_eq)
next
  show "getClassSubjectScores db classSubjectId = Inr (classSubject, entries) \<longrightarrow>
     distinct (map sg_student entries)
     \<and> set (map sg_student entries) = en_studentId ` set (activeEnrollments db classSubject)
     \<and> getClassSubjectScores
         (db\<lparr>scores := filter (\<lambda>s. s_studentId s \<in>
                                   en_studentId ` set (activeEnrollments db classSubject))
                           (scores db)\<rparr>) classSubjectId
       = Inr (classSubject, entries)"
  proof
    assume r: "getClassSubjectScores db classSubjectId = Inr (classSubject, entries)"
    let ?ks = "firstKeys (map en_studentId (activeEnrollments db classSubject))"
    let ?A = "en_studentId ` set (activeEnrollments db classSubject)"
    let ?db' = "db\<lparr>scores := filter (\<lambda>s. s_studentId s \<in> ?A) (scores db)\<rparr>"
    let ?all = "scoresOfClassSubject db classSubjectId"
    note cs = getClassSubjectScores_groups(1) [OF r]
    note en = getClassSubjectScores_groups(2) [OF r]
    have keys: "map sg_student entries = ?ks"
      unfolding en by (simp add: comp_def studentGrade_fields studentData_fields)
    have cs': "findClassSubject ?db' classSubjectId = Some classSubject"
      using cs by (simp add: findClassSubject_def)
    have act: "activeEnrollments ?db' classSubject = activeEnrollments db classSubject"
      by (simp add: activeEnrollments_def)
    have sc: "scoresOfClassSubject ?db' classSubjectId = filter (\<lambda>s. s_studentId s \<in> ?A) ?all"
      by (rule scoresOfClassSubject_filter) simp_all
    have "filter (\<lambda>s. s_studentId s = k) (filter (\<lambda>s. s_studentId s \<in> ?A) ?all) =
          filter (\<lambda>s. s_studentId s = k) ?all" if "k \<in> set ?ks" for k
      using that by (auto intro: filter_cong)
    then have "map (\<lambda>k. studentGrade (studentData k (filter (\<lambda>s. s_studentId s = k)
                   (filter (\<lambda>s. s_studentId s \<in> ?A) ?all)))) ?ks = entries"
      unfolding en by (intro map_cong) simp_all
    then have same: "getClassSubjectScores ?db' classSubjectId = Inr (classSubject, entries)"
      by (simp add: getClassSubjectScores_eq [OF cs'] act sc)
    show "distinct (map sg_student entries)
          \<and> set (map sg_student entries) = ?A
          \<and> getClassSubjectScores ?db' classSubjectId = Inr (classSubject, entries)"
      using same by (simp add: keys)
  qed
qed

text \<open>
  C9 as stated fails: with a student enrolled twice in the class (for two academic
  years, both ACTIVE) there are three ACTIVE enrollments and two entries.
\<close>

theorem gradebook_entry_per_enrollment_counterexample:
  "getClassSubjectScores twiceEnrolledDb ''cs1'' = Inr (mathClass, [annGrade, bobGrade])
   \<and> length (activeEnrollments twiceEnrolledDb mathClass) = 3
   \<and> length [annGrade, bobGrade] \<noteq> length (activeEnrollments twiceEnrolledDb mathClass)"
proof -
  have "length (map en_studentId (activeEnrollments twiceEnrolledDb mathClass)) = 3"
    by (simp only: twice_activeEnrollments) simp
  then show ?thesis by (simp add: twice_gradebook)
qed

theorem gradebook_one_entry_per_student_witness:
  "getClassSubjectScores exampleDb ''cs1'' = Inr (mathClass, [annGrade, bobGrade])
   \<and> distinct (map sg_student [annGrade, bobGrade])
   \<and> set (map sg_student [annGrade, bobGrade]) = {''s1'', ''s2''}
   \<and> en_studentId ` set (activeEnrollments exampleDb mathClass) = {''s1'', ''s2''}
   \<and> getClassSubjectScores (exampleDb\<lparr>scores := [quiz45, homework10]\<rparr>) ''cs1''
       = Inr (mathClass, [annGrade, bobGrade])"
proof -
  have a: "en_studentId ` set (activeEnrollments exampleDb mathClass) = {''s1'', ''s2''}"
    using example_activeEnrollments by (metis list.set_map list.simps(15) empty_set)
  have f: "filter (\<lambda>s. s_studentId s \<in> {''s1'', ''s2''}) (scores exampleDb) = [quiz45, homework10]"
    by (simp add: exampleDb_def)
  note t = gradebook_one_entry_per_student [of exampleDb "''cs1''" mathClass
      "[annGrade, bobGrade]", THEN conjunct2, THEN mp, OF example_gradebook]
  from t have d: "distinct (map sg_student [annGrade, bobGrade])"
    and s: "set (map sg_student [annGrade, bobGrade]) =
            en_studentId ` set (activeEnrollments exampleDb mathClass)"
    and g: "getClassSubjectScores
          (exampleDb\<lparr>scores := filter (\<lambda>s. s_studentId s \<in>
              en_studentId ` set (activeEnrollments exampleDb mathClass)) (scores exampleDb)\<rparr>)
          ''cs1'' = Inr (mathClass, [annGrade, bobGrade])"
    by blast+
  from g have "getClassSubjectScores (exampleDb\<lparr>scores := [quiz45, homework10]\<rparr>) ''cs1''
             = Inr (mathClass, [annGrade, bobGrade])"
    by (simp only: a f)
  with example_gradebook a d s show ?thesis by (simp only: simp_thms)
qed

text \<open>
  C10. The schemas of the three numeric fields accept score 150, maxScore 100 and
  weight 1, the stored row is a validated one, and the report card of that single row
  shows percentage 150 and final grade 150, both above 100, with letter A.
\<close>

theorem score_above_maximum:
  "zScore (JNum (Fin 150)) = Some (Fin 150)
   \<and> zMaxScore (JNum (Fin 100)) = Some (Fin 100)
   \<and> zWeight (JNum (Fin 1)) = Some (Fin 1)
   \<and> validated over100
   \<and> s_score over100 = 150 \<and> s_maxScore over100 = 100 \<and> s_weight over100 = 1
   \<and> getStudentGrades over100Db ''s1'' None = Inr [over100Grade]
   \<and> map e_percentage (g_scores over100Grade) = [Fin 150]
   \<and> g_finalGrade over100Grade = Fin 150
   \<and> gt (Fin 150) (Fin 100)
   \<and> g_letterGrade over100Grade = ''A''"
  by (simp add: zScore_def zMaxScore_def zWeight_def zNumber_def validated_def decimal_def
        over100_reportCard over100Grade_def scoreEntry_def over100_numbers round2_numeral)
     (simp add: over100_def)

end
